theory Spec2Isabelle
  imports Main "HOL-Library.Sublist"
begin

section \<open>Python values used by the pipeline\<close>

text \<open>
  A Python \<open>str\<close> is a sequence of Unicode code points: \<open>len\<close>, slicing and
  \<open>strip\<close> count code points, not bytes. A string is therefore a list of code points,
  each a natural number. ASCII literals are written through \<open>ascii\<close>.
\<close>

type_synonym pystr = "nat list"

definition ascii :: "string \<Rightarrow> pystr" where
  "ascii s = map of_char s"

text \<open>
  An evidence item is a Python \<open>dict\<close> whose keys and values are strings (the fields
  \<open>href\<close>, \<open>title\<close>, \<open>source\<close>, \<open>date\<close>, \<open>summary\<close>, \<open>article_title\<close>,
  \<open>article_text\<close>). A dict keeps insertion order, so it is an association list with
  unique keys; \<open>d[k] = v\<close> keeps the position of an existing key.
\<close>

type_synonym item = "(pystr \<times> pystr) list"

text \<open>
  Exceptions, by the classes the handlers tell apart, with their message. The first four
  are subclasses of \<open>httpx.HTTPError\<close>: the two timeouts the code names, any other
  transport error (\<open>ConnectError\<close>, \<open>ReadError\<close>, ...), and the error that
  \<open>raise_for_status\<close> raises, with the status code. Everything else is an
  \<open>OtherException\<close>.
\<close>

datatype exn =
    ReadTimeout pystr
  | ConnectTimeout pystr
  | TransportError pystr
  | HTTPStatusError int
  | OtherException pystr

fun is_httpx_HTTPError :: "exn \<Rightarrow> bool" where
  "is_httpx_HTTPError (OtherException m) = False"
| "is_httpx_HTTPError e = True"

text \<open>
  \<open>str.lower\<close>, exact on the code points whose lower case contains an ASCII letter
  (\<open>A\<close> to \<open>Z\<close>, U+0130 and the Kelvin sign U+212A). Python maps every other code
  point outside ASCII to code points outside ASCII; they are left as they are here, which
  does not change any comparison with ASCII text.
\<close>

definition lower_cp :: "nat \<Rightarrow> pystr" where
  "lower_cp c =
     (if 65 \<le> c \<and> c \<le> 90 then [c + 32]
      else if c = 304 then [105, 775]
      else if c = 8490 then [107]
      else [c])"

definition py_lower :: "pystr \<Rightarrow> pystr" where
  "py_lower s = concat (map lower_cp s)"

text \<open>\<open>needle in hay\<close> on strings.\<close>

fun contains :: "pystr \<Rightarrow> pystr \<Rightarrow> bool" where
  "contains needle [] = (needle = [])"
| "contains needle (c # cs) = (prefix needle (c # cs) \<or> contains needle cs)"

text \<open>\<open>d[k] = v\<close> on a dict, and \<open>{**d, k: v}\<close>.\<close>

fun dict_set :: "'k \<Rightarrow> 'v \<Rightarrow> ('k \<times> 'v) list \<Rightarrow> ('k \<times> 'v) list" where
  "dict_set k v [] = [(k, v)]"
| "dict_set k v ((k', v') # kvs) =
     (if k' = k then (k, v) # kvs else (k', v') # dict_set k v kvs)"

text \<open>A slice \<open>xs[:n]\<close>: a negative \<open>n\<close> counts from the end.\<close>

definition py_slice_to :: "int \<Rightarrow> 'a list \<Rightarrow> 'a list" where
  "py_slice_to n xs = (if n \<ge> 0 then take (nat n) xs else take (length xs - nat (- n)) xs)"

section \<open>Domain suppression store (crawler\_service.py)\<close>

record suppress_rec =
  count :: int
  suppress_until :: int

type_synonym suppress_store = "pystr \<rightharpoonup> suppress_rec"

record crawler_cfg =
  per_site_limit :: int
  max_total_limit :: int
  time_days :: int
  trusted_domains :: "pystr list"
  blacklist_domains :: "pystr list"
  suppress_threshold :: int
  suppress_hours :: int

text \<open>
  \<open>CrawlerService._record_failure\<close>; \<open>now\<close> is the value of \<open>int(time.time())\<close>
  read by the call.
\<close>

definition record_failure :: "crawler_cfg \<Rightarrow> int \<Rightarrow> pystr \<Rightarrow> suppress_store \<Rightarrow> suppress_store" where
  "record_failure cfg now domain st =
     (let rec0 = (case st domain of Some r \<Rightarrow> r | None \<Rightarrow> \<lparr>count = 0, suppress_until = 0\<rparr>);
          rec1 = rec0\<lparr>count := count rec0 + 1\<rparr>;
          rec2 = (if count rec1 \<ge> suppress_threshold cfg
                  then rec1\<lparr>suppress_until := now + suppress_hours cfg * 3600\<rparr>
                  else rec1)
      in st(domain \<mapsto> rec2))"

text \<open>\<open>CrawlerService._record_success\<close>.\<close>

definition record_success :: "pystr \<Rightarrow> suppress_store \<Rightarrow> suppress_store" where
  "record_success domain st = (if domain \<in> dom st then st(domain := None) else st)"

text \<open>
  The head of \<open>CrawlerService._search_one_domain\<close>: the blacklist check, then the
  suppression check against the clock.
\<close>

datatype gate = SkipBlacklisted | SkipSuppressed | Proceed

definition search_one_domain_gate :: "crawler_cfg \<Rightarrow> suppress_store \<Rightarrow> pystr \<Rightarrow> int \<Rightarrow> gate" where
  "search_one_domain_gate cfg st domain now =
     (if domain \<in> set (crawler_cfg.blacklist_domains cfg) then SkipBlacklisted
      else case st domain of
             Some r \<Rightarrow> if suppress_until r > now then SkipSuppressed else Proceed
           | None \<Rightarrow> Proceed)"

text \<open>
  \<open>CrawlerService._search_one_domain\<close>. The network part of the body (sitemap, home page
  and channel pages) is the environment's: \<open>crawl\<close> is either the exception it raised or
  the list \<open>items\<close> it collected. \<open>now\<close> is the clock read by the suppression check,
  \<open>now_fail\<close> the clock read by \<open>_record_failure\<close>.
\<close>

definition search_one_domain ::
  "crawler_cfg \<Rightarrow> int \<Rightarrow> int \<Rightarrow> pystr \<Rightarrow> exn + item list \<Rightarrow> suppress_store
     \<Rightarrow> (exn + item list) \<times> suppress_store" where
  "search_one_domain cfg now now_fail domain crawl st =
     (case search_one_domain_gate cfg st domain now of
        SkipBlacklisted \<Rightarrow> (Inr [], st)
      | SkipSuppressed \<Rightarrow> (Inr [], st)
      | Proceed \<Rightarrow>
          (case crawl of
             Inr items \<Rightarrow>
               (Inr (py_slice_to (per_site_limit cfg) items),
                if length items > 0 then record_success domain st else st)
           | Inl e \<Rightarrow> (Inl e, record_failure cfg now_fail domain st)))"

text \<open>Consecutive failures of one domain, at the clock readings \<open>ts\<close>.\<close>

definition record_failures :: "crawler_cfg \<Rightarrow> int list \<Rightarrow> pystr \<Rightarrow> suppress_store \<Rightarrow> suppress_store" where
  "record_failures cfg ts domain st = fold (\<lambda>now. record_failure cfg now domain) ts st"

definition count_of :: "suppress_store \<Rightarrow> pystr \<Rightarrow> int" where
  "count_of st domain = (case st domain of Some r \<Rightarrow> count r | None \<Rightarrow> 0)"

section \<open>Ranking of search results\<close>

text \<open>
  \<open>it.get(k1) or it.get(k2) or ... or dflt\<close>: the first value that is present and not
  the empty string, else the default.
\<close>

fun first_truthy :: "item \<Rightarrow> pystr list \<Rightarrow> pystr \<Rightarrow> pystr" where
  "first_truthy it [] dflt = dflt"
| "first_truthy it (k # ks) dflt =
     (case map_of it k of
        Some v \<Rightarrow> if v \<noteq> [] then v else first_truthy it ks dflt
      | None \<Rightarrow> first_truthy it ks dflt)"

text \<open>
  \<open>domain_of\<close> (search\_service.py, llm\_search\_service.py, mock\_service.py) and
  \<open>_domain\<close> (mcp\_ddg\_service.py): \<open>urlparse(url).netloc\<close>, or the empty string when
  \<open>urlparse\<close> raises. \<open>urlparse\<close> is the standard library's; its outcome on a URL is
  the parameter \<open>up\<close>.
\<close>

definition domain_of :: "(pystr \<Rightarrow> exn + pystr) \<Rightarrow> pystr \<Rightarrow> pystr" where
  "domain_of up url = (case up url of Inr netloc \<Rightarrow> netloc | Inl e \<Rightarrow> [])"

text \<open>The fields shared by the four providers that rank their results.\<close>

record provider_cfg =
  max_results :: int
  max_fetch_html :: int
  only_trusted :: bool
  trusted_domains :: "pystr list"
  blacklist_domains :: "pystr list"

text \<open>
  The loop of \<open>_rank_results\<close> / \<open>_rank\<close>, the same in the four classes but for the keys
  the URL is read from: \<open>dm\<close> gives the domain of an item, the pair is \<open>(trusted, others)\<close>.
\<close>

fun rank_loop ::
  "(item \<Rightarrow> pystr) \<Rightarrow> provider_cfg \<Rightarrow> item list \<Rightarrow> item list \<times> item list
     \<Rightarrow> item list \<times> item list" where
  "rank_loop dm cfg [] (trusted, others) = (trusted, others)"
| "rank_loop dm cfg (it # its) (trusted, others) =
     (if dm it \<in> set (blacklist_domains cfg) then rank_loop dm cfg its (trusted, others)
      else if trusted_domains cfg \<noteq> [] \<and> dm it \<in> set (trusted_domains cfg)
           then rank_loop dm cfg its (trusted @ [it], others)
           else rank_loop dm cfg its (trusted, others @ [it]))"

definition rank_by :: "(item \<Rightarrow> pystr) \<Rightarrow> provider_cfg \<Rightarrow> item list \<Rightarrow> item list" where
  "rank_by dm cfg items =
     (case rank_loop dm cfg items ([], []) of
        (trusted, others) \<Rightarrow>
          py_slice_to (max_results cfg) (trusted @ (if only_trusted cfg then [] else others)))"

text \<open>\<open>SearchService._rank_results\<close>: the URL is \<open>it.get('href') or it.get('link') or ''\<close>.\<close>

definition SearchService_rank_results ::
  "(pystr \<Rightarrow> exn + pystr) \<Rightarrow> provider_cfg \<Rightarrow> item list \<Rightarrow> item list" where
  "SearchService_rank_results up cfg items =
     rank_by (\<lambda>it. domain_of up (first_truthy it [ascii ''href'', ascii ''link''] [])) cfg items"

text \<open>\<open>LLMSearchService._rank_results\<close>: \<open>it.get('href') or it.get('url') or ''\<close>.\<close>

definition LLMSearchService_rank_results ::
  "(pystr \<Rightarrow> exn + pystr) \<Rightarrow> provider_cfg \<Rightarrow> item list \<Rightarrow> item list" where
  "LLMSearchService_rank_results up cfg items =
     rank_by (\<lambda>it. domain_of up (first_truthy it [ascii ''href'', ascii ''url''] [])) cfg items"

text \<open>\<open>MCPDDGService._rank\<close> and \<open>MockSearchService._rank\<close>: \<open>it.get('href') or ''\<close>.\<close>

definition MCPDDGService_rank ::
  "(pystr \<Rightarrow> exn + pystr) \<Rightarrow> provider_cfg \<Rightarrow> item list \<Rightarrow> item list" where
  "MCPDDGService_rank up cfg items =
     rank_by (\<lambda>it. domain_of up (first_truthy it [ascii ''href''] [])) cfg items"

definition MockSearchService_rank ::
  "(pystr \<Rightarrow> exn + pystr) \<Rightarrow> provider_cfg \<Rightarrow> item list \<Rightarrow> item list" where
  "MockSearchService_rank up cfg items =
     rank_by (\<lambda>it. domain_of up (first_truthy it [ascii ''href''] [])) cfg items"

text \<open>
  The end of \<open>CrawlerService.search\<close>. \<open>client\<close> is the exception raised while the HTTP
  client is set up, if any; \<open>results_list\<close> is what
  \<open>asyncio.gather(*tasks, return_exceptions=True)\<close> returned, one entry for each seed
  domain in the order of \<open>trusted_domains\<close>: the list \<open>_search_one_domain\<close> returned, or
  the exception it (or its 60 second timeout) raised. The crawler has no \<open>max_results\<close>
  and no \<open>only_trusted\<close> field and calls no ranking function.
\<close>

definition CrawlerService_search ::
  "crawler_cfg \<Rightarrow> exn option \<Rightarrow> (exn + item list) list \<Rightarrow> exn + item list" where
  "CrawlerService_search cfg client results_list =
     (case client of
        Some e \<Rightarrow> Inl e
      | None \<Rightarrow>
          Inr (py_slice_to (max_total_limit cfg)
                 (concat (map (\<lambda>res. case res of Inr items \<Rightarrow> items | Inl e \<Rightarrow> []) results_list))))"

text \<open>
  The settings \<open>analyze\<close> (app.py) reads from the process environment for one request,
  already parsed.
\<close>

record settings =
  MAX_RESULTS :: int
  MAX_FETCH_HTML :: int
  ONLY_TRUSTED :: bool
  TRUSTED_DOMAINS :: "pystr list"
  BLACKLIST_DOMAINS :: "pystr list"
  PER_SITE_LIMIT :: int
  MAX_TOTAL_LIMIT :: int
  TIME_RANGE_DAYS :: int
  CRAWLER_STRICT :: bool
  SUPPRESS_THRESHOLD :: int
  SUPPRESS_TTL_HOURS :: int

text \<open>
  The construction of the crawler in \<open>analyze\<close>: an empty trusted list and an empty
  blacklist are replaced by the built-in ones.
\<close>

definition crawler_of_settings :: "settings \<Rightarrow> crawler_cfg" where
  "crawler_of_settings s =
     \<lparr>per_site_limit = PER_SITE_LIMIT s,
      max_total_limit = MAX_TOTAL_LIMIT s,
      time_days = TIME_RANGE_DAYS s,
      crawler_cfg.trusted_domains =
        (if TRUSTED_DOMAINS s = []
         then map ascii [''people.com.cn'', ''xinhuanet.com'', ''cctv.com'', ''thepaper.cn'',
                         ''bjnews.com.cn'', ''ifeng.com'', ''163.com'', ''sohu.com'']
         else TRUSTED_DOMAINS s),
      crawler_cfg.blacklist_domains =
        (if BLACKLIST_DOMAINS s = []
         then map ascii [''weixin.qq.com'', ''mp.weixin.qq.com'', ''baijiahao.baidu.com'',
                         ''bilibili.com'', ''iqiyi.com'', ''youku.com'', ''bilibili.tv'', ''acfun.cn'']
         else BLACKLIST_DOMAINS s),
      suppress_threshold = SUPPRESS_THRESHOLD s,
      suppress_hours = SUPPRESS_TTL_HOURS s\<rparr>"

text \<open>
  The ranking rule in the words of the specification: the items whose domain is
  blacklisted are excluded, the rest is split into the items of trusted domains and the
  others, each in its original order; the result is the trusted items followed by the
  others, or the trusted items alone under \<open>only_trusted\<close>, cut to \<open>max_results\<close>.
\<close>

definition ranking_rule_spec :: "(item \<Rightarrow> pystr) \<Rightarrow> provider_cfg \<Rightarrow> item list \<Rightarrow> item list" where
  "ranking_rule_spec dm cfg items =
     (let kept = filter (\<lambda>it. dm it \<notin> set (blacklist_domains cfg)) items;
          trusted = filter (\<lambda>it. dm it \<in> set (trusted_domains cfg)) kept;
          others = filter (\<lambda>it. dm it \<notin> set (trusted_domains cfg)) kept
      in py_slice_to (max_results cfg) (if only_trusted cfg then trusted else trusted @ others))"

text \<open>
  For the examples: the \<open>netloc\<close> that \<open>urlparse\<close> gives for a URL of the form
  \<open>https://host/path\<close>, the text between the eighth character and the next slash.
\<close>

definition example_urlparse :: "pystr \<Rightarrow> exn + pystr" where
  "example_urlparse url = Inr (takeWhile (\<lambda>c. c \<noteq> 47) (drop 8 url))"

section \<open>Retries: DoubaoClient.complete and fetch\_readable\<close>

text \<open>
  What one \<open>client.post\<close> of \<open>DoubaoClient.complete\<close> meets: an exception, or a
  response with its status code and the outcome of \<open>resp.json()\<close> on its body.
\<close>

datatype 'r attempt = Raised exn | Response int "exn + 'r"

text \<open>
  \<open>resp.raise_for_status()\<close> of httpx: \<open>HTTPStatusError\<close> for every status that is not
  a success (2xx), 4xx and 5xx among them.
\<close>

definition raise_for_status :: "int \<Rightarrow> exn option" where
  "raise_for_status status =
     (if 200 \<le> status \<and> status \<le> 299 then None else Some (HTTPStatusError status))"

text \<open>The body of the \<open>try\<close> in \<open>complete\<close>: post, \<open>raise_for_status\<close>, \<open>resp.json()\<close>.\<close>

definition complete_try :: "'r attempt \<Rightarrow> exn + 'r" where
  "complete_try a =
     (case a of
        Raised e \<Rightarrow> Inl e
      | Response status body \<Rightarrow>
          (case raise_for_status status of Some e \<Rightarrow> Inl e | None \<Rightarrow> body))"

text \<open>
  What the network calls leave behind: the requests, the backoff sleeps (in seconds) and
  the retry messages of \<open>complete\<close>, which has one handler for \<open>ReadTimeout\<close>, one for
  the other \<open>httpx.HTTPError\<close>s and one for every other exception.
\<close>

datatype handler = TimeoutHandler | HTTPErrorHandler | ExceptionHandler

datatype net_event = Post nat | Get nat | Sleep nat | LogRetry handler nat

fun complete_handler :: "exn \<Rightarrow> handler" where
  "complete_handler (ReadTimeout m) = TimeoutHandler"
| "complete_handler (OtherException m) = ExceptionHandler"
| "complete_handler e = HTTPErrorHandler"

text \<open>
  The loop \<open>for attempt in range(3)\<close> of \<open>complete\<close>, over the attempts still to make.
  Each handler records the exception in \<open>last_exc\<close> and falls through to the sleep; after
  the loop \<open>last_exc\<close> is raised (without one, the function would return \<open>None\<close>).
\<close>

fun complete_loop ::
  "(nat \<Rightarrow> 'r attempt) \<Rightarrow> nat list \<Rightarrow> exn option \<Rightarrow> (exn + 'r option) \<times> net_event list" where
  "complete_loop net [] last_exc =
     (case last_exc of Some e \<Rightarrow> (Inl e, []) | None \<Rightarrow> (Inr None, []))"
| "complete_loop net (attempt # rest) last_exc =
     (case complete_try (net attempt) of
        Inr data \<Rightarrow> (Inr (Some data), [Post attempt])
      | Inl e \<Rightarrow>
          (case complete_loop net rest (Some e) of
             (r, evs) \<Rightarrow>
               (r, Post attempt # LogRetry (complete_handler e) (attempt + 1)
                     # Sleep (1 * 2 ^ attempt) # evs)))"

definition complete :: "(nat \<Rightarrow> 'r attempt) \<Rightarrow> (exn + 'r option) \<times> net_event list" where
  "complete net = complete_loop net [0, 1, 2] None"

text \<open>
  What one \<open>client.get\<close> of \<open>fetch_readable\<close> meets: an exception, or a response with
  its status code, its content type (the empty string without the header) and the
  outcome of the extraction from its body: the pair (\<open>doc.short_title()\<close>,
  \<open>soup.get_text\<close>) or the exception the parsers raised. Extraction is the work of the
  libraries \<open>readability\<close> and \<open>BeautifulSoup\<close>.
\<close>

datatype get_outcome = GetRaised exn | GetResponse int pystr "exn + pystr \<times> pystr"

text \<open>The body of the inner \<open>try\<close> of \<open>SearchService.fetch_readable\<close>.\<close>

definition fetch_try :: "get_outcome \<Rightarrow> exn + pystr \<times> pystr" where
  "fetch_try g =
     (case g of
        GetRaised e \<Rightarrow> Inl e
      | GetResponse status ctype extraction \<Rightarrow>
          if \<not> contains (ascii ''text/html'') (py_lower ctype) then Inr ([], [])
          else extraction)"

text \<open>
  The loop of \<open>SearchService.fetch_readable\<close>: an \<open>httpx.HTTPError\<close> sleeps and goes on
  to the next attempt, any other exception leaves the loop, and after the loop the
  result is the pair of empty strings.
\<close>

fun fetch_loop :: "(nat \<Rightarrow> get_outcome) \<Rightarrow> nat list \<Rightarrow> (pystr \<times> pystr) \<times> net_event list" where
  "fetch_loop net [] = (([], []), [])"
| "fetch_loop net (attempt # rest) =
     (case fetch_try (net attempt) of
        Inr (title, text) \<Rightarrow> ((title, text), [Get attempt])
      | Inl e \<Rightarrow>
          if is_httpx_HTTPError e
          then (case fetch_loop net rest of
                  (r, evs) \<Rightarrow> (r, Get attempt # Sleep (1 * 2 ^ attempt) # evs))
          else (([], []), [Get attempt]))"

text \<open>
  \<open>SearchService.fetch_readable\<close>; \<open>client\<close> is the exception raised while the HTTP
  client is set up, if any, which the outer handler turns into the empty pair.
\<close>

definition SearchService_fetch_readable ::
  "exn option \<Rightarrow> (nat \<Rightarrow> get_outcome) \<Rightarrow> (pystr \<times> pystr) \<times> net_event list" where
  "SearchService_fetch_readable client net =
     (case client of Some e \<Rightarrow> (([], []), []) | None \<Rightarrow> fetch_loop net [0, 1, 2])"

text \<open>\<open>LLMSearchService.fetch_readable\<close>: one request, every exception gives the empty pair.\<close>

definition LLMSearchService_fetch_readable ::
  "exn option \<Rightarrow> get_outcome \<Rightarrow> (pystr \<times> pystr) \<times> net_event list" where
  "LLMSearchService_fetch_readable client g =
     (case client of
        Some e \<Rightarrow> (([], []), [])
      | None \<Rightarrow> (case fetch_try g of Inr r \<Rightarrow> (r, [Get 0]) | Inl e \<Rightarrow> (([], []), [Get 0])))"

section \<open>gather\_readables\<close>

text \<open>\<open>it2 = dict(it); it2['article_title'] = title; it2['article_text'] = text\<close>.\<close>

definition enrich :: "item \<Rightarrow> pystr \<times> pystr \<Rightarrow> item" where
  "enrich it r =
     dict_set (ascii ''article_text'') (snd r) (dict_set (ascii ''article_title'') (fst r) it)"

text \<open>
  The body of \<open>gather_readables\<close>, the same text in \<open>SearchService\<close>,
  \<open>LLMSearchService\<close> and \<open>MockSearchService\<close>. \<open>fetch_readable i url\<close> is what the
  \<open>i\<close>-th task, \<open>self.fetch_readable(it.get('href'))\<close>, returns; \<open>asyncio.gather\<close> gives
  the results in the order of the tasks.
\<close>

definition gather_readables ::
  "provider_cfg \<Rightarrow> (nat \<Rightarrow> pystr option \<Rightarrow> pystr \<times> pystr) \<Rightarrow> item list \<Rightarrow> item list" where
  "gather_readables cfg fetch_readable items =
     (let selected = py_slice_to (max_fetch_html cfg) items;
          tasks = map (\<lambda>(i, it). fetch_readable i (map_of it (ascii ''href'')))
                    (zip [0 ..< length selected] selected)
      in map (\<lambda>(it, r). enrich it r) (zip selected tasks))"

text \<open>
  The four providers. \<open>env i url\<close> is what the \<open>i\<close>-th fetch meets on the network: the
  exception of the client set-up, if any, and the outcome of each request.
  \<open>MCPDDGService\<close> hands the call to its \<open>SearchService\<close>, built with the same settings.
  \<open>MockSearchService.fetch_readable\<close> looks the URL up in its table \<open>content_map\<close> of
  three sample articles, with the pair of empty strings as the default.
\<close>

definition SearchService_gather_readables ::
  "provider_cfg \<Rightarrow> (nat \<Rightarrow> pystr option \<Rightarrow> exn option \<times> (nat \<Rightarrow> get_outcome))
     \<Rightarrow> item list \<Rightarrow> item list" where
  "SearchService_gather_readables cfg env items =
     gather_readables cfg
       (\<lambda>i url. fst (SearchService_fetch_readable (fst (env i url)) (snd (env i url)))) items"

definition LLMSearchService_gather_readables ::
  "provider_cfg \<Rightarrow> (nat \<Rightarrow> pystr option \<Rightarrow> exn option \<times> get_outcome)
     \<Rightarrow> item list \<Rightarrow> item list" where
  "LLMSearchService_gather_readables cfg env items =
     gather_readables cfg
       (\<lambda>i url. fst (LLMSearchService_fetch_readable (fst (env i url)) (snd (env i url)))) items"

definition MCPDDGService_gather_readables ::
  "provider_cfg \<Rightarrow> (nat \<Rightarrow> pystr option \<Rightarrow> exn option \<times> (nat \<Rightarrow> get_outcome))
     \<Rightarrow> item list \<Rightarrow> item list" where
  "MCPDDGService_gather_readables cfg env items = SearchService_gather_readables cfg env items"

definition MockSearchService_fetch_readable ::
  "(pystr \<rightharpoonup> pystr \<times> pystr) \<Rightarrow> pystr option \<Rightarrow> pystr \<times> pystr" where
  "MockSearchService_fetch_readable content_map url =
     (case url of
        None \<Rightarrow> ([], [])
      | Some u \<Rightarrow> (case content_map u of Some r \<Rightarrow> r | None \<Rightarrow> ([], [])))"

definition MockSearchService_gather_readables ::
  "provider_cfg \<Rightarrow> (pystr \<rightharpoonup> pystr \<times> pystr) \<Rightarrow> item list \<Rightarrow> item list" where
  "MockSearchService_gather_readables cfg content_map items =
     gather_readables cfg (\<lambda>i url. MockSearchService_fetch_readable content_map url) items"

text \<open>
  What \<open>fetch_one\<close> of \<open>CrawlerService.gather_readables\<close> meets for one item: an
  exception, or a response with its status code and what the regular expressions find
  in its body: the text \<open>_strip_html\<close> returns, the cleaned content of \<open><title>\<close> cut to
  120 characters if there is one, and the first date if there is one.
\<close>

datatype page = PageRaised exn | PageResponse int pystr "pystr option" "pystr option"

text \<open>
  \<open>fetch_one\<close>. The title and the date are written into the item itself before the
  result \<open>{**it, 'article_text': text}\<close> is built; a status from 400 on and any exception
  give \<open>{**it, 'article_text': ''}\<close>.
\<close>

definition fetch_one :: "item \<Rightarrow> page \<Rightarrow> item" where
  "fetch_one it p =
     (case p of
        PageRaised e \<Rightarrow> dict_set (ascii ''article_text'') [] it
      | PageResponse status text title_m date_m \<Rightarrow>
          if status \<ge> 400 then dict_set (ascii ''article_text'') [] it
          else
            (let it1 = (case title_m of
                          Some title \<Rightarrow> dict_set (ascii ''article_title'') title it
                        | None \<Rightarrow> it);
                 it2 = (case date_m of
                          Some date \<Rightarrow> dict_set (ascii ''date'') date it1
                        | None \<Rightarrow> it1)
             in dict_set (ascii ''article_text'') text it2))"

text \<open>
  \<open>CrawlerService.gather_readables\<close>: every item is fetched, at most three at a time;
  \<open>pages i\<close> is what the \<open>i\<close>-th item's request meets. An exception of the client
  set-up leaves the function.
\<close>

definition CrawlerService_gather_readables ::
  "exn option \<Rightarrow> (nat \<Rightarrow> page) \<Rightarrow> item list \<Rightarrow> exn + item list" where
  "CrawlerService_gather_readables client pages items =
     (case client of
        Some e \<Rightarrow> Inl e
      | None \<Rightarrow> Inr (map (\<lambda>(i, it). fetch_one it (pages i)) (zip [0 ..< length items] items)))"

section \<open>json.loads\<close>

text \<open>
  The values \<open>json.loads\<close> returns. An integer literal is a Python \<open>int\<close>. A literal
  with a fraction or an exponent is a \<open>float\<close>: \<open>JFloat m e\<close> stands for the float
  nearest to \<open>m * 10 ^ e\<close>. \<open>NaN\<close>, \<open>Infinity\<close> and \<open>-Infinity\<close> are accepted as
  well. An object is a \<open>dict\<close>: of two members with the same key the later value stays,
  at the place of the first.
\<close>

datatype json =
    JNull
  | JBool bool
  | JInt int
  | JFloat int int
  | JNaN
  | JInf bool
  | JStr pystr
  | JArr "json list"
  | JObj "(pystr \<times> json) list"

text \<open>The whitespace of JSON: space, tab, line feed, carriage return.\<close>

definition is_json_ws :: "nat \<Rightarrow> bool" where
  "is_json_ws c = (c = 32 \<or> c = 9 \<or> c = 10 \<or> c = 13)"

definition skip_ws :: "pystr \<Rightarrow> pystr" where
  "skip_ws s = dropWhile is_json_ws s"

definition is_digit :: "nat \<Rightarrow> bool" where
  "is_digit c = (48 \<le> c \<and> c \<le> 57)"

definition hexval :: "nat \<Rightarrow> nat option" where
  "hexval c =
     (if 48 \<le> c \<and> c \<le> 57 then Some (c - 48)
      else if 97 \<le> c \<and> c \<le> 102 then Some (c - 87)
      else if 65 \<le> c \<and> c \<le> 70 then Some (c - 55)
      else None)"

definition hex4 :: "nat \<Rightarrow> nat \<Rightarrow> nat \<Rightarrow> nat \<Rightarrow> nat option" where
  "hex4 a b c d =
     (case (hexval a, hexval b, hexval c, hexval d) of
        (Some x, Some y, Some z, Some w) \<Rightarrow> Some (((x * 16 + y) * 16 + z) * 16 + w)
      | _ \<Rightarrow> None)"

text \<open>The character after a backslash, other than \<open>u\<close>.\<close>

definition simple_escape :: "nat \<Rightarrow> nat option" where
  "simple_escape c =
     (if c = 34 \<or> c = 92 \<or> c = 47 then Some c
      else if c = 98 then Some 8
      else if c = 102 then Some 12
      else if c = 110 then Some 10
      else if c = 114 then Some 13
      else if c = 116 then Some 9
      else None)"

text \<open>
  The string scanner, from the character after the opening quote: the decoded string
  and the input after the closing quote. A control character (up to U+001F) is an
  error, as is an unknown escape and a \<open>\u\<close> that is not followed by four hexadecimal
  digits and one more character. A high surrogate followed by \<open>\u\<close>, four characters
  and one more character is joined with a low surrogate; the four characters must be
  hexadecimal digits.
\<close>

fun scanstring :: "pystr \<Rightarrow> pystr \<Rightarrow> (pystr \<times> pystr) option" where
  "scanstring acc [] = None"
| "scanstring acc (c # cs) =
     (if c = 34 then Some (acc, cs)
      else if c = 92 then
        (case cs of
           [] \<Rightarrow> None
         | e # es \<Rightarrow>
             if e \<noteq> 117 then
               (case simple_escape e of
                  Some ch \<Rightarrow> scanstring (acc @ [ch]) es
                | None \<Rightarrow> None)
             else
               (case es of
                  h1 # h2 # h3 # h4 # r # rs \<Rightarrow>
                    (case hex4 h1 h2 h3 h4 of
                       None \<Rightarrow> None
                     | Some u \<Rightarrow>
                         if 55296 \<le> u \<and> u \<le> 56319 then
                           (case r # rs of
                              b # v # l1 # l2 # l3 # l4 # t # ts \<Rightarrow>
                                if b = 92 \<and> v = 117 then
                                  (case hex4 l1 l2 l3 l4 of
                                     None \<Rightarrow> None
                                   | Some u2 \<Rightarrow>
                                       if 56320 \<le> u2 \<and> u2 \<le> 57343
                                       then scanstring
                                              (acc @ [65536 + ((u - 55296) * 1024 + (u2 - 56320))])
                                              (t # ts)
                                       else scanstring (acc @ [u]) (r # rs))
                                else scanstring (acc @ [u]) (r # rs)
                            | _ \<Rightarrow> scanstring (acc @ [u]) (r # rs))
                         else scanstring (acc @ [u]) (r # rs))
                | _ \<Rightarrow> None))
      else if c \<le> 31 then None
      else scanstring (acc @ [c]) cs)"

text \<open>The value of a run of decimal digits.\<close>

definition digits_val :: "pystr \<Rightarrow> int" where
  "digits_val ds = foldl (\<lambda>n d. 10 * n + (int d - 48)) 0 ds"

text \<open>
  The number scanner: \<open>-?(0|[1-9][0-9]*)(\.[0-9]+)?([eE][-+]?[0-9]+)?\<close>, the longest
  match at the start of the input; without a fraction and an exponent the number is an
  \<open>int\<close>.
\<close>

definition number_tail :: "bool \<Rightarrow> pystr \<Rightarrow> pystr \<Rightarrow> (json \<times> pystr) option" where
  "number_tail neg intpart rest =
     (let sgn = (if neg then - 1 else 1);
          (frac, r1) =
             (case rest of
                p # q # qs \<Rightarrow>
                  if p = 46 \<and> is_digit q
                  then (q # takeWhile is_digit qs, dropWhile is_digit qs)
                  else ([], rest)
              | _ \<Rightarrow> ([], rest));
          (ex, r2) =
             (case r1 of
                e # es \<Rightarrow>
                  if e = 101 \<or> e = 69 then
                    (let (eneg, ds) =
                           (case es of
                              s # ss \<Rightarrow> if s = 45 \<or> s = 43 then (s = 45, ss) else (False, es)
                            | [] \<Rightarrow> (False, es))
                     in if takeWhile is_digit ds \<noteq> []
                        then (Some ((if eneg then - 1 else 1) * digits_val (takeWhile is_digit ds)),
                              dropWhile is_digit ds)
                        else (None, r1))
                  else (None, r1)
              | [] \<Rightarrow> (None, r1))
      in if frac = [] \<and> ex = None then Some (JInt (sgn * digits_val intpart), r2)
         else Some (JFloat (sgn * digits_val (intpart @ frac))
                      ((case ex of Some x \<Rightarrow> x | None \<Rightarrow> 0) - int (length frac)), r2))"

definition match_number :: "pystr \<Rightarrow> (json \<times> pystr) option" where
  "match_number s =
     (let neg = (s \<noteq> [] \<and> hd s = 45);
          s1 = (if neg then tl s else s)
      in case s1 of
           [] \<Rightarrow> None
         | d # ds \<Rightarrow>
             if 49 \<le> d \<and> d \<le> 57
             then number_tail neg (d # takeWhile is_digit ds) (dropWhile is_digit ds)
             else if d = 48 then number_tail neg [d] ds
             else None)"

text \<open>
  The scanner \<open>scan_once\<close> with the loops of the array and the object parser: the value
  at the start of the input and the input after it. \<open>parse_array_loop\<close> starts where an
  element is expected, \<open>parse_object_loop\<close> where a key is expected. The comparisons of
  lengths hold whenever they are reached, since every value takes at least one
  character; they make the recursion well-founded on the length of the input.
\<close>

function scan_once :: "pystr \<Rightarrow> (json \<times> pystr) option"
  and parse_array_loop :: "json list \<Rightarrow> pystr \<Rightarrow> (json \<times> pystr) option"
  and parse_object_loop :: "(pystr \<times> json) list \<Rightarrow> pystr \<Rightarrow> (json \<times> pystr) option"
where
  "scan_once [] = None"
| "scan_once (c # cs) =
     (if c = 34 then
        (case scanstring [] cs of Some (s, r) \<Rightarrow> Some (JStr s, r) | None \<Rightarrow> None)
      else if c = 123 then
        (case skip_ws cs of
           [] \<Rightarrow> None
         | d # ds \<Rightarrow> if d = 125 then Some (JObj [], ds) else parse_object_loop [] (skip_ws cs))
      else if c = 91 then
        (case skip_ws cs of
           [] \<Rightarrow> None
         | d # ds \<Rightarrow> if d = 93 then Some (JArr [], ds) else parse_array_loop [] (skip_ws cs))
      else if prefix (ascii ''null'') (c # cs) then Some (JNull, drop 4 (c # cs))
      else if prefix (ascii ''true'') (c # cs) then Some (JBool True, drop 4 (c # cs))
      else if prefix (ascii ''false'') (c # cs) then Some (JBool False, drop 5 (c # cs))
      else if prefix (ascii ''NaN'') (c # cs) then Some (JNaN, drop 3 (c # cs))
      else if prefix (ascii ''Infinity'') (c # cs) then Some (JInf False, drop 8 (c # cs))
      else if prefix (ascii ''-Infinity'') (c # cs) then Some (JInf True, drop 9 (c # cs))
      else match_number (c # cs))"
| "parse_array_loop acc s =
     (case scan_once s of
        None \<Rightarrow> None
      | Some (v, r) \<Rightarrow>
          if length r < length s then
            (case skip_ws r of
               [] \<Rightarrow> None
             | d # ds \<Rightarrow>
                 if d = 93 then Some (JArr (acc @ [v]), ds)
                 else if d = 44 then parse_array_loop (acc @ [v]) (skip_ws ds)
                 else None)
          else None)"
| "parse_object_loop acc s =
     (case s of
        [] \<Rightarrow> None
      | q # qs \<Rightarrow>
          if q \<noteq> 34 then None
          else
            (case scanstring [] qs of
               None \<Rightarrow> None
             | Some (key, r1) \<Rightarrow>
                 (case skip_ws r1 of
                    [] \<Rightarrow> None
                  | colon # r2 \<Rightarrow>
                      if colon \<noteq> 58 then None
                      else if length (skip_ws r2) < length s then
                        (case scan_once (skip_ws r2) of
                           None \<Rightarrow> None
                         | Some (v, r3) \<Rightarrow>
                             if length r3 < length (skip_ws r2) then
                               (case skip_ws r3 of
                                  [] \<Rightarrow> None
                                | d # ds \<Rightarrow>
                                    if d = 125 then Some (JObj (dict_set key v acc), ds)
                                    else if d = 44
                                    then parse_object_loop (dict_set key v acc) (skip_ws ds)
                                    else None)
                             else None)
                      else None)))"
  by pat_completeness auto

termination
proof (relation "measure (\<lambda>x. case x of
           Inl s \<Rightarrow> 2 * length s
         | Inr (Inl (acc, s)) \<Rightarrow> 2 * length s + 1
         | Inr (Inr (acc, s)) \<Rightarrow> 2 * length s + 1)", goal_cases)
  case 1
  show ?case by simp
next
  case (2 c cs x21 x22)
  have "length (skip_ws cs) \<le> length cs"
    by (simp add: skip_ws_def length_dropWhile_le)
  then show ?case by simp
next
  case (3 c cs x21 x22)
  have "length (skip_ws cs) \<le> length cs"
    by (simp add: skip_ws_def length_dropWhile_le)
  then show ?case by simp
next
  case (4 acc s)
  show ?case by simp
next
  case (5 acc s x2 x y x21 x22)
  have "length (skip_ws x22) \<le> length x22"
    by (simp add: skip_ws_def length_dropWhile_le)
  moreover have "length (skip_ws y) \<le> length y"
    by (simp add: skip_ws_def length_dropWhile_le)
  ultimately have "length (skip_ws x22) < length y"
    using 5 by simp
  with 5 show ?case by simp
next
  case (6 acc s x21 x22 x2 x y x21a x22a)
  then show ?case by simp
next
  case (7 acc s x21 x22 x2 x y x21a x22a x2a xa ya x21b x22b)
  have "length (skip_ws x22b) \<le> length x22b"
    by (simp add: skip_ws_def length_dropWhile_le)
  moreover have "length (skip_ws ya) \<le> length ya"
    by (simp add: skip_ws_def length_dropWhile_le)
  ultimately have "length (skip_ws x22b) < length ya"
    using 7 by simp
  with 7 show ?case by simp
qed

text \<open>
  \<open>json.loads\<close> on a \<open>str\<close>: a byte order mark at the start is refused; whitespace, one
  value, whitespace, and nothing more. \<open>None\<close> stands for every exception it raises.
\<close>

definition json_loads :: "pystr \<Rightarrow> json option" where
  "json_loads s =
     (if s \<noteq> [] \<and> hd s = 65279 then None
      else case scan_once (skip_ws s) of
             None \<Rightarrow> None
           | Some (v, r) \<Rightarrow> if skip_ws r = [] then Some v else None)"

section \<open>Recovering JSON from model output\<close>

text \<open>\<open>str.strip()\<close>: the characters for which \<open>str.isspace\<close> holds are removed at both ends.\<close>

definition is_py_space :: "nat \<Rightarrow> bool" where
  "is_py_space c =
     ((9 \<le> c \<and> c \<le> 13) \<or> (28 \<le> c \<and> c \<le> 32) \<or> c = 133 \<or> c = 160 \<or> c = 5760
      \<or> (8192 \<le> c \<and> c \<le> 8202) \<or> c = 8232 \<or> c = 8233 \<or> c = 8239 \<or> c = 8287
      \<or> c = 12288)"

definition py_strip :: "pystr \<Rightarrow> pystr" where
  "py_strip s = rev (dropWhile is_py_space (rev (dropWhile is_py_space s)))"

text \<open>The pattern \<open>\r?\n\<close> at the start of a string: what follows the match.\<close>

definition match_nl :: "pystr \<Rightarrow> pystr option" where
  "match_nl s =
     (case s of
        [] \<Rightarrow> None
      | c # cs \<Rightarrow>
          if c = 10 then Some cs
          else if c = 13 then (case cs of d # ds \<Rightarrow> if d = 10 then Some ds else None | [] \<Rightarrow> None)
          else None)"

text \<open>
  \<open>re.sub(r"^```(?:json)?\r?\n", "", t)\<close>: an opening fence at the very start is
  removed.
\<close>

definition sub_fence_open :: "pystr \<Rightarrow> pystr" where
  "sub_fence_open t =
     (if prefix (ascii ''```'') t then
        (case (if prefix (ascii ''json'') (drop 3 t) then match_nl (drop 7 t) else None) of
           Some rest \<Rightarrow> rest
         | None \<Rightarrow> (case match_nl (drop 3 t) of Some rest \<Rightarrow> rest | None \<Rightarrow> t))
      else t)"

definition strip_suffix :: "'a list \<Rightarrow> 'a list \<Rightarrow> 'a list option" where
  "strip_suffix suf t =
     (if length suf \<le> length t \<and> drop (length t - length suf) t = suf
      then Some (take (length t - length suf) t) else None)"

text \<open>
  \<open>re.sub(r"\r?\n```$", "", t)\<close>: a closing fence at the end is removed, the carriage
  return before it as well. \<open>$\<close> also matches before a line feed that ends the string,
  which then stays.
\<close>

definition strip_fence_close :: "pystr \<Rightarrow> pystr option" where
  "strip_fence_close t =
     (case strip_suffix (13 # 10 # ascii ''```'') t of
        Some body \<Rightarrow> Some body
      | None \<Rightarrow> strip_suffix (10 # ascii ''```'') t)"

definition sub_fence_close :: "pystr \<Rightarrow> pystr" where
  "sub_fence_close t =
     (case strip_suffix [10] t of
        Some t0 \<Rightarrow> (case strip_fence_close t0 of Some body \<Rightarrow> body @ [10] | None \<Rightarrow> t)
      | None \<Rightarrow> (case strip_fence_close t of Some body \<Rightarrow> body | None \<Rightarrow> t))"

text \<open>The first three statements of both extractors after the emptiness test.\<close>

definition strip_fences :: "pystr \<Rightarrow> pystr" where
  "strip_fences text = sub_fence_close (sub_fence_open (py_strip text))"

text \<open>\<open>re.search(c, text).start()\<close> for one character, and \<open>text.rfind(c)\<close>.\<close>

definition search_start :: "nat \<Rightarrow> pystr \<Rightarrow> nat option" where
  "search_start c t = (if c \<in> set t then Some (length (takeWhile (\<lambda>x. x \<noteq> c) t)) else None)"

definition rfind :: "nat \<Rightarrow> pystr \<Rightarrow> int" where
  "rfind c t =
     (if c \<in> set t then int (length t) - 1 - int (length (takeWhile (\<lambda>x. x \<noteq> c) (rev t)))
      else - 1)"

text \<open>A slice \<open>t[a:b]\<close> with \<open>a\<close> and \<open>b\<close> not negative.\<close>

definition py_slice :: "nat \<Rightarrow> int \<Rightarrow> 'a list \<Rightarrow> 'a list" where
  "py_slice a b t = take (nat b - a) (drop a t)"

text \<open>
  The salvage loop of \<open>_extract_json_array\<close>: the state is \<open>objs\<close>, \<open>buf\<close>, \<open>depth\<close> and
  \<open>started\<close>, one step for each character of the snippet.
\<close>

record salvage =
  objs :: "json list"
  buf :: pystr
  depth :: int
  started :: bool

definition salvage_step :: "salvage \<Rightarrow> nat \<Rightarrow> salvage" where
  "salvage_step st ch =
     (let st1 = (if ch = 123 then st\<lparr>depth := depth st + 1, started := True\<rparr> else st);
          st2 = (if started st1 then st1\<lparr>buf := buf st1 @ [ch]\<rparr> else st1)
      in if ch = 125 then
           (let st3 = st2\<lparr>depth := max 0 (depth st2 - 1)\<rparr>
            in if depth st3 = 0 \<and> buf st3 \<noteq> [] then
                 st3\<lparr>objs := (case json_loads (buf st3) of
                                  Some (JObj kvs) \<Rightarrow> objs st3 @ [JObj kvs]
                                | _ \<Rightarrow> objs st3),
                      buf := [], started := False\<rparr>
               else st3)
         else st2)"

definition salvage_objs :: "pystr \<Rightarrow> json list" where
  "salvage_objs snippet =
     objs (foldl salvage_step \<lparr>objs = [], buf = [], depth = 0, started = False\<rparr> snippet)"

text \<open>
  \<open>_extract_json_array\<close> (llm\_search\_service.py). The inner result is what the branch
  \<open>if m:\<close> returns, \<open>None\<close> when it falls through to the attempt on the whole text.
\<close>

definition extract_json_array :: "pystr \<Rightarrow> json list option" where
  "extract_json_array text0 =
     (if text0 = [] then None
      else
        (let text = strip_fences text0;
             found =
               (case search_start 91 text of
                  None \<Rightarrow> None
                | Some m \<Rightarrow>
                    (let n = rfind 93 text;
                         snippet = py_slice m (if n \<noteq> - 1 then n + 1 else int (length text)) text
                     in case json_loads snippet of
                          Some (JArr data) \<Rightarrow> Some data
                        | Some other \<Rightarrow> None
                        | None \<Rightarrow>
                            (if salvage_objs snippet \<noteq> [] then Some (salvage_objs snippet)
                             else None)))
         in case found of
              Some r \<Rightarrow> Some r
            | None \<Rightarrow> (case json_loads text of Some (JArr data) \<Rightarrow> Some data | _ \<Rightarrow> None)))"

text \<open>\<open>try_parse_json_object\<close> (report\_service.py): the members of the object, none on failure.\<close>

definition try_parse_json_object :: "pystr \<Rightarrow> (pystr \<times> json) list" where
  "try_parse_json_object text =
     (if text = [] then []
      else
        (let t = strip_fences text;
             found =
               (case search_start 123 t of
                  None \<Rightarrow> None
                | Some m \<Rightarrow>
                    (let n = rfind 125 t
                     in if n \<noteq> - 1 \<and> n > int m then
                          (case json_loads (py_slice m (n + 1) t) of
                             Some (JObj d) \<Rightarrow> Some d
                           | _ \<Rightarrow> None)
                        else None))
         in case found of
              Some d \<Rightarrow> d
            | None \<Rightarrow> (case json_loads t of Some (JObj d) \<Rightarrow> d | _ \<Rightarrow> [])))"

text \<open>
  A complete object in the eyes of the salvage loop, which counts every brace, also one
  inside a string: the text starts with an opening brace, and the brace that closes it
  is its last character. \<open>closes_at_end d cs\<close>: with \<open>d\<close> braces open, the text
  \<open>cs\<close> closes the last of them with its last character and not before.
\<close>

fun closes_at_end :: "nat \<Rightarrow> pystr \<Rightarrow> bool" where
  "closes_at_end d [] = False"
| "closes_at_end d (c # cs) =
     (if c = 123 then closes_at_end (d + 1) cs
      else if c = 125 then (if d \<le> 1 then cs = [] else closes_at_end (d - 1) cs)
      else closes_at_end d cs)"

definition complete_object :: "pystr \<Rightarrow> bool" where
  "complete_object obj = (case obj of [] \<Rightarrow> False | c # cs \<Rightarrow> c = 123 \<and> closes_at_end 1 cs)"

text \<open>
  The truth value of a parsed value, as \<open>not x\<close> tests it. A float is zero when its
  literal has no digit other than zero or lies at most \<open>2 ^ -1075\<close> from zero, half the
  smallest positive double, and so rounds to zero.
\<close>

fun py_truthy :: "json \<Rightarrow> bool" where
  "py_truthy JNull = False"
| "py_truthy (JBool b) = b"
| "py_truthy (JInt i) = (i \<noteq> 0)"
| "py_truthy (JFloat m e) = (m \<noteq> 0 \<and> \<not> (e < 0 \<and> \<bar>m\<bar> * 2 ^ 1075 \<le> 10 ^ nat (- e)))"
| "py_truthy JNaN = True"
| "py_truthy (JInf neg) = True"
| "py_truthy (JStr s) = (s \<noteq> [])"
| "py_truthy (JArr xs) = (xs \<noteq> [])"
| "py_truthy (JObj kvs) = (kvs \<noteq> [])"

section \<open>The fallback report (report\_service.py)\<close>

text \<open>
  The string literals of \<open>build_fallback_markdown\<close>, as code points. Most of them are
  Chinese text.
\<close>

text \<open>The default title, two characters ("report").\<close>

definition lit_default_topic :: pystr where
  "lit_default_topic =
     [25253, 21578]"

text \<open>The heading of the executive summary.\<close>

definition lit_h_summary :: pystr where
  "lit_h_summary =
     [35, 35, 32, 25191, 34892, 25688, 35201]"

text \<open>The text used when no item names a source.\<close>

definition lit_no_sources :: pystr where
  "lit_no_sources =
     [26080, 21487, 29992, 26469, 28304]"

text \<open>The summary bullet, before the number of items.\<close>

definition lit_cover_a :: pystr where
  "lit_cover_a =
     [45, 32, 32447, 32034, 35206, 30422, 65306, 21629, 20013, 32]"

text \<open>The summary bullet, between the number of items and the sources.\<close>

definition lit_cover_b :: pystr where
  "lit_cover_b =
     [32, 26465, 65307, 26469, 28304, 20998, 24067, 65306]"

text \<open>The full stop that ends the summary bullet.\<close>

definition lit_cover_c :: pystr where
  "lit_cover_c =
     [12290]"

text \<open>The heading of the overview.\<close>

definition lit_h_overview :: pystr where
  "lit_h_overview =
     [35, 35, 32, 33286, 24773, 27010, 35272]"

text \<open>The overview bullet with the number of items.\<close>

definition lit_hits :: pystr where
  "lit_hits =
     [45, 32, 21629, 20013, 26465, 25968, 65306]"

text \<open>The overview bullet with the sources.\<close>

definition lit_sources :: pystr where
  "lit_sources =
     [45, 32, 26469, 28304, 20998, 24067, 65306]"

text \<open>The heading of the key issues.\<close>

definition lit_h_issues :: pystr where
  "lit_h_issues =
     [35, 35, 32, 20851, 38190, 35758, 39064, 20998, 26512]"

text \<open>The title of an item that has none.\<close>

definition lit_unnamed :: pystr where
  "lit_unnamed =
     [26410, 21629, 21517]"

text \<open>The ellipsis after a cut excerpt.\<close>

definition lit_ellipsis :: pystr where
  "lit_ellipsis =
     [8230]"

text \<open>The dash between a link and its source.\<close>

definition lit_dash :: pystr where
  "lit_dash =
     [32, 8212, 32]"

text \<open>The line that introduces the excerpt of an article.\<close>

definition lit_excerpt :: pystr where
  "lit_excerpt =
     [32, 32, 10, 32, 32, 25688, 35201, 65288, 27491, 25991, 25688, 24405, 65289, 65306]"

text \<open>The heading of the risk section.\<close>

definition lit_h_risk :: pystr where
  "lit_h_risk =
     [35, 35, 32, 39118, 38505, 19982, 24433, 21709, 35780, 20272]"

text \<open>The five bullets of the risk section.\<close>

definition lit_risk_1 :: pystr where
  "lit_risk_1 =
     [45, 32, 21697, 29260, 65306, 32467, 21512, 27491, 25991, 32447, 32034, 35780,
      20272, 27491, 36127, 38754, 26333, 20809, 19982, 24773, 24863, 20542, 21521,
      65288, 24453, 34917, 20805, 65289, 12290]"

definition lit_risk_2 :: pystr where
  "lit_risk_2 =
     [45, 32, 25919, 31574, 30417, 31649, 47, 27861, 24459, 21512, 35268, 65306, 20851,
      27880, 30417, 31649, 21160, 21521, 19982, 21512, 35268, 35201, 27714, 65288,
      24453, 34917, 20805, 65289, 12290]"

definition lit_risk_3 :: pystr where
  "lit_risk_3 =
     [45, 32, 23433, 20840, 19982, 20844, 20247, 24863, 30693, 65306, 35782, 21035,
      28508, 22312, 23433, 20840, 20107, 20214, 19982, 20844, 20247, 25935, 24863,
      28857, 65288, 24453, 34917, 20805, 65289, 12290]"

definition lit_risk_4 :: pystr where
  "lit_risk_4 =
     [45, 32, 36130, 21153, 65306, 20851, 27880, 21830, 19994, 21270, 36827, 24230,
      12289, 25237, 20837, 20135, 20986, 19982, 25104, 26412, 21387, 21147, 65288,
      24453, 34917, 20805, 65289, 12290]"

definition lit_risk_5 :: pystr where
  "lit_risk_5 =
     [45, 32, 33286, 35770, 24341, 29190, 21487, 33021, 24615, 65306, 30417, 27979,
      31038, 20132, 24179, 21488, 20256, 25773, 24577, 21183, 19982, 20851, 38190,
      33410, 28857, 65288, 24453, 34917, 20805, 65289, 12290]"

text \<open>The heading and the bullet of the stakeholder section.\<close>

definition lit_h_stake :: pystr where
  "lit_h_stake =
     [35, 35, 32, 21033, 30410, 30456, 20851, 26041, 19982, 31435, 22330]"

definition lit_stake_1 :: pystr where
  "lit_stake_1 =
     [45, 32, 23186, 20307, 47, 75, 79, 76, 47, 26426, 26500, 47, 21463, 20247, 30340,
      24577, 24230, 19982, 21160, 26426, 23558, 38543, 35777, 25454, 38598, 23436,
      21892, 34917, 20805, 12290]"

text \<open>The heading and the bullet of the conclusion.\<close>

definition lit_h_conclusion :: pystr where
  "lit_h_conclusion =
     [35, 35, 32, 32467, 35770, 19982, 24314, 35758]"

definition lit_conclusion_1 :: pystr where
  "lit_conclusion_1 =
     [45, 32, 26681, 25454, 24403, 21069, 24050, 25235, 21462, 30340, 27491, 25991,
      32447, 32034, 65292, 24314, 35758, 25345, 32493, 36319, 36394, 24182, 34917,
      20805, 35777, 25454, 65307, 22312, 27169, 22411, 26381, 21153, 21487, 29992,
      26102, 29983, 25104, 23436, 25972, 19987, 23478, 29256, 25253, 21578, 12290]"

text \<open>The heading of the reference list.\<close>

definition lit_h_refs :: pystr where
  "lit_h_refs =
     [35, 35, 32, 21442, 32771, 26469, 28304]"

text \<open>The title of a reference that has none.\<close>

definition lit_source :: pystr where
  "lit_source =
     [26469, 28304]"

text \<open>The multiplication sign between a source and its count.\<close>

definition lit_times :: pystr where
  "lit_times =
     [215]"


text \<open>\<open>str(n)\<close> for a number that is not negative, and \<open>sep.join(xs)\<close>.\<close>

fun py_str_nat :: "nat \<Rightarrow> pystr" where
  "py_str_nat n = (if n < 10 then [48 + n] else py_str_nat (n div 10) @ [48 + n mod 10])"

declare py_str_nat.simps [simp del]

fun join :: "pystr \<Rightarrow> pystr list \<Rightarrow> pystr" where
  "join sep [] = []"
| "join sep [x] = x"
| "join sep (x # y # ys) = x @ sep @ join sep (y # ys)"

text \<open>
  The values an item's fields hold when the report is built. The LLM-driven and the
  tool-driven provider copy \<open>title\<close>, \<open>source\<close>, \<open>date\<close> and \<open>summary\<close> from the JSON of
  the model's answer without looking at their type, so a field is a string, \<open>None\<close>, a
  number, or a list or object. Of a list or object that is not empty the function uses
  three properties only: it is truthy, it cannot be hashed, and it has no \<open>strip\<close>;
  it is kept as \<open>PUnhashable\<close> with the text \<open>str()\<close> gives for it. An empty list or
  object is falsy and never gets past an \<open>or\<close>, like \<open>None\<close>, and is written \<open>PNone\<close>.
  Numbers are integers; JSON's floats, \<open>true\<close> and \<open>false\<close> are not represented.
\<close>

datatype pyval = PNone | PStr pystr | PInt int | PUnhashable pystr

type_synonym pitem = "(pystr \<times> pyval) list"

text \<open>The two exceptions the function can raise.\<close>

datatype py_error = TypeError | AttributeError

fun truthy :: "pyval \<Rightarrow> bool" where
  "truthy PNone = False"
| "truthy (PStr s) = (s \<noteq> [])"
| "truthy (PInt i) = (i \<noteq> 0)"
| "truthy (PUnhashable r) = True"

text \<open>
  \<open>it.get(k1) or it.get(k2) or ... or dflt\<close>: the first value that is present and
  truthy, else the default.
\<close>

fun get_or :: "pitem \<Rightarrow> pystr list \<Rightarrow> pyval \<Rightarrow> pyval" where
  "get_or it [] dflt = dflt"
| "get_or it (k # ks) dflt =
     (case map_of it k of
        Some v \<Rightarrow> if truthy v then v else get_or it ks dflt
      | None \<Rightarrow> get_or it ks dflt)"

text \<open>\<open>str(v)\<close>, which is what an f-string writes for \<open>{v}\<close>.\<close>

fun py_str :: "pyval \<Rightarrow> pystr" where
  "py_str PNone = ascii ''None''"
| "py_str (PStr s) = s"
| "py_str (PInt i) = (if i < 0 then 45 # py_str_nat (nat (- i)) else py_str_nat (nat i))"
| "py_str (PUnhashable r) = r"

text \<open>
  The histogram of sources: \<open>domains[src] = domains.get(src, 0) + 1\<close> for every item with
  a truthy source, in the order in which the sources first appear. A source that cannot
  be hashed raises \<open>TypeError\<close>.
\<close>

fun count_sources :: "pitem list \<Rightarrow> (pyval \<times> nat) list \<Rightarrow> py_error + (pyval \<times> nat) list" where
  "count_sources [] domains = Inr domains"
| "count_sources (it # its) domains =
     (let src = get_or it [ascii ''source''] (PStr [])
      in if truthy src
         then (case src of
                 PUnhashable r \<Rightarrow> Inl TypeError
               | _ \<Rightarrow>
                   count_sources its
                     (dict_set src ((case map_of domains src of Some n \<Rightarrow> n | None \<Rightarrow> 0) + 1)
                        domains))
         else count_sources its domains)"

text \<open>
  \<open>a < b\<close> on two sources that are not equal: strings are compared code point by code
  point, integers by value, and a string and an integer cannot be compared. The other
  values never are keys of \<open>domains\<close>.
\<close>

fun str_less :: "pystr \<Rightarrow> pystr \<Rightarrow> bool" where
  "str_less [] [] = False"
| "str_less [] (y # ys) = True"
| "str_less (x # xs) [] = False"
| "str_less (x # xs) (y # ys) = (x < y \<or> (x = y \<and> str_less xs ys))"

fun val_less :: "pyval \<Rightarrow> pyval \<Rightarrow> py_error + bool" where
  "val_less (PStr s) (PStr t) = Inr (str_less s t)"
| "val_less (PInt i) (PInt j) = Inr (i < j)"
| "val_less a b = Inl TypeError"

text \<open>
  The comparison of the keys \<open>(-x[1], x[0])\<close> of two entries: the larger count first;
  with equal counts and sources that are not equal, the smaller source.
\<close>

definition key_less :: "pyval \<times> nat \<Rightarrow> pyval \<times> nat \<Rightarrow> py_error + bool" where
  "key_less a b =
     (if snd a \<noteq> snd b then Inr (snd a > snd b)
      else if fst a = fst b then Inr False
      else val_less (fst a) (fst b))"

text \<open>
  \<open>sorted(domains.items(), key=...)\<close>, as a stable insertion sort that stops at the
  first comparison that raises. Python's sort makes other comparisons, with the same
  outcome: a comparison raises only for two entries with the same count, a string and
  an integer; when there is such a pair every comparison sort has to compare one, and
  when there is none the keys are totally ordered and the sorted list is unique.
\<close>

fun insert_by_key ::
  "pyval \<times> nat \<Rightarrow> (pyval \<times> nat) list \<Rightarrow> py_error + (pyval \<times> nat) list" where
  "insert_by_key a [] = Inr [a]"
| "insert_by_key a (b # bs) =
     (case key_less a b of
        Inl e \<Rightarrow> Inl e
      | Inr lt \<Rightarrow>
          if lt then Inr (a # b # bs)
          else (case insert_by_key a bs of Inl e \<Rightarrow> Inl e | Inr r \<Rightarrow> Inr (b # r)))"

fun sort_into ::
  "(pyval \<times> nat) list \<Rightarrow> (pyval \<times> nat) list \<Rightarrow> py_error + (pyval \<times> nat) list" where
  "sort_into acc [] = Inr acc"
| "sort_into acc (a # as) =
     (case insert_by_key a acc of Inl e \<Rightarrow> Inl e | Inr acc' \<Rightarrow> sort_into acc' as)"

definition sorted_by_key :: "(pyval \<times> nat) list \<Rightarrow> py_error + (pyval \<times> nat) list" where
  "sorted_by_key xs = sort_into [] xs"

text \<open>The first loop and the text of the distribution of sources.\<close>

definition dom_text :: "pitem list \<Rightarrow> py_error + pystr" where
  "dom_text items =
     (case count_sources items [] of
        Inl e \<Rightarrow> Inl e
      | Inr domains \<Rightarrow>
          if domains \<noteq> []
          then (case sorted_by_key domains of
                  Inl e \<Rightarrow> Inl e
                | Inr dom_sorted \<Rightarrow>
                    Inr (join (ascii '', '')
                           (map (\<lambda>(d, n). py_str d @ lit_times @ py_str_nat n)
                              (take 8 dom_sorted))))
          else Inr lit_no_sources)"

text \<open>
  The lines of one item in the section of key issues.
  \<open>(it.get('article_text') or '').strip()\<close> raises \<open>AttributeError\<close> when the field is
  truthy and not a string.
\<close>

definition issue_lines :: "pitem \<Rightarrow> py_error + pystr list" where
  "issue_lines it =
     (case get_or it [ascii ''article_text''] (PStr []) of
        PStr s \<Rightarrow>
          (let article_text = py_strip s
           in if article_text = [] then Inr []
              else
                (let title = get_or it [ascii ''article_title'', ascii ''title'', ascii ''source'']
                               (PStr lit_unnamed);
                     href = get_or it [ascii ''href'', ascii ''url''] (PStr []);
                     src = get_or it [ascii ''source''] (PStr []);
                     snippet0 = map (\<lambda>c. if c = 10 then 32 else c) (py_strip article_text);
                     snippet = (if length snippet0 > 180 then take 180 snippet0 @ lit_ellipsis
                                else snippet0);
                     bullet = ascii ''- ['' @ py_str title @ ascii '']('' @ py_str href
                                @ ascii '')'' @ lit_dash @ py_str src
                 in Inr (bullet # (if snippet \<noteq> [] then [lit_excerpt @ snippet] else []))))
      | other \<Rightarrow> Inl AttributeError)"

text \<open>The second loop: the lines of all items, up to the first item that raises.\<close>

fun all_issue_lines :: "pitem list \<Rightarrow> py_error + pystr list" where
  "all_issue_lines [] = Inr []"
| "all_issue_lines (it # its) =
     (case issue_lines it of
        Inl e \<Rightarrow> Inl e
      | Inr ls \<Rightarrow> (case all_issue_lines its of Inl e \<Rightarrow> Inl e | Inr rest \<Rightarrow> Inr (ls @ rest)))"

text \<open>The line of one item in the reference list.\<close>

definition ref_line :: "pitem \<Rightarrow> pystr" where
  "ref_line it =
     (let title = get_or it [ascii ''title'', ascii ''article_title'', ascii ''source'']
                    (PStr lit_source);
          href = get_or it [ascii ''href'', ascii ''url''] (PStr []);
          src = get_or it [ascii ''source''] (PStr [])
      in ascii ''- ['' @ py_str title @ ascii '']('' @ py_str href @ ascii '')'' @ lit_dash
           @ py_str src)"

text \<open>
  \<open>build_fallback_markdown\<close>: the joined lines, or the exception of the first statement
  that raises: the histogram and its sort come first, then the loop over the items
  with text.
\<close>

definition build_fallback_markdown :: "pystr \<Rightarrow> pitem list \<Rightarrow> py_error + pystr" where
  "build_fallback_markdown topic0 items =
     (let topic = (if topic0 \<noteq> [] then topic0 else lit_default_topic);
          n = py_str_nat (length items)
      in case dom_text items of
           Inl e \<Rightarrow> Inl e
         | Inr dt \<Rightarrow>
             (case all_issue_lines items of
                Inl e \<Rightarrow> Inl e
              | Inr issues \<Rightarrow>
                  Inr (join [10]
                         ([ascii ''# '' @ topic, [], lit_h_summary,
                           lit_cover_a @ n @ lit_cover_b @ dt @ lit_cover_c, [],
                           lit_h_overview, lit_hits @ n, lit_sources @ dt, [],
                           lit_h_issues]
                          @ issues
                          @ [[],
                             lit_h_risk, lit_risk_1, lit_risk_2, lit_risk_3, lit_risk_4,
                             lit_risk_5, [],
                             lit_h_stake, lit_stake_1, [],
                             lit_h_conclusion, lit_conclusion_1, [],
                             lit_h_refs]
                          @ map ref_line items
                          @ [[]]))))"

text \<open>
  An item all of whose fields are strings, as the items of the providers' models are,
  and the condition under which the function is shown to return: \<open>source\<close> and
  \<open>article_text\<close>, when present, are strings or falsy.
\<close>

definition str_item :: "item \<Rightarrow> pitem" where
  "str_item it = map (\<lambda>(k, v). (k, PStr v)) it"

definition string_or_falsy :: "pyval \<Rightarrow> bool" where
  "string_or_falsy v = (case v of PStr s \<Rightarrow> True | other \<Rightarrow> \<not> truthy other)"

definition plain_field :: "pitem \<Rightarrow> pystr \<Rightarrow> bool" where
  "plain_field it k = (case map_of it k of None \<Rightarrow> True | Some v \<Rightarrow> string_or_falsy v)"

definition plain_item :: "pitem \<Rightarrow> bool" where
  "plain_item it = (plain_field it (ascii ''source'') \<and> plain_field it (ascii ''article_text''))"

section \<open>The request handler (app.py)\<close>

text \<open>The five provider classes; a value stands for the instance built for the request.\<close>

datatype service =
  SearchService | LLMSearchService | MCPDDGService | MockSearchService | CrawlerService

text \<open>\<open>os.environ\<close>, the one mutable state of the process the handler touches.\<close>

type_synonym environ = "pystr \<rightharpoonup> pystr"

definition getenv :: "environ \<Rightarrow> pystr \<Rightarrow> pystr \<Rightarrow> pystr" where
  "getenv env name dflt = (case env name of Some v \<Rightarrow> v | None \<Rightarrow> dflt)"

text \<open>
  What a request meets outside the handler: the outcome of \<open>search(topic)\<close> and of
  \<open>gather_readables(items)\<close> of each provider instance; the outcome of the three calls
  of the language model, each with the extraction of
  \<open>choices[0].message.content\<close> (the text of the prompts is not modelled, the answer
  being the world's); the exception raised while the report directory and the Markdown
  file are written, if any; and the outcome of \<open>md_to_html_body(content)\<close>.
\<close>

record world =
  search_result :: "service \<Rightarrow> exn + item list"
  gather_result :: "service \<Rightarrow> item list \<Rightarrow> exn + item list"
  stage1 :: "exn + pystr"
  stage2 :: "exn + pystr"
  classic :: "exn + pystr"
  files :: "exn option"
  render_html :: "exn + pystr"

text \<open>
  What the handler does, in order: the provider calls, the calls of the model
  (\<open>Stage1Call\<close> with \<open>build_expert_structure_messages\<close>, \<open>Stage2Call\<close> with
  \<open>build_expert_markdown_messages\<close>, \<open>ClassicCall\<close> with \<open>build_prompt\<close>), the calls of
  \<open>build_fallback_markdown\<close>, and the log lines that mark a decision.
\<close>

datatype app_event =
    SearchCall service
  | LogFallback service
  | LogSearchException exn
  | GatherCall service "item list"
  | Stage1Call
  | LogDemoted
  | Stage2Call
  | ClassicCall
  | FallbackReport

text \<open>
  The answer of the handler: the 400 for a missing topic, the 500 after a failed
  \<open>gather_readables\<close>, an exception that leaves the handler, or the report. Of the
  report the fields \<open>markdown\<close>, \<open>html\<close>, \<open>mode\<close> and \<open>fallback\<close> are kept; the paths
  and the notice are left out.
\<close>

record report =
  markdown :: pystr
  html :: pystr
  mode :: pystr
  fallback :: pystr

datatype response = BadRequest | GatherFailed exn | Unhandled exn | Report report

text \<open>The two sentences by which the model says that it was given no evidence.\<close>

definition lit_no_evidence_list :: pystr where
  "lit_no_evidence_list =
     [26410, 25552, 20379, 8220, 24050, 25235, 21462, 27491, 25991, 8221, 30340, 35777,
      25454, 21015, 34920]"

definition lit_no_evidence :: pystr where
  "lit_no_evidence =
     [26410, 25552, 20379, 35777, 25454]"

text \<open>The values of the field \<open>fallback\<close> of the response, and the sentence looked for in the report.\<close>

definition lit_search_empty :: pystr where
  "lit_search_empty =
     [26816, 32034, 20026, 31354, 65292, 24050, 36820, 22238, 33609, 31295, 25253,
      21578]"

definition lit_llm_failed :: pystr where
  "lit_llm_failed =
     [76, 76, 77, 32, 35843, 29992, 22833, 36133, 65292, 24050, 36820, 22238, 33609,
      31295, 25253, 21578]"

definition lit_model_unavailable :: pystr where
  "lit_model_unavailable =
     [35828, 26126, 65306, 30001, 20110, 27169, 22411, 26381, 21153, 26242, 26102,
      19981, 21487, 29992]"


text \<open>
  The choice of the provider and of its fallback (\<open>ddgs_fallback\<close>) from
  \<open>SEARCH_PROVIDER\<close>, lower-cased.
\<close>

definition select_provider :: "pystr \<Rightarrow> settings \<Rightarrow> service \<times> service option" where
  "select_provider provider s =
     (if provider = ascii ''llm'' then (LLMSearchService, Some SearchService)
      else if provider = ascii ''mcp'' then (MCPDDGService, Some LLMSearchService)
      else if provider = ascii ''mock'' then (MockSearchService, None)
      else if provider = ascii ''crawler''
           then (CrawlerService, if CRAWLER_STRICT s then None else Some SearchService)
      else (SearchService, None))"

text \<open>
  The state inside the \<open>try\<close> of the search: the exception raised so far, if any, then
  \<open>items\<close>, \<open>ss\<close> and the events. One of the three \<open>if\<close> statements: under its
  condition on the provider name, with no items and a fallback, the fallback is
  searched; \<open>items\<close> and then \<open>ss\<close> are assigned when the search returns.
\<close>

type_synonym search_state = "exn option \<times> item list \<times> service \<times> app_event list"

definition fallback_if :: "world \<Rightarrow> bool \<Rightarrow> service option \<Rightarrow> search_state \<Rightarrow> search_state" where
  "fallback_if w is_provider ddgs_fallback st =
     (case st of
        (Some e, items, ss, evs) \<Rightarrow> st
      | (None, items, ss, evs) \<Rightarrow>
          (case ddgs_fallback of
             None \<Rightarrow> st
           | Some fb \<Rightarrow>
               if is_provider \<and> length items = 0 then
                 (case search_result w fb of
                    Inr items' \<Rightarrow> (None, items', fb, evs @ [LogFallback fb, SearchCall fb])
                  | Inl e \<Rightarrow> (Some e, items, ss, evs @ [LogFallback fb, SearchCall fb]))
               else st))"

text \<open>
  The search of \<open>analyze\<close>: the \<open>try\<close> with the provider's search and the three
  fallbacks, and its handler, which logs the exception and goes on with no items.
\<close>

definition search_stage ::
  "world \<Rightarrow> pystr \<Rightarrow> service \<Rightarrow> service option \<Rightarrow> item list \<times> service \<times> app_event list" where
  "search_stage w provider ss0 ddgs_fallback =
     (let st0 = (case search_result w ss0 of
                   Inr items \<Rightarrow> (None, items, ss0, [SearchCall ss0])
                 | Inl e \<Rightarrow> (Some e, [], ss0, [SearchCall ss0]));
          st1 = fallback_if w (provider = ascii ''crawler'') ddgs_fallback st0;
          st2 = fallback_if w (provider = ascii ''mcp'') ddgs_fallback st1;
          st3 = fallback_if w (provider = ascii ''llm'') ddgs_fallback st2
      in case st3 of
           (Some e, items, ss, evs) \<Rightarrow> ([], ss, evs @ [LogSearchException e])
         | (None, items, ss, evs) \<Rightarrow> (items, ss, evs))"

text \<open>The events of the search: provider calls and log lines.\<close>

fun is_search_event :: "app_event \<Rightarrow> bool" where
  "is_search_event (SearchCall ss) = True"
| "is_search_event (LogFallback ss) = True"
| "is_search_event (LogSearchException e) = True"
| "is_search_event ev = False"

text \<open>\<open>(it.get('article_text') or '').strip()\<close> is not empty.\<close>

definition has_text :: "item \<Rightarrow> bool" where
  "has_text it = (py_strip (first_truthy it [ascii ''article_text''] []) \<noteq> [])"

definition expert_flag :: "environ \<Rightarrow> bool" where
  "expert_flag env = (py_lower (getenv env (ascii ''EXPERT_MODE'') (ascii ''true'')) = ascii ''true'')"

text \<open>
  \<open>not data or not isinstance(data, dict) or not data.get('references')\<close> on the result
  of \<open>try_parse_json_object\<close>.
\<close>

definition lacks_references :: "(pystr \<times> json) list \<Rightarrow> bool" where
  "lacks_references data =
     (data = [] \<or> (case map_of data (ascii ''references'') of
                      None \<Rightarrow> True
                    | Some v \<Rightarrow> \<not> py_truthy v))"

text \<open>
  The call \<open>build_fallback_markdown(topic, items_readable)\<close> of the handler, which has
  no \<open>try\<close> around it. The items of the handler's model hold strings only, and on
  such items the function returns its report and raises nothing (lemma
  \<open>build_fallback_markdown_of_strings\<close>), so the second branch is never taken.
\<close>

definition fallback_report :: "pystr \<Rightarrow> item list \<Rightarrow> pystr" where
  "fallback_report topic items_readable =
     (case build_fallback_markdown topic (map str_item items_readable) of
        Inr content \<Rightarrow> content
      | Inl e \<Rightarrow> [])"

text \<open>
  The expert branch: the content, whether \<open>expert_mode\<close> is still set, and the events.
  An exception of either call gives the fallback report and leaves \<open>expert_mode\<close> set.
\<close>

definition expert_stage ::
  "world \<Rightarrow> pystr \<Rightarrow> item list \<Rightarrow> bool \<times> pystr \<times> app_event list" where
  "expert_stage w topic items_readable =
     (case stage1 w of
        Inl e \<Rightarrow> (True, fallback_report topic items_readable, [Stage1Call, FallbackReport])
      | Inr json_text \<Rightarrow>
          if lacks_references (try_parse_json_object json_text)
          then (False, [], [Stage1Call, LogDemoted])
          else
            (case stage2 w of
               Inr content \<Rightarrow> (True, content, [Stage1Call, Stage2Call])
             | Inl e \<Rightarrow>
                 (True, fallback_report topic items_readable,
                  [Stage1Call, Stage2Call, FallbackReport])))"

text \<open>The classic branch, entered when \<open>expert_mode\<close> is not set.\<close>

definition classic_stage :: "world \<Rightarrow> pystr \<Rightarrow> item list \<Rightarrow> pystr \<times> app_event list" where
  "classic_stage w topic items_readable =
     (let (content, evs) =
            (if \<not> list_ex has_text items_readable
             then (fallback_report topic items_readable, [FallbackReport])
             else
               (case classic w of
                  Inr c \<Rightarrow> (c, [ClassicCall])
                | Inl e \<Rightarrow>
                    (fallback_report topic items_readable, [ClassicCall, FallbackReport])))
      in if content = [] \<or> contains lit_no_evidence_list content \<or> contains lit_no_evidence content
         then (fallback_report topic items_readable, evs @ [FallbackReport])
         else (content, evs))"

definition synthesize ::
  "world \<Rightarrow> bool \<Rightarrow> pystr \<Rightarrow> item list \<Rightarrow> pystr \<times> app_event list" where
  "synthesize w expert_mode topic items_readable =
     (let (expert_mode', content, evs) =
            (if expert_mode then expert_stage w topic items_readable else (False, [], []))
      in if \<not> expert_mode'
         then (case classic_stage w topic items_readable of (c, evs') \<Rightarrow> (c, evs @ evs'))
         else (content, evs))"

text \<open>
  \<open>analyze\<close>: the environment after the request, the response and the events. The
  settings are those already read from the environment; the constructors of the
  providers and the reading of the settings are taken not to raise. When
  \<open>md_to_html_body\<close> raises, the handler logs it and the \<open>return\<close> then fails on the
  unbound \<open>body_html\<close>.
\<close>

definition analyze ::
  "world \<Rightarrow> settings \<Rightarrow> environ \<Rightarrow> pystr \<Rightarrow> environ \<times> response \<times> app_event list" where
  "analyze w s env topic =
     (if topic = [] then (env, BadRequest, [])
      else
        (let provider = py_lower (getenv env (ascii ''SEARCH_PROVIDER'') (ascii ''ddgs''));
             (ss0, ddgs_fallback) = select_provider provider s;
             (items, ss, evs1) = search_stage w provider ss0 ddgs_fallback;
             search_empty = (length items = 0)
         in case gather_result w ss items of
              Inl e \<Rightarrow> (env, GatherFailed e, evs1 @ [GatherCall ss items])
            | Inr items_readable \<Rightarrow>
                (let got_text = length (filter has_text items_readable);
                     env1 = (if got_text = 0 then env(ascii ''EXPERT_MODE'' \<mapsto> ascii ''false'')
                             else env);
                     (content, evs2) = synthesize w (expert_flag env1) topic items_readable;
                     evs = evs1 @ [GatherCall ss items] @ evs2
                 in case files w of
                      Some e \<Rightarrow> (env1, Unhandled e, evs)
                    | None \<Rightarrow>
                        (case render_html w of
                           Inl e \<Rightarrow> (env1, Unhandled (OtherException (ascii ''UnboundLocalError'')), evs)
                         | Inr body_html \<Rightarrow>
                             (env1,
                              Report \<lparr>markdown = content, html = body_html,
                                      mode = (if expert_flag env1 then ascii ''expert''
                                              else ascii ''classic''),
                                      fallback =
                                        (if search_empty then lit_search_empty
                                         else if contains lit_model_unavailable content
                                              then lit_llm_failed else [])\<rparr>,
                              evs)))))"

text \<open>What the call of \<open>gather_readables\<close> of the request returns or raises.\<close>

definition gathered :: "world \<Rightarrow> settings \<Rightarrow> environ \<Rightarrow> pystr \<Rightarrow> exn + item list" where
  "gathered w s env topic =
     (let provider = py_lower (getenv env (ascii ''SEARCH_PROVIDER'') (ascii ''ddgs''));
          (ss0, ddgs_fallback) = select_provider provider s;
          (items, ss, evs1) = search_stage w provider ss0 ddgs_fallback
      in gather_result w ss items)"

text \<open>
  The requests the process serves one after the other, each with its world, settings
  and topic: the environment is handed from one to the next.
\<close>

fun serve ::
  "(world \<times> settings \<times> pystr) list \<Rightarrow> environ \<Rightarrow> environ \<times> (response \<times> app_event list) list" where
  "serve [] env = (env, [])"
| "serve ((w, s, topic) # reqs) env =
     (case analyze w s env topic of
        (env', resp, evs) \<Rightarrow>
          (case serve reqs env' of (env'', rest) \<Rightarrow> (env'', (resp, evs) # rest)))"

section \<open>Strings and slices\<close>

lemma ascii_simps: "ascii [] = []" "ascii (c # cs) = of_char c # ascii cs"
  by (simp_all add: ascii_def)

lemma set_py_slice_to: "set (py_slice_to n xs) \<subseteq> set xs"
  by (auto simp: py_slice_to_def dest: in_set_takeD)

lemma length_py_slice_to: "0 \<le> n \<Longrightarrow> length (py_slice_to n xs) \<le> nat n"
  by (simp add: py_slice_to_def)

section \<open>Suppression after repeated failures\<close>

lemma record_failure_other:
  "d' \<noteq> d \<Longrightarrow> record_failure cfg now d st d' = st d'"
  by (simp add: record_failure_def Let_def)

lemma record_failure_count:
  "count_of (record_failure cfg now d st) d = count_of st d + 1"
  by (simp add: record_failure_def count_of_def Let_def split: option.splits)

lemma record_failure_dom:
  "record_failure cfg now d st d \<noteq> None"
  by (simp add: record_failure_def Let_def)

lemma record_failure_triggered:
  assumes "suppress_threshold cfg \<le> count_of st d + 1"
  shows "record_failure cfg now d st d =
           Some \<lparr>count = count_of st d + 1, suppress_until = now + suppress_hours cfg * 3600\<rparr>"
  using assms by (simp add: record_failure_def count_of_def Let_def split: option.splits)

lemma record_failures_count:
  "count_of (record_failures cfg ts d st) d = count_of st d + int (length ts)"
proof (induction ts arbitrary: st)
  case Nil
  show ?case by (simp add: record_failures_def)
next
  case (Cons t ts)
  have "record_failures cfg (t # ts) d st = record_failures cfg ts d (record_failure cfg t d st)"
    by (simp add: record_failures_def)
  then show ?case
    using Cons.IH [of "record_failure cfg t d st"] by (simp add: record_failure_count)
qed

lemma record_failures_snoc:
  "record_failures cfg (ts @ [t]) d st = record_failure cfg t d (record_failures cfg ts d st)"
  by (simp add: record_failures_def)

lemma record_failures_reach_threshold:
  assumes ne: "ts \<noteq> []"
    and thr: "suppress_threshold cfg \<le> count_of st d + int (length ts)"
  shows "record_failures cfg ts d st d =
           Some \<lparr>count = count_of st d + int (length ts),
                 suppress_until = last ts + suppress_hours cfg * 3600\<rparr>"
proof -
  from ne obtain us t where ts: "ts = us @ [t]"
    by (metis append_butlast_last_id)
  let ?mid = "record_failures cfg us d st"
  have c: "count_of ?mid d = count_of st d + int (length us)"
    by (rule record_failures_count)
  have "suppress_threshold cfg \<le> count_of ?mid d + 1"
    using thr c ts by simp
  then have "record_failure cfg t d ?mid d =
      Some \<lparr>count = count_of ?mid d + 1, suppress_until = t + suppress_hours cfg * 3600\<rparr>"
    by (rule record_failure_triggered)
  then show ?thesis
    using c ts by (simp add: record_failures_snoc)
qed

lemma gate_suppressed_iff:
  assumes "st d = Some r" and "d \<notin> set (crawler_cfg.blacklist_domains cfg)"
  shows "search_one_domain_gate cfg st d now = SkipSuppressed \<longleftrightarrow> now < suppress_until r"
  using assms by (simp add: search_one_domain_gate_def)

lemma search_one_domain_skips:
  assumes "st d = Some r" and "now < suppress_until r"
  shows "search_one_domain cfg now now_fail d crawl st = (Inr [], st)"
  using assms by (simp add: search_one_domain_def search_one_domain_gate_def)

lemma record_success_clears: "record_success d st d = None"
  by (auto simp: record_success_def)

text \<open>
  C2. Once consecutive \<open>_record_failure\<close> calls for a domain, at least one, have
  brought its count (zero when the store has no record of it) to the threshold, the record holds \<open>suppress_until\<close> = the clock of the
  last (triggering) failure + \<open>suppress_hours * 3600\<close>; \<open>_search_one_domain\<close> returns no
  items for the domain, and leaves the store alone, at every clock reading before
  \<open>suppress_until\<close>, and passes the suppression check from \<open>suppress_until\<close> on. One
  \<open>_record_success\<close> removes the record whatever its count: the domain then passes the
  check at every clock reading, and the next failure counts from one.
\<close>

theorem suppression_after_threshold_failures:
  assumes "ts \<noteq> []"
    and "suppress_threshold cfg \<le> count_of st d + int (length ts)"
  shows "(let st' = record_failures cfg ts d st;
              until = last ts + suppress_hours cfg * 3600
          in st' d = Some \<lparr>count = count_of st d + int (length ts), suppress_until = until\<rparr>
           \<and> (\<forall>now now_fail crawl. now < until \<longrightarrow>
                 search_one_domain cfg now now_fail d crawl st' = (Inr [], st'))
           \<and> (\<forall>now. d \<notin> set (crawler_cfg.blacklist_domains cfg) \<longrightarrow>
                 (search_one_domain_gate cfg st' d now = SkipSuppressed \<longleftrightarrow> now < until))
           \<and> record_success d st' d = None
           \<and> (\<forall>now. d \<notin> set (crawler_cfg.blacklist_domains cfg) \<longrightarrow>
                 search_one_domain_gate cfg (record_success d st') d now = Proceed)
           \<and> count_of (record_failure cfg t d (record_success d st')) d = 1)"
proof -
  let ?st' = "record_failures cfg ts d st"
  let ?until = "last ts + suppress_hours cfg * 3600"
  let ?r = "\<lparr>count = count_of st d + int (length ts), suppress_until = ?until\<rparr>"
  have rec: "?st' d = Some ?r"
    using assms by (rule record_failures_reach_threshold)
  have skip: "\<forall>now now_fail crawl. now < ?until \<longrightarrow>
                 search_one_domain cfg now now_fail d crawl ?st' = (Inr [], ?st')"
    using search_one_domain_skips [where st = ?st' and d = d, OF rec] by simp
  have g: "\<forall>now. d \<notin> set (crawler_cfg.blacklist_domains cfg) \<longrightarrow>
                 (search_one_domain_gate cfg ?st' d now = SkipSuppressed \<longleftrightarrow> now < ?until)"
    using gate_suppressed_iff [where st = ?st' and d = d, OF rec] by simp
  have clr: "record_success d ?st' d = None"
    by (rule record_success_clears)
  have pass: "\<forall>now. d \<notin> set (crawler_cfg.blacklist_domains cfg) \<longrightarrow>
                 search_one_domain_gate cfg (record_success d ?st') d now = Proceed"
    using clr by (simp add: search_one_domain_gate_def)
  have one: "count_of (record_failure cfg t d (record_success d ?st')) d = 1"
  proof -
    have "count_of (record_success d ?st') d = 0"
      using clr by (simp add: count_of_def)
    then show ?thesis
      using record_failure_count [of cfg t d "record_success d ?st'"] by simp
  qed
  show ?thesis
    unfolding Let_def using rec skip g clr pass one by blast
qed

theorem suppression_after_threshold_failures_witness:
  "(let cfg = \<lparr>per_site_limit = 5, max_total_limit = 30, time_days = 15,
                 crawler_cfg.trusted_domains = [ascii ''a.com''], crawler_cfg.blacklist_domains = [],
                 suppress_threshold = 3, suppress_hours = 24\<rparr>;
        d = ascii ''a.com'';
        st' = record_failures cfg [100, 200, 300] d Map.empty
    in st' d = Some \<lparr>count = 3, suppress_until = 86700\<rparr>
     \<and> search_one_domain cfg 86699 86699 d (Inl (TransportError [])) st' = (Inr [], st')
     \<and> search_one_domain_gate cfg st' d 86700 = Proceed
     \<and> record_success d st' d = None)"
proof -
  let ?cfg = "\<lparr>per_site_limit = 5, max_total_limit = 30, time_days = 15,
                 crawler_cfg.trusted_domains = [ascii ''a.com''], crawler_cfg.blacklist_domains = [],
                 suppress_threshold = 3, suppress_hours = 24\<rparr>"
  let ?d = "ascii ''a.com''"
  let ?st' = "record_failures ?cfg [100, 200, 300] ?d Map.empty"
  have ne: "[100, 200, 300::int] \<noteq> []" by simp
  have thr: "suppress_threshold ?cfg \<le> count_of Map.empty ?d + int (length [100, 200, 300::int])"
    by (simp add: count_of_def)
  have nb: "?d \<notin> set (crawler_cfg.blacklist_domains ?cfg)" by simp
  note main = suppression_after_threshold_failures [OF ne thr, of 0, unfolded Let_def]
  have rec: "?st' ?d = Some \<lparr>count = 3, suppress_until = 86700\<rparr>"
    using main by (simp add: count_of_def)
  have skip: "search_one_domain ?cfg 86699 86699 ?d (Inl (TransportError [])) ?st' = (Inr [], ?st')"
    using main by simp
  have pass: "search_one_domain_gate ?cfg ?st' ?d 86700 = Proceed"
    using rec nb by (simp add: search_one_domain_gate_def)
  have clr: "record_success ?d ?st' ?d = None"
    using main by simp
  show ?thesis
    unfolding Let_def using rec skip pass clr by blast
qed

section \<open>The ranking rule\<close>

lemma rank_loop_filter:
  "rank_loop dm cfg its (trusted, others) =
     (trusted @ filter (\<lambda>it. dm it \<notin> set (blacklist_domains cfg)
                              \<and> dm it \<in> set (trusted_domains cfg)) its,
      others @ filter (\<lambda>it. dm it \<notin> set (blacklist_domains cfg)
                              \<and> dm it \<notin> set (trusted_domains cfg)) its)"
proof (induction its arbitrary: trusted others)
  case Nil
  show ?case by simp
next
  case (Cons it its)
  have empty: "trusted_domains cfg = [] \<Longrightarrow> dm it \<notin> set (trusted_domains cfg)"
    by simp
  show ?case
    using empty by (auto simp: Cons.IH)
qed

lemma rank_by_spec: "rank_by dm cfg items = ranking_rule_spec dm cfg items"
  by (simp add: rank_by_def ranking_rule_spec_def rank_loop_filter Let_def)

lemma ranking_rule_spec_sound:
  assumes "it \<in> set (ranking_rule_spec dm cfg items)"
  shows "it \<in> set items \<and> dm it \<notin> set (blacklist_domains cfg)
         \<and> (only_trusted cfg \<longrightarrow> dm it \<in> set (trusted_domains cfg))"
proof -
  let ?kept = "filter (\<lambda>it. dm it \<notin> set (blacklist_domains cfg)) items"
  let ?tr = "filter (\<lambda>it. dm it \<in> set (trusted_domains cfg)) ?kept"
  let ?ot = "filter (\<lambda>it. dm it \<notin> set (trusted_domains cfg)) ?kept"
  have "set (ranking_rule_spec dm cfg items) \<subseteq> set (if only_trusted cfg then ?tr else ?tr @ ?ot)"
    unfolding ranking_rule_spec_def Let_def by (rule set_py_slice_to)
  then have mem: "it \<in> set (if only_trusted cfg then ?tr else ?tr @ ?ot)"
    using assms by (rule subsetD)
  show ?thesis
  proof (cases "only_trusted cfg")
    case True
    with mem show ?thesis by simp
  next
    case False
    with mem show ?thesis by auto
  qed
qed

text \<open>
  C3, as far as it holds. The four providers that have a ranking function
  (\<open>SearchService\<close>, \<open>LLMSearchService\<close>, \<open>MCPDDGService\<close>, \<open>MockSearchService\<close>) compute
  the ranking rule of the specification for every item list: blacklisted items excluded,
  trusted items before the others, each group in its original order, the whole cut
  to \<open>max_results\<close>, the others dropped under \<open>only_trusted\<close>. So no output item has a
  blacklisted domain and, under \<open>only_trusted\<close>, none has a domain outside the trusted
  list. The crawler applies no ranking: it returns the per-domain lists one after the
  other, cut to \<open>max_total_limit\<close>.
\<close>

theorem ranking_providers_follow_rule:
  "(let d_search = (\<lambda>it. domain_of up (first_truthy it [ascii ''href'', ascii ''link''] []));
        d_llm = (\<lambda>it. domain_of up (first_truthy it [ascii ''href'', ascii ''url''] []));
        d_href = (\<lambda>it. domain_of up (first_truthy it [ascii ''href''] []))
    in SearchService_rank_results up cfg items = ranking_rule_spec d_search cfg items
     \<and> LLMSearchService_rank_results up cfg items = ranking_rule_spec d_llm cfg items
     \<and> MCPDDGService_rank up cfg items = ranking_rule_spec d_href cfg items
     \<and> MockSearchService_rank up cfg items = ranking_rule_spec d_href cfg items
     \<and> (\<forall>it \<in> set (SearchService_rank_results up cfg items).
           d_search it \<notin> set (blacklist_domains cfg)
           \<and> (only_trusted cfg \<longrightarrow> d_search it \<in> set (trusted_domains cfg)))
     \<and> (\<forall>it \<in> set (LLMSearchService_rank_results up cfg items).
           d_llm it \<notin> set (blacklist_domains cfg)
           \<and> (only_trusted cfg \<longrightarrow> d_llm it \<in> set (trusted_domains cfg)))
     \<and> (\<forall>it \<in> set (MCPDDGService_rank up cfg items) \<union> set (MockSearchService_rank up cfg items).
           d_href it \<notin> set (blacklist_domains cfg)
           \<and> (only_trusted cfg \<longrightarrow> d_href it \<in> set (trusted_domains cfg)))
     \<and> CrawlerService_search ccfg None results_list =
           Inr (py_slice_to (max_total_limit ccfg)
                  (concat (map (\<lambda>res. case res of Inr its \<Rightarrow> its | Inl e \<Rightarrow> []) results_list))))"
proof -
  let ?d_search = "\<lambda>it. domain_of up (first_truthy it [ascii ''href'', ascii ''link''] [])"
  let ?d_llm = "\<lambda>it. domain_of up (first_truthy it [ascii ''href'', ascii ''url''] [])"
  let ?d_href = "\<lambda>it. domain_of up (first_truthy it [ascii ''href''] [])"
  have s: "SearchService_rank_results up cfg items = ranking_rule_spec ?d_search cfg items"
    by (simp add: SearchService_rank_results_def rank_by_spec)
  have l: "LLMSearchService_rank_results up cfg items = ranking_rule_spec ?d_llm cfg items"
    by (simp add: LLMSearchService_rank_results_def rank_by_spec)
  have m: "MCPDDGService_rank up cfg items = ranking_rule_spec ?d_href cfg items"
    by (simp add: MCPDDGService_rank_def rank_by_spec)
  have k: "MockSearchService_rank up cfg items = ranking_rule_spec ?d_href cfg items"
    by (simp add: MockSearchService_rank_def rank_by_spec)
  have ps: "\<forall>it \<in> set (SearchService_rank_results up cfg items).
           ?d_search it \<notin> set (blacklist_domains cfg)
           \<and> (only_trusted cfg \<longrightarrow> ?d_search it \<in> set (trusted_domains cfg))"
    unfolding s using ranking_rule_spec_sound [of _ ?d_search cfg items] by blast
  have pl: "\<forall>it \<in> set (LLMSearchService_rank_results up cfg items).
           ?d_llm it \<notin> set (blacklist_domains cfg)
           \<and> (only_trusted cfg \<longrightarrow> ?d_llm it \<in> set (trusted_domains cfg))"
    unfolding l using ranking_rule_spec_sound [of _ ?d_llm cfg items] by blast
  have pm: "\<forall>it \<in> set (MCPDDGService_rank up cfg items) \<union> set (MockSearchService_rank up cfg items).
           ?d_href it \<notin> set (blacklist_domains cfg)
           \<and> (only_trusted cfg \<longrightarrow> ?d_href it \<in> set (trusted_domains cfg))"
    unfolding m k using ranking_rule_spec_sound [of _ ?d_href cfg items] by blast
  have c: "CrawlerService_search ccfg None results_list =
           Inr (py_slice_to (max_total_limit ccfg)
                  (concat (map (\<lambda>res. case res of Inr its \<Rightarrow> its | Inl e \<Rightarrow> []) results_list)))"
    by (simp add: CrawlerService_search_def)
  show ?thesis
    unfolding Let_def using s l m k ps pl pm c by blast
qed

theorem ranking_providers_follow_rule_witness:
  "(let cfg = \<lparr>max_results = 2, max_fetch_html = 8, only_trusted = False,
                 trusted_domains = [ascii ''b.com''], blacklist_domains = [ascii ''c.com'']\<rparr>;
        a1 = [(ascii ''href'', ascii ''https://a.com/1'')];
        b1 = [(ascii ''href'', ascii ''https://b.com/1'')];
        c1 = [(ascii ''href'', ascii ''https://c.com/1'')];
        a2 = [(ascii ''href'', ascii ''https://a.com/2'')]
    in SearchService_rank_results example_urlparse cfg [a1, c1, b1, a2] = [b1, a1]
     \<and> SearchService_rank_results example_urlparse (cfg\<lparr>only_trusted := True\<rparr>) [a1, c1, b1, a2] = [b1])"
proof -
  let ?cfg = "\<lparr>max_results = 2, max_fetch_html = 8, only_trusted = False,
                 trusted_domains = [ascii ''b.com''], blacklist_domains = [ascii ''c.com'']\<rparr>"
  let ?a1 = "[(ascii ''href'', ascii ''https://a.com/1'')]"
  let ?b1 = "[(ascii ''href'', ascii ''https://b.com/1'')]"
  let ?c1 = "[(ascii ''href'', ascii ''https://c.com/1'')]"
  let ?a2 = "[(ascii ''href'', ascii ''https://a.com/2'')]"
  let ?d = "\<lambda>it. domain_of example_urlparse (first_truthy it [ascii ''href'', ascii ''link''] [])"
  have "SearchService_rank_results example_urlparse ?cfg [?a1, ?c1, ?b1, ?a2]
          = ranking_rule_spec ?d ?cfg [?a1, ?c1, ?b1, ?a2]"
    using ranking_providers_follow_rule [of example_urlparse ?cfg "[?a1, ?c1, ?b1, ?a2]", unfolded Let_def]
    by (rule conjunct1)
  also have "\<dots> = [?b1, ?a1]"
    by (simp add: Let_def ranking_rule_spec_def py_slice_to_def domain_of_def
          example_urlparse_def ascii_simps)
  finally have 1: "SearchService_rank_results example_urlparse ?cfg [?a1, ?c1, ?b1, ?a2] = [?b1, ?a1]" .
  have "SearchService_rank_results example_urlparse (?cfg\<lparr>only_trusted := True\<rparr>) [?a1, ?c1, ?b1, ?a2]
          = ranking_rule_spec ?d (?cfg\<lparr>only_trusted := True\<rparr>) [?a1, ?c1, ?b1, ?a2]"
    using ranking_providers_follow_rule [of example_urlparse "?cfg\<lparr>only_trusted := True\<rparr>"
            "[?a1, ?c1, ?b1, ?a2]", unfolded Let_def]
    by (rule conjunct1)
  also have "\<dots> = [?b1]"
    by (simp add: Let_def ranking_rule_spec_def py_slice_to_def domain_of_def
          example_urlparse_def ascii_simps)
  finally have 2: "SearchService_rank_results example_urlparse (?cfg\<lparr>only_trusted := True\<rparr>)
             [?a1, ?c1, ?b1, ?a2] = [?b1]" .
  show ?thesis unfolding Let_def using 1 2 by (rule conjI)
qed

text \<open>
  The crawler against the ranking rule: with \<open>MAX_RESULTS = 1\<close> and two links found on
  the one trusted site, \<open>CrawlerService.search\<close> returns both, where the ranking rule
  returns one.
\<close>

theorem crawler_search_not_ranked:
  "(let s = \<lparr>MAX_RESULTS = 1, MAX_FETCH_HTML = 8, ONLY_TRUSTED = False,
               TRUSTED_DOMAINS = [ascii ''a.com''], BLACKLIST_DOMAINS = [],
               PER_SITE_LIMIT = 5, MAX_TOTAL_LIMIT = 30, TIME_RANGE_DAYS = 15,
               CRAWLER_STRICT = False, SUPPRESS_THRESHOLD = 3, SUPPRESS_TTL_HOURS = 24\<rparr>;
        a1 = [(ascii ''href'', ascii ''https://a.com/1''), (ascii ''title'', []),
              (ascii ''source'', ascii ''a.com'')];
        a2 = [(ascii ''href'', ascii ''https://a.com/2''), (ascii ''title'', []),
              (ascii ''source'', ascii ''a.com'')]
    in CrawlerService_search (crawler_of_settings s) None [Inr [a1, a2]] = Inr [a1, a2]
     \<and> ranking_rule_spec (\<lambda>it. domain_of example_urlparse (first_truthy it [ascii ''href''] []))
           \<lparr>max_results = MAX_RESULTS s, max_fetch_html = MAX_FETCH_HTML s,
            only_trusted = ONLY_TRUSTED s,
            trusted_domains = crawler_cfg.trusted_domains (crawler_of_settings s),
            blacklist_domains = crawler_cfg.blacklist_domains (crawler_of_settings s)\<rparr>
           [a1, a2] = [a1])"
  by (simp add: Let_def CrawlerService_search_def crawler_of_settings_def py_slice_to_def
        ranking_rule_spec_def domain_of_def example_urlparse_def ascii_simps)

section \<open>Retries and backoff\<close>

lemma complete_try_status_error:
  "\<not> (200 \<le> status \<and> status \<le> 299) \<Longrightarrow>
     complete_try (Response status body) = Inl (HTTPStatusError status)"
  by (auto simp: complete_try_def raise_for_status_def)

lemma complete_first_ok:
  "complete_try (net 0) = Inr d \<Longrightarrow> complete net = (Inr (Some d), [Post 0])"
  by (simp add: complete_def)

lemma complete_second_ok:
  "complete_try (net 0) = Inl e0 \<Longrightarrow> complete_try (net 1) = Inr d \<Longrightarrow>
     complete net =
       (Inr (Some d), [Post 0, LogRetry (complete_handler e0) 1, Sleep 1, Post 1])"
  by (simp add: complete_def)

lemma complete_third_ok:
  "complete_try (net 0) = Inl e0 \<Longrightarrow> complete_try (net 1) = Inl e1 \<Longrightarrow>
   complete_try (net 2) = Inr d \<Longrightarrow>
     complete net =
       (Inr (Some d), [Post 0, LogRetry (complete_handler e0) 1, Sleep 1,
                       Post 1, LogRetry (complete_handler e1) 2, Sleep 2, Post 2])"
  by (simp add: complete_def)

lemma complete_all_fail:
  "complete_try (net 0) = Inl e0 \<Longrightarrow> complete_try (net 1) = Inl e1 \<Longrightarrow>
   complete_try (net 2) = Inl e2 \<Longrightarrow>
     complete net =
       (Inl e2, [Post 0, LogRetry (complete_handler e0) 1, Sleep 1,
                 Post 1, LogRetry (complete_handler e1) 2, Sleep 2,
                 Post 2, LogRetry (complete_handler e2) 3, Sleep 4])"
  by (simp add: complete_def)

lemma fetch_first_response:
  "fetch_try (net 0) = Inr r \<Longrightarrow> SearchService_fetch_readable None net = (r, [Get 0])"
  by (cases r) (simp add: SearchService_fetch_readable_def)

lemma fetch_try_response:
  "contains (ascii ''text/html'') (py_lower ctype) \<Longrightarrow>
     fetch_try (GetResponse status ctype (Inr r)) = Inr r"
  by (simp add: fetch_try_def)

lemma fetch_first_other_exception:
  "fetch_try (net 0) = Inl e \<Longrightarrow> \<not> is_httpx_HTTPError e \<Longrightarrow>
     SearchService_fetch_readable None net = (([], []), [Get 0])"
  by (simp add: SearchService_fetch_readable_def)

lemma fetch_second_response:
  "fetch_try (net 0) = Inl e0 \<Longrightarrow> is_httpx_HTTPError e0 \<Longrightarrow> fetch_try (net 1) = Inr r \<Longrightarrow>
     SearchService_fetch_readable None net = (r, [Get 0, Sleep 1, Get 1])"
  by (cases r) (simp add: SearchService_fetch_readable_def)

lemma fetch_second_other_exception:
  "fetch_try (net 0) = Inl e0 \<Longrightarrow> is_httpx_HTTPError e0 \<Longrightarrow>
   fetch_try (net 1) = Inl e1 \<Longrightarrow> \<not> is_httpx_HTTPError e1 \<Longrightarrow>
     SearchService_fetch_readable None net = (([], []), [Get 0, Sleep 1, Get 1])"
  by (simp add: SearchService_fetch_readable_def)

lemma fetch_third_response:
  "fetch_try (net 0) = Inl e0 \<Longrightarrow> is_httpx_HTTPError e0 \<Longrightarrow>
   fetch_try (net 1) = Inl e1 \<Longrightarrow> is_httpx_HTTPError e1 \<Longrightarrow>
   fetch_try (net 2) = Inr r \<Longrightarrow>
     SearchService_fetch_readable None net = (r, [Get 0, Sleep 1, Get 1, Sleep 2, Get 2])"
  by (cases r) (simp add: SearchService_fetch_readable_def)

lemma fetch_third_other_exception:
  "fetch_try (net 0) = Inl e0 \<Longrightarrow> is_httpx_HTTPError e0 \<Longrightarrow>
   fetch_try (net 1) = Inl e1 \<Longrightarrow> is_httpx_HTTPError e1 \<Longrightarrow>
   fetch_try (net 2) = Inl e2 \<Longrightarrow> \<not> is_httpx_HTTPError e2 \<Longrightarrow>
     SearchService_fetch_readable None net =
       (([], []), [Get 0, Sleep 1, Get 1, Sleep 2, Get 2])"
  by (simp add: SearchService_fetch_readable_def)

lemma fetch_client_exception:
  "SearchService_fetch_readable (Some e) net = (([], []), [])"
  by (simp add: SearchService_fetch_readable_def)

lemma fetch_try_not_html:
  "\<not> contains (ascii ''text/html'') (py_lower ctype) \<Longrightarrow>
     fetch_try (GetResponse status ctype extraction) = Inr ([], [])"
  by (simp add: fetch_try_def)

lemma fetch_try_extraction_raises:
  "contains (ascii ''text/html'') (py_lower ctype) \<Longrightarrow>
     fetch_try (GetResponse status ctype (Inl e)) = Inl e"
  by (simp add: fetch_try_def)

lemma fetch_all_fail:
  "fetch_try (net 0) = Inl e0 \<Longrightarrow> is_httpx_HTTPError e0 \<Longrightarrow>
   fetch_try (net 1) = Inl e1 \<Longrightarrow> is_httpx_HTTPError e1 \<Longrightarrow>
   fetch_try (net 2) = Inl e2 \<Longrightarrow> is_httpx_HTTPError e2 \<Longrightarrow>
     SearchService_fetch_readable None net =
       (([], []), [Get 0, Sleep 1, Get 1, Sleep 2, Get 2, Sleep 4])"
  by (simp add: SearchService_fetch_readable_def)

lemma fetch_loop_posts: "length (filter (\<lambda>ev. \<exists>i. ev = Get i) (snd (fetch_loop net as))) \<le> length as"
proof (induction as)
  case Nil
  show ?case by simp
next
  case (Cons a as)
  then show ?case
    by (auto split: sum.splits prod.splits)
qed

lemma complete_loop_posts:
  "length (filter (\<lambda>ev. \<exists>i. ev = Post i) (snd (complete_loop net as last_exc))) \<le> length as"
proof (induction as arbitrary: last_exc)
  case Nil
  show ?case by (simp split: option.splits)
next
  case (Cons a as)
  show ?case
  proof (cases "complete_try (net a)")
    case (Inr d)
    then show ?thesis by simp
  next
    case (Inl e)
    obtain r evs where l: "complete_loop net as (Some e) = (r, evs)"
      by (cases "complete_loop net as (Some e)")
    have "length (filter (\<lambda>ev. \<exists>i. ev = Post i) evs) \<le> length as"
      using Cons.IH [of "Some e"] l by simp
    then show ?thesis
      using Inl l by simp
  qed
qed

text \<open>
  C8, as the code has it. \<open>DoubaoClient.complete\<close> makes at most three requests. Every
  failed attempt is retried, whatever failed: a timeout, another transport error, the
  \<open>HTTPStatusError\<close> that \<open>raise_for_status\<close> raises for a response whose status is not
  2xx (4xx and 5xx among them), or any other exception. After the failed attempt number
  \<open>attempt\<close> (from 0) it sleeps \<open>1 * 2 ^ attempt\<close> seconds, also after the last one; the
  first attempt that succeeds returns its JSON, and after three failures the last
  exception is raised. \<open>SearchService.fetch_readable\<close> makes at most three requests
  and retries, with the same sleeps, only after an \<open>httpx.HTTPError\<close>: at each of
  the three attempts a response is used as it is whatever its status and ends the loop
  (the pair of empty strings when it is not HTML), an \<open>httpx.HTTPError\<close> sleeps and
  goes on to the next attempt, and any other exception, one raised by the extraction
  among them, ends the loop with the pair of empty strings, as do three
  \<open>httpx.HTTPError\<close>s and an exception of the client set-up. The seven courses the
  three attempts can take are all listed.
\<close>

theorem retry_policy:
  "length (filter (\<lambda>ev. \<exists>i. ev = Post i) (snd (complete net))) \<le> 3
   \<and> (\<forall>status body. \<not> (200 \<le> status \<and> status \<le> 299) \<longrightarrow>
         complete_try (Response status body :: 'r attempt) = Inl (HTTPStatusError status))
   \<and> (\<forall>d. complete_try (net 0) = Inr d \<longrightarrow> complete net = (Inr (Some d), [Post 0]))
   \<and> (\<forall>e0 d. complete_try (net 0) = Inl e0 \<and> complete_try (net 1) = Inr d \<longrightarrow>
         complete net =
           (Inr (Some d), [Post 0, LogRetry (complete_handler e0) 1, Sleep 1, Post 1]))
   \<and> (\<forall>e0 e1 d. complete_try (net 0) = Inl e0 \<and> complete_try (net 1) = Inl e1
           \<and> complete_try (net 2) = Inr d \<longrightarrow>
         complete net =
           (Inr (Some d), [Post 0, LogRetry (complete_handler e0) 1, Sleep 1,
                           Post 1, LogRetry (complete_handler e1) 2, Sleep 2, Post 2]))
   \<and> (\<forall>e0 e1 e2. complete_try (net 0) = Inl e0 \<and> complete_try (net 1) = Inl e1
           \<and> complete_try (net 2) = Inl e2 \<longrightarrow>
         complete net =
           (Inl e2, [Post 0, LogRetry (complete_handler e0) 1, Sleep 1,
                     Post 1, LogRetry (complete_handler e1) 2, Sleep 2,
                     Post 2, LogRetry (complete_handler e2) 3, Sleep 4]))
   \<and> length (filter (\<lambda>ev. \<exists>i. ev = Get i) (snd (SearchService_fetch_readable client gnet))) \<le> 3
   \<and> (\<forall>status ctype r. contains (ascii ''text/html'') (py_lower ctype) \<longrightarrow>
         fetch_try (GetResponse status ctype (Inr r)) = Inr r)
   \<and> (\<forall>status ctype extraction. \<not> contains (ascii ''text/html'') (py_lower ctype) \<longrightarrow>
         fetch_try (GetResponse status ctype extraction) = Inr ([], []))
   \<and> (\<forall>status ctype e. contains (ascii ''text/html'') (py_lower ctype) \<longrightarrow>
         fetch_try (GetResponse status ctype (Inl e)) = Inl e)
   \<and> (\<forall>e. fetch_try (GetRaised e) = Inl e)
   \<and> (\<forall>e. SearchService_fetch_readable (Some e) gnet = (([], []), []))
   \<and> (\<forall>r. fetch_try (gnet 0) = Inr r \<longrightarrow>
         SearchService_fetch_readable None gnet = (r, [Get 0]))
   \<and> (\<forall>e. fetch_try (gnet 0) = Inl e \<and> \<not> is_httpx_HTTPError e \<longrightarrow>
         SearchService_fetch_readable None gnet = (([], []), [Get 0]))
   \<and> (\<forall>e0 r. fetch_try (gnet 0) = Inl e0 \<and> is_httpx_HTTPError e0
           \<and> fetch_try (gnet 1) = Inr r \<longrightarrow>
         SearchService_fetch_readable None gnet = (r, [Get 0, Sleep 1, Get 1]))
   \<and> (\<forall>e0 e1. fetch_try (gnet 0) = Inl e0 \<and> is_httpx_HTTPError e0
           \<and> fetch_try (gnet 1) = Inl e1 \<and> \<not> is_httpx_HTTPError e1 \<longrightarrow>
         SearchService_fetch_readable None gnet = (([], []), [Get 0, Sleep 1, Get 1]))
   \<and> (\<forall>e0 e1 r. fetch_try (gnet 0) = Inl e0 \<and> is_httpx_HTTPError e0
           \<and> fetch_try (gnet 1) = Inl e1 \<and> is_httpx_HTTPError e1
           \<and> fetch_try (gnet 2) = Inr r \<longrightarrow>
         SearchService_fetch_readable None gnet =
           (r, [Get 0, Sleep 1, Get 1, Sleep 2, Get 2]))
   \<and> (\<forall>e0 e1 e2. fetch_try (gnet 0) = Inl e0 \<and> is_httpx_HTTPError e0
           \<and> fetch_try (gnet 1) = Inl e1 \<and> is_httpx_HTTPError e1
           \<and> fetch_try (gnet 2) = Inl e2 \<and> \<not> is_httpx_HTTPError e2 \<longrightarrow>
         SearchService_fetch_readable None gnet =
           (([], []), [Get 0, Sleep 1, Get 1, Sleep 2, Get 2]))
   \<and> (\<forall>e0 e1 e2. fetch_try (gnet 0) = Inl e0 \<and> is_httpx_HTTPError e0
           \<and> fetch_try (gnet 1) = Inl e1 \<and> is_httpx_HTTPError e1
           \<and> fetch_try (gnet 2) = Inl e2 \<and> is_httpx_HTTPError e2 \<longrightarrow>
         SearchService_fetch_readable None gnet =
           (([], []), [Get 0, Sleep 1, Get 1, Sleep 2, Get 2, Sleep 4]))"
proof -
  have posts: "length (filter (\<lambda>ev. \<exists>i. ev = Post i) (snd (complete net))) \<le> 3"
    using complete_loop_posts [of net "[0, 1, 2]" None] by (simp add: complete_def)
  have gets: "length (filter (\<lambda>ev. \<exists>i. ev = Get i) (snd (SearchService_fetch_readable client gnet))) \<le> 3"
    using fetch_loop_posts [of gnet "[0, 1, 2]"]
    by (cases client) (simp_all add: SearchService_fetch_readable_def)
  show ?thesis
    apply (intro conjI allI impI)
               apply (rule posts)
              apply (erule complete_try_status_error)
             apply (erule complete_first_ok)
            apply (erule conjE, erule (1) complete_second_ok)
           apply (elim conjE, erule (2) complete_third_ok)
          apply (elim conjE, erule (2) complete_all_fail)
         apply (rule gets)
               apply (erule fetch_try_response)
              apply (erule fetch_try_not_html)
             apply (erule fetch_try_extraction_raises)
            apply (simp add: fetch_try_def)
           apply (rule fetch_client_exception)
          apply (erule fetch_first_response)
         apply (erule conjE, erule (1) fetch_first_other_exception)
        apply (elim conjE, erule (2) fetch_second_response)
       apply (elim conjE, erule (3) fetch_second_other_exception)
      apply (elim conjE, erule (4) fetch_third_response)
     apply (elim conjE, erule (5) fetch_third_other_exception)
    apply (elim conjE, erule (5) fetch_all_fail)
    done
qed

theorem retry_policy_witness:
  "complete (\<lambda>attempt. if attempt = 0 then Raised (ReadTimeout []) else Response 200 (Inr ()))
     = (Inr (Some ()), [Post 0, LogRetry TimeoutHandler 1, Sleep 1, Post 1])
   \<and> SearchService_fetch_readable None
        (\<lambda>attempt. GetResponse 404 (ascii ''text/html; charset=utf-8'')
                      (Inr (ascii ''Not Found'', ascii ''gone'')))
     = ((ascii ''Not Found'', ascii ''gone''), [Get 0])
   \<and> SearchService_fetch_readable None
        (\<lambda>attempt. if attempt = 0 then GetRaised (ConnectTimeout [])
                    else GetRaised (OtherException []))
     = (([], []), [Get 0, Sleep 1, Get 1])
   \<and> SearchService_fetch_readable None
        (\<lambda>attempt. if attempt < 2 then GetRaised (ConnectTimeout [])
                    else GetResponse 200 (ascii ''text/html'') (Inr (ascii ''T'', ascii ''body'')))
     = ((ascii ''T'', ascii ''body''), [Get 0, Sleep 1, Get 1, Sleep 2, Get 2])"
proof -
  let ?net = "\<lambda>attempt::nat. if attempt = 0 then Raised (ReadTimeout []) else Response 200 (Inr ())"
  let ?g1 = "\<lambda>attempt::nat. GetResponse 404 (ascii ''text/html; charset=utf-8'')
                      (Inr (ascii ''Not Found'', ascii ''gone''))"
  let ?g2 = "\<lambda>attempt::nat. if attempt = 0 then GetRaised (ConnectTimeout [])
                    else GetRaised (OtherException [])"
  have html: "contains (ascii ''text/html'') (py_lower (ascii ''text/html; charset=utf-8''))"
    by (simp add: ascii_simps py_lower_def lower_cp_def)
  have t0: "complete_try (?net 0) = Inl (ReadTimeout [])"
    by (simp add: complete_try_def)
  have t1: "complete_try (?net 1) = Inr ()"
    by (simp add: complete_try_def raise_for_status_def)
  have 1: "complete ?net = (Inr (Some ()), [Post 0, LogRetry TimeoutHandler 1, Sleep 1, Post 1])"
    using retry_policy [of ?net None ?g1, THEN conjunct2, THEN conjunct2, THEN conjunct2,
            THEN conjunct1, rule_format, of "ReadTimeout []" "()"] t0 t1
    by simp
  have f: "fetch_try (?g1 0) = Inr (ascii ''Not Found'', ascii ''gone'')"
    by (simp add: fetch_try_def html)
  have 2: "SearchService_fetch_readable None ?g1 = ((ascii ''Not Found'', ascii ''gone''), [Get 0])"
    using retry_policy [of ?net None ?g1, THEN conjunct2, THEN conjunct2, THEN conjunct2,
            THEN conjunct2, THEN conjunct2, THEN conjunct2, THEN conjunct2, THEN conjunct2,
            THEN conjunct2, THEN conjunct2, THEN conjunct2, THEN conjunct2,
            THEN conjunct1, rule_format, OF f] .
  have 3: "SearchService_fetch_readable None ?g2 = (([], []), [Get 0, Sleep 1, Get 1])"
    by (simp add: SearchService_fetch_readable_def fetch_try_def)
  have html2: "contains (ascii ''text/html'') (py_lower (ascii ''text/html''))"
    by (simp add: ascii_simps py_lower_def lower_cp_def)
  have 4: "SearchService_fetch_readable None
        (\<lambda>attempt. if attempt < 2 then GetRaised (ConnectTimeout [])
                    else GetResponse 200 (ascii ''text/html'') (Inr (ascii ''T'', ascii ''body'')))
     = ((ascii ''T'', ascii ''body''), [Get 0, Sleep 1, Get 1, Sleep 2, Get 2])"
    by (simp add: SearchService_fetch_readable_def fetch_try_def html2)
  show ?thesis using 1 2 3 4 by blast
qed

text \<open>
  A response with status 500 at every attempt: \<open>complete\<close> does not hand it to the
  caller, it posts three times, sleeps 1, 2 and 4 seconds and raises.
\<close>

theorem complete_retries_status_500:
  "complete (\<lambda>attempt. Response 500 (Inr ())) =
     (Inl (HTTPStatusError 500),
      [Post 0, LogRetry HTTPErrorHandler 1, Sleep 1,
       Post 1, LogRetry HTTPErrorHandler 2, Sleep 2,
       Post 2, LogRetry HTTPErrorHandler 3, Sleep 4])"
  by (simp add: complete_def complete_try_def raise_for_status_def)

section \<open>What gather\_readables returns\<close>

lemma map_of_dict_set:
  "map_of (dict_set k v d) k' = (if k' = k then Some v else map_of d k')"
  by (induction d) auto

lemma map_of_enrich:
  "map_of (enrich it r) k =
     (if k = ascii ''article_text'' then Some (snd r)
      else if k = ascii ''article_title'' then Some (fst r)
      else map_of it k)"
  by (simp add: enrich_def map_of_dict_set)

lemma length_gather_readables:
  "length (gather_readables cfg f items) = length (py_slice_to (max_fetch_html cfg) items)"
  by (simp add: gather_readables_def Let_def)

lemma nth_gather_readables:
  assumes "i < length (py_slice_to (max_fetch_html cfg) items)"
  shows "gather_readables cfg f items ! i =
           enrich (py_slice_to (max_fetch_html cfg) items ! i)
             (f i (map_of (py_slice_to (max_fetch_html cfg) items ! i) (ascii ''href'')))"
  using assms by (simp add: gather_readables_def Let_def)

lemma fetch_one_other_keys:
  assumes "k \<noteq> ascii ''article_title''" and "k \<noteq> ascii ''date''" and "k \<noteq> ascii ''article_text''"
  shows "map_of (fetch_one it p) k = map_of it k"
  using assms
  by (cases p) (simp_all add: fetch_one_def map_of_dict_set Let_def split: option.splits)

lemma fetch_one_article_text:
  "map_of (fetch_one it p) (ascii ''article_text'') =
     Some (case p of
             PageRaised e \<Rightarrow> []
           | PageResponse status text title_m date_m \<Rightarrow> if status \<ge> 400 then [] else text)"
  by (cases p) (simp_all add: fetch_one_def map_of_dict_set Let_def)

lemma fetch_one_article_title:
  "map_of (fetch_one it p) (ascii ''article_title'') =
     (case p of
        PageRaised e \<Rightarrow> map_of it (ascii ''article_title'')
      | PageResponse status text title_m date_m \<Rightarrow>
          if status \<ge> 400 then map_of it (ascii ''article_title'')
          else (case title_m of
                  Some title \<Rightarrow> Some title
                | None \<Rightarrow> map_of it (ascii ''article_title'')))"
  by (cases p)
     (simp_all add: fetch_one_def map_of_dict_set Let_def ascii_simps split: option.splits)

lemma fetch_one_date:
  "map_of (fetch_one it p) (ascii ''date'') =
     (case p of
        PageRaised e \<Rightarrow> map_of it (ascii ''date'')
      | PageResponse status text title_m date_m \<Rightarrow>
          if status \<ge> 400 then map_of it (ascii ''date'')
          else (case date_m of
                  Some date \<Rightarrow> Some date
                | None \<Rightarrow> map_of it (ascii ''date'')))"
  by (cases p)
     (simp_all add: fetch_one_def map_of_dict_set Let_def ascii_simps split: option.splits)

lemma crawler_gather_nth:
  "CrawlerService_gather_readables None pages items =
     Inr (map (\<lambda>(i, it). fetch_one it (pages i)) (zip [0 ..< length items] items))"
  by (simp add: CrawlerService_gather_readables_def)

text \<open>
  C5, as the code has it. \<open>gather_readables\<close> of the direct, LLM, protocol-tool and mock
  providers keeps the first \<open>max_fetch_html\<close> items only (the slice
  \<open>items[:max_fetch_html]\<close>) and returns one output item for each of them, in their
  order: the item itself with \<open>article_title\<close> and \<open>article_text\<close> set to what that
  item's \<open>fetch_readable\<close> returned and every other field unchanged. A fetch that fails
  returns the pair of empty strings, so the item stays, with an empty \<open>article_text\<close>.
  The crawler's \<open>gather_readables\<close> returns one output item for every input item, in
  input order, with \<open>article_text\<close> set (empty after an exception or a status from 400
  on) and every field other than \<open>article_title\<close>, \<open>date\<close> and \<open>article_text\<close> unchanged.
  Its \<open>article_title\<close> is the title of the page when the response has a status below
  400 and the page has a \<open><title>\<close>; in every other case the field is what it was in
  the input item, absent when the input item has none. The same holds of \<open>date\<close>
  and the first date found in the page.
\<close>

theorem gather_readables_enriches_in_order:
  "(let selected = py_slice_to (max_fetch_html cfg) items;
        href = (\<lambda>i. map_of (selected ! i) (ascii ''href''))
    in length (SearchService_gather_readables cfg env items) = length selected
     \<and> length (LLMSearchService_gather_readables cfg env_llm items) = length selected
     \<and> length (MCPDDGService_gather_readables cfg env items) = length selected
     \<and> length (MockSearchService_gather_readables cfg content_map items) = length selected
     \<and> (\<forall>i < length selected.
           SearchService_gather_readables cfg env items ! i =
             enrich (selected ! i)
               (fst (SearchService_fetch_readable (fst (env i (href i))) (snd (env i (href i)))))
         \<and> LLMSearchService_gather_readables cfg env_llm items ! i =
             enrich (selected ! i)
               (fst (LLMSearchService_fetch_readable (fst (env_llm i (href i)))
                       (snd (env_llm i (href i)))))
         \<and> MCPDDGService_gather_readables cfg env items ! i =
             SearchService_gather_readables cfg env items ! i
         \<and> MockSearchService_gather_readables cfg content_map items ! i =
             enrich (selected ! i) (MockSearchService_fetch_readable content_map (href i))))
   \<and> (\<forall>it r k. map_of (enrich it r) k =
          (if k = ascii ''article_text'' then Some (snd r)
           else if k = ascii ''article_title'' then Some (fst r)
           else map_of it k))
   \<and> (\<forall>e net. fst (SearchService_fetch_readable (Some e) net) = ([], []))
   \<and> (\<forall>e net. fetch_try (net 0) = Inl e \<and> \<not> is_httpx_HTTPError e \<longrightarrow>
          fst (SearchService_fetch_readable None net) = ([], []))
   \<and> (\<forall>e0 e1 e2 net. fetch_try (net 0) = Inl e0 \<and> fetch_try (net 1) = Inl e1
            \<and> fetch_try (net 2) = Inl e2 \<longrightarrow>
          fst (SearchService_fetch_readable None net) = ([], []))
   \<and> (\<forall>client e g. fetch_try g = Inl e \<longrightarrow>
          fst (LLMSearchService_fetch_readable client g) = ([], []))
   \<and> (\<exists>out. CrawlerService_gather_readables None pages items = Inr out
          \<and> length out = length items
          \<and> (\<forall>i < length items. out ! i = fetch_one (items ! i) (pages i)))
   \<and> (\<forall>it p k. k \<noteq> ascii ''article_title'' \<and> k \<noteq> ascii ''date''
            \<and> k \<noteq> ascii ''article_text'' \<longrightarrow>
          map_of (fetch_one it p) k = map_of it k)
   \<and> (\<forall>it p. map_of (fetch_one it p) (ascii ''article_text'') =
          Some (case p of
                  PageRaised e \<Rightarrow> []
                | PageResponse status text title_m date_m \<Rightarrow>
                    if status \<ge> 400 then [] else text))
   \<and> (\<forall>it p. map_of (fetch_one it p) (ascii ''article_title'') =
          (case p of
             PageRaised e \<Rightarrow> map_of it (ascii ''article_title'')
           | PageResponse status text title_m date_m \<Rightarrow>
               if status \<ge> 400 then map_of it (ascii ''article_title'')
               else (case title_m of
                       Some title \<Rightarrow> Some title
                     | None \<Rightarrow> map_of it (ascii ''article_title''))))
   \<and> (\<forall>it p. map_of (fetch_one it p) (ascii ''date'') =
          (case p of
             PageRaised e \<Rightarrow> map_of it (ascii ''date'')
           | PageResponse status text title_m date_m \<Rightarrow>
               if status \<ge> 400 then map_of it (ascii ''date'')
               else (case date_m of
                       Some date \<Rightarrow> Some date
                     | None \<Rightarrow> map_of it (ascii ''date''))))
   \<and> (\<forall>e. CrawlerService_gather_readables (Some e) pages items = Inl e)"
proof -
  let ?sel = "py_slice_to (max_fetch_html cfg) items"
  have fail3: "fst (SearchService_fetch_readable None net) = ([], [])"
    if "fetch_try (net 0) = Inl e0" "fetch_try (net 1) = Inl e1" "fetch_try (net 2) = Inl e2"
    for e0 e1 e2 net
    using that by (simp add: SearchService_fetch_readable_def split: prod.splits)
  have fail1: "fst (SearchService_fetch_readable None net) = ([], [])"
    if "fetch_try (net 0) = Inl e" "\<not> is_httpx_HTTPError e" for e net
    using that by (simp add: SearchService_fetch_readable_def)
  have llm: "fst (LLMSearchService_fetch_readable client g) = ([], [])"
    if "fetch_try g = Inl e" for client e g
    using that by (simp add: LLMSearchService_fetch_readable_def split: option.splits)
  have crawl: "\<exists>out. CrawlerService_gather_readables None pages items = Inr out
          \<and> length out = length items
          \<and> (\<forall>i < length items. out ! i = fetch_one (items ! i) (pages i))"
    by (simp add: crawler_gather_nth)
  show ?thesis
    unfolding Let_def
    apply (intro conjI allI impI)
                   apply (simp add: SearchService_gather_readables_def length_gather_readables)
                  apply (simp add: LLMSearchService_gather_readables_def length_gather_readables)
                 apply (simp add: MCPDDGService_gather_readables_def
                   SearchService_gather_readables_def length_gather_readables)
                apply (simp add: MockSearchService_gather_readables_def length_gather_readables)
               apply (simp add: SearchService_gather_readables_def nth_gather_readables)
              apply (simp add: LLMSearchService_gather_readables_def nth_gather_readables)
             apply (simp add: MCPDDGService_gather_readables_def)
            apply (simp add: MockSearchService_gather_readables_def nth_gather_readables)
           apply (rule map_of_enrich)
          apply (simp add: SearchService_fetch_readable_def)
         apply (erule conjE, erule (1) fail1)
        apply (elim conjE, erule (2) fail3)
       apply (erule llm)
      apply (rule crawl)
        apply (elim conjE, erule (2) fetch_one_other_keys)
       apply (rule fetch_one_article_text)
      apply (rule fetch_one_article_title)
     apply (rule fetch_one_date)
    apply (simp add: CrawlerService_gather_readables_def)
    done
qed

theorem gather_readables_enriches_in_order_witness:
  "(let cfg = \<lparr>max_results = 12, max_fetch_html = 8, only_trusted = False,
                 trusted_domains = [], blacklist_domains = []\<rparr>;
        a = [(ascii ''href'', ascii ''https://a.com/1''), (ascii ''title'', ascii ''A'')];
        b = [(ascii ''href'', ascii ''https://b.com/1''), (ascii ''title'', ascii ''B'')];
        env = (\<lambda>i url. if i = 0
                 then (None, \<lambda>attempt. GetResponse 200 (ascii ''text/html'')
                                          (Inr (ascii ''T'', ascii ''body'')))
                 else (None, \<lambda>attempt. GetRaised (OtherException [])));
        out = SearchService_gather_readables cfg env [a, b]
    in length out = 2
     \<and> out ! 0 = [(ascii ''href'', ascii ''https://a.com/1''), (ascii ''title'', ascii ''A''),
                  (ascii ''article_title'', ascii ''T''), (ascii ''article_text'', ascii ''body'')]
     \<and> out ! 1 = [(ascii ''href'', ascii ''https://b.com/1''), (ascii ''title'', ascii ''B''),
                  (ascii ''article_title'', []), (ascii ''article_text'', [])]
     \<and> CrawlerService_gather_readables None
          (\<lambda>i. if i = 0 then PageResponse 200 (ascii ''body'') (Some (ascii ''T'')) None
                else PageRaised (ConnectTimeout []))
          [a, b]
        = Inr [[(ascii ''href'', ascii ''https://a.com/1''), (ascii ''title'', ascii ''A''),
                (ascii ''article_title'', ascii ''T''), (ascii ''article_text'', ascii ''body'')],
               [(ascii ''href'', ascii ''https://b.com/1''), (ascii ''title'', ascii ''B''),
                (ascii ''article_text'', [])]])"
proof -
  let ?cfg = "\<lparr>max_results = 12, max_fetch_html = 8, only_trusted = False,
                 trusted_domains = [], blacklist_domains = []\<rparr>"
  let ?a = "[(ascii ''href'', ascii ''https://a.com/1''), (ascii ''title'', ascii ''A'')]"
  let ?b = "[(ascii ''href'', ascii ''https://b.com/1''), (ascii ''title'', ascii ''B'')]"
  let ?env = "\<lambda>(i::nat) (url::pystr option). if i = 0
                 then (None, \<lambda>attempt::nat. GetResponse 200 (ascii ''text/html'')
                                          (Inr (ascii ''T'', ascii ''body'')))
                 else (None, \<lambda>attempt::nat. GetRaised (OtherException []))"
  let ?out = "SearchService_gather_readables ?cfg ?env [?a, ?b]"
  note main = gather_readables_enriches_in_order
    [where cfg = ?cfg and items = "[?a, ?b]" and env = ?env
       and env_llm = "\<lambda>i url. (None, GetRaised (OtherException []))"
       and content_map = Map.empty and pages = "\<lambda>i. PageRaised (OtherException [])",
     unfolded Let_def]
  have sel: "py_slice_to (max_fetch_html ?cfg) [?a, ?b] = [?a, ?b]"
    by (simp add: py_slice_to_def)
  have html: "contains (ascii ''text/html'') (py_lower (ascii ''text/html''))"
    by (simp add: ascii_simps py_lower_def lower_cp_def)
  have len: "length ?out = 2"
    using main [THEN conjunct1, THEN conjunct1] sel by simp
  have n0: "?out ! 0 = enrich ?a (ascii ''T'', ascii ''body'')"
    using main [THEN conjunct1, THEN conjunct2, THEN conjunct2, THEN conjunct2, THEN conjunct2,
            rule_format, of 0, THEN conjunct1] sel
    by (simp add: SearchService_fetch_readable_def fetch_try_def html)
  have n1: "?out ! 1 = enrich ?b ([], [])"
    using main [THEN conjunct1, THEN conjunct2, THEN conjunct2, THEN conjunct2, THEN conjunct2,
            rule_format, of 1, THEN conjunct1] sel
    by (simp add: SearchService_fetch_readable_def fetch_try_def)
  have e0: "enrich ?a (ascii ''T'', ascii ''body'') =
              [(ascii ''href'', ascii ''https://a.com/1''), (ascii ''title'', ascii ''A''),
               (ascii ''article_title'', ascii ''T''), (ascii ''article_text'', ascii ''body'')]"
    by (simp add: enrich_def ascii_simps)
  have e1: "enrich ?b ([], []) =
              [(ascii ''href'', ascii ''https://b.com/1''), (ascii ''title'', ascii ''B''),
               (ascii ''article_title'', []), (ascii ''article_text'', [])]"
    by (simp add: enrich_def ascii_simps)
  have c: "CrawlerService_gather_readables None
          (\<lambda>i. if i = 0 then PageResponse 200 (ascii ''body'') (Some (ascii ''T'')) None
                else PageRaised (ConnectTimeout []))
          [?a, ?b]
        = Inr [[(ascii ''href'', ascii ''https://a.com/1''), (ascii ''title'', ascii ''A''),
                (ascii ''article_title'', ascii ''T''), (ascii ''article_text'', ascii ''body'')],
               [(ascii ''href'', ascii ''https://b.com/1''), (ascii ''title'', ascii ''B''),
                (ascii ''article_text'', [])]]"
    by (simp add: CrawlerService_gather_readables_def fetch_one_def ascii_simps)
  show ?thesis
    unfolding Let_def using len n0 n1 e0 e1 c by simp
qed

text \<open>
  With \<open>max_fetch_html = 1\<close> the second of two items is dropped; and an item whose page
  the crawler fails to fetch comes back without an \<open>article_title\<close>.
\<close>

theorem gather_readables_drops_and_omits:
  "SearchService_gather_readables
      \<lparr>max_results = 12, max_fetch_html = 1, only_trusted = False,
       trusted_domains = [], blacklist_domains = []\<rparr>
      (\<lambda>i url. (None, \<lambda>attempt. GetResponse 200 (ascii ''text/html'')
                                  (Inr (ascii ''T'', ascii ''body''))))
      [[(ascii ''href'', ascii ''https://a.com/1'')], [(ascii ''href'', ascii ''https://b.com/1'')]]
    = [[(ascii ''href'', ascii ''https://a.com/1''), (ascii ''article_title'', ascii ''T''),
        (ascii ''article_text'', ascii ''body'')]]
   \<and> CrawlerService_gather_readables None (\<lambda>i. PageRaised (ConnectTimeout []))
        [[(ascii ''href'', ascii ''https://a.com/1'')]]
    = Inr [[(ascii ''href'', ascii ''https://a.com/1''), (ascii ''article_text'', [])]]"
  by (simp add: SearchService_gather_readables_def gather_readables_def py_slice_to_def
        SearchService_fetch_readable_def fetch_try_def py_lower_def lower_cp_def enrich_def
        CrawlerService_gather_readables_def fetch_one_def ascii_simps)

section \<open>When the fallback report is built, and what it starts with\<close>

lemma contains_Nil: "contains [] hay"
  by (cases hay) simp_all

lemma contains_prefix: "contains needle (needle @ post)"
proof (cases "needle @ post")
  case Nil
  then show ?thesis by simp
next
  case (Cons c cs)
  have "prefix needle (needle @ post)" by simp
  then have "prefix needle (c # cs)" using Cons by simp
  then have "contains needle (c # cs)" by simp
  then show ?thesis using Cons by simp
qed

lemma contains_append: "contains needle (pre @ needle @ post)"
proof (induction pre)
  case Nil
  show ?case by (simp add: contains_prefix)
next
  case (Cons c pre)
  then show ?case by simp
qed

lemma contains_imp_split: "contains needle hay \<Longrightarrow> \<exists>pre post. hay = pre @ needle @ post"
proof (induction hay)
  case Nil
  then show ?case by simp
next
  case (Cons c cs)
  show ?case
  proof (cases "prefix needle (c # cs)")
    case True
    then obtain post where "c # cs = needle @ post"
      by (auto simp: prefix_def)
    then have "c # cs = [] @ needle @ post" by simp
    then show ?thesis by blast
  next
    case False
    with Cons.prems have "contains needle cs" by simp
    then obtain pre post where "cs = pre @ needle @ post"
      using Cons.IH by blast
    then have "c # cs = (c # pre) @ needle @ post" by simp
    then show ?thesis by blast
  qed
qed

lemma get_or_plain:
  assumes "plain_field it k"
  shows "\<exists>s. get_or it [k] (PStr []) = PStr s"
proof (cases "map_of it k")
  case None
  then show ?thesis by simp
next
  case (Some v)
  then have "string_or_falsy v"
    using assms by (simp add: plain_field_def)
  then show ?thesis
    using Some by (cases v) (simp_all add: string_or_falsy_def)
qed

lemma keys_dict_set: "fst ` set (dict_set k v d) = insert k (fst ` set d)"
proof (induction d)
  case Nil
  show ?case by simp
next
  case (Cons kv d)
  obtain k' v' where kv: "kv = (k', v')"
    by (cases kv)
  show ?case
  proof (cases "k' = k")
    case True
    then show ?thesis using kv by simp
  next
    case False
    then have "fst ` set (dict_set k v (kv # d)) = insert k' (fst ` set (dict_set k v d))"
      using kv by simp
    then show ?thesis
      unfolding Cons.IH using kv by auto
  qed
qed

lemma count_sources_plain:
  assumes "list_all plain_item items" and "\<forall>k \<in> fst ` set domains. \<exists>s. k = PStr s"
  shows "\<exists>ds. count_sources items domains = Inr ds \<and> (\<forall>k \<in> fst ` set ds. \<exists>s. k = PStr s)"
  using assms
proof (induction items arbitrary: domains)
  case Nil
  then show ?case by simp
next
  case (Cons it its)
  have "plain_field it (ascii ''source'')"
    using Cons.prems(1) by (simp add: plain_item_def)
  then obtain s where src: "get_or it [ascii ''source''] (PStr []) = PStr s"
    using get_or_plain by blast
  have rest: "list_all plain_item its"
    using Cons.prems(1) by simp
  show ?case
  proof (cases "s = []")
    case True
    then have "count_sources (it # its) domains = count_sources its domains"
      using src by (simp add: Let_def del: get_or.simps)
    then show ?thesis
      using Cons.IH [OF rest Cons.prems(2)] by simp
  next
    case False
    let ?d = "dict_set (PStr s) ((case map_of domains (PStr s) of Some n \<Rightarrow> n | None \<Rightarrow> 0) + 1)
                domains"
    have "count_sources (it # its) domains = count_sources its ?d"
      using src False by (simp add: Let_def del: get_or.simps)
    moreover have "\<forall>k \<in> fst ` set ?d. \<exists>s. k = PStr s"
      using Cons.prems(2) by (simp add: keys_dict_set)
    ultimately show ?thesis
      using Cons.IH [OF rest] by simp
  qed
qed

lemma key_less_strings: "\<exists>lt. key_less (PStr s, m) (PStr t, n) = Inr lt"
  by (auto simp: key_less_def)

lemma insert_by_key_strings:
  assumes "\<forall>k \<in> fst ` set bs. \<exists>s. k = PStr s"
  shows "\<exists>r. insert_by_key (PStr s, m) bs = Inr r \<and> fst ` set r = insert (PStr s) (fst ` set bs)"
  using assms
proof (induction bs)
  case Nil
  show ?case by simp
next
  case (Cons b bs)
  obtain t n where b: "b = (PStr t, n)"
    using Cons.prems by (cases b) auto
  obtain lt where lt: "key_less (PStr s, m) (PStr t, n) = Inr lt"
    using key_less_strings by blast
  have "\<forall>k \<in> fst ` set bs. \<exists>s. k = PStr s"
    using Cons.prems by simp
  then obtain r where r: "insert_by_key (PStr s, m) bs = Inr r"
      and keys: "fst ` set r = insert (PStr s) (fst ` set bs)"
    using Cons.IH by blast
  show ?case
  proof (cases lt)
    case True
    then have "insert_by_key (PStr s, m) (b # bs) = Inr ((PStr s, m) # b # bs)"
      using b lt by simp
    then show ?thesis by simp
  next
    case False
    then have "insert_by_key (PStr s, m) (b # bs) = Inr (b # r)"
      using b lt r by simp
    then show ?thesis
      using keys by auto
  qed
qed

lemma sort_into_strings:
  assumes "\<forall>k \<in> fst ` set acc. \<exists>s. k = PStr s" and "\<forall>k \<in> fst ` set xs. \<exists>s. k = PStr s"
  shows "\<exists>r. sort_into acc xs = Inr r"
  using assms
proof (induction xs arbitrary: acc)
  case Nil
  show ?case by simp
next
  case (Cons a xs)
  obtain s m where a: "a = (PStr s, m)"
    using Cons.prems(2) by (cases a) auto
  obtain acc' where i: "insert_by_key (PStr s, m) acc = Inr acc'"
      and keys: "fst ` set acc' = insert (PStr s) (fst ` set acc)"
    using insert_by_key_strings [OF Cons.prems(1)] by blast
  have "\<forall>k \<in> fst ` set acc'. \<exists>s. k = PStr s"
    unfolding keys using Cons.prems(1) by simp
  moreover have "\<forall>k \<in> fst ` set xs. \<exists>s. k = PStr s"
    using Cons.prems(2) by simp
  ultimately obtain r where "sort_into acc' xs = Inr r"
    using Cons.IH by blast
  then show ?case
    using a i by simp
qed

lemma dom_text_plain:
  assumes "list_all plain_item items"
  shows "\<exists>dt. dom_text items = Inr dt"
proof -
  obtain ds where c: "count_sources items [] = Inr ds"
      and keys: "\<forall>k \<in> fst ` set ds. \<exists>s. k = PStr s"
    using count_sources_plain [OF assms, of "[]"] by auto
  obtain r where "sorted_by_key ds = Inr r"
    using sort_into_strings [of "[]" ds] keys by (auto simp: sorted_by_key_def)
  then show ?thesis
    using c by (simp add: dom_text_def)
qed

lemma issue_lines_plain:
  assumes "plain_item it"
  shows "\<exists>ls. issue_lines it = Inr ls"
proof -
  have "plain_field it (ascii ''article_text'')"
    using assms by (simp add: plain_item_def)
  then obtain s where "get_or it [ascii ''article_text''] (PStr []) = PStr s"
    using get_or_plain by blast
  then show ?thesis
    by (simp add: issue_lines_def Let_def del: get_or.simps)
qed

lemma all_issue_lines_plain:
  assumes "list_all plain_item items"
  shows "\<exists>ls. all_issue_lines items = Inr ls"
  using assms
proof (induction items)
  case Nil
  show ?case by simp
next
  case (Cons it its)
  obtain ls where "issue_lines it = Inr ls"
    using issue_lines_plain Cons.prems by auto
  moreover obtain rest where "all_issue_lines its = Inr rest"
    using Cons by auto
  ultimately show ?case by simp
qed

lemma build_fallback_markdown_head:
  assumes "list_all plain_item items"
  shows "\<exists>rest. build_fallback_markdown topic items =
     Inr (ascii ''# '' @ (if topic \<noteq> [] then topic else lit_default_topic) @ [10] @ rest)"
proof -
  obtain dt where dt: "dom_text items = Inr dt"
    using dom_text_plain [OF assms] by blast
  obtain ls where ls: "all_issue_lines items = Inr ls"
    using all_issue_lines_plain [OF assms] by blast
  show ?thesis
    by (simp add: build_fallback_markdown_def Let_def dt ls)
qed

lemma map_of_str_item: "map_of (str_item it) k = map_option PStr (map_of it k)"
  by (induction it) (auto simp: str_item_def)

lemma plain_str_item: "plain_item (str_item it)"
  by (auto simp: plain_item_def plain_field_def map_of_str_item string_or_falsy_def
        split: option.splits)

text \<open>
  On the items of the handler's model, whose fields are strings, the function returns,
  and \<open>fallback_report\<close> is what it returns.
\<close>

lemma build_fallback_markdown_of_strings:
  "build_fallback_markdown topic (map str_item items) = Inr (fallback_report topic items)"
proof -
  have "list_all plain_item (map str_item items)"
    by (simp add: list_all_iff plain_str_item)
  then obtain rest where "build_fallback_markdown topic (map str_item items) =
     Inr (ascii ''# '' @ (if topic \<noteq> [] then topic else lit_default_topic) @ [10] @ rest)"
    using build_fallback_markdown_head by blast
  then show ?thesis
    by (simp add: fallback_report_def)
qed

text \<open>
  C7, as the code has it. For every topic and every list of items, the empty list
  included, in which the fields \<open>source\<close> and \<open>article_text\<close> of every item are strings
  or falsy (absent, \<open>None\<close>, empty, zero), whatever the other fields hold,
  \<open>build_fallback_markdown\<close> raises nothing and returns a string that is not empty and
  that contains the topic: its first line is \<open>#\<close>, a space and the topic, or the
  default title when the topic is the empty string.
\<close>

theorem build_fallback_markdown_contains_topic:
  assumes "list_all plain_item items"
  shows "\<exists>md. build_fallback_markdown topic items = Inr md
           \<and> md \<noteq> []
           \<and> contains topic md
           \<and> prefix (ascii ''# '' @ (if topic \<noteq> [] then topic else lit_default_topic) @ [10]) md"
proof -
  obtain rest where eq: "build_fallback_markdown topic items =
      Inr (ascii ''# '' @ (if topic \<noteq> [] then topic else lit_default_topic) @ [10] @ rest)"
    using build_fallback_markdown_head [OF assms] by blast
  let ?md = "ascii ''# '' @ (if topic \<noteq> [] then topic else lit_default_topic) @ [10] @ rest"
  have ne: "?md \<noteq> []"
    by (simp add: ascii_simps)
  have pre: "prefix (ascii ''# '' @ (if topic \<noteq> [] then topic else lit_default_topic) @ [10]) ?md"
    by simp
  have con: "contains topic ?md"
  proof (cases "topic = []")
    case True
    then show ?thesis by (simp add: contains_Nil)
  next
    case False
    then have "?md = ascii ''# '' @ topic @ ([10] @ rest)"
      by simp
    then show ?thesis
      by (simp only: contains_append)
  qed
  show ?thesis
    using eq ne con pre by blast
qed

theorem build_fallback_markdown_contains_topic_witness:
  "list_all plain_item
     [[(ascii ''source'', PStr (ascii ''a.com'')), (ascii ''title'', PInt 7),
       (ascii ''article_text'', PStr (ascii ''text''))],
      [(ascii ''source'', PNone), (ascii ''href'', PUnhashable (ascii ''[1]''))]]
   \<and> (\<exists>md. build_fallback_markdown (ascii ''AI'')
              [[(ascii ''source'', PStr (ascii ''a.com'')), (ascii ''title'', PInt 7),
                (ascii ''article_text'', PStr (ascii ''text''))],
               [(ascii ''source'', PNone), (ascii ''href'', PUnhashable (ascii ''[1]''))]]
            = Inr md
          \<and> md \<noteq> [] \<and> contains (ascii ''AI'') md)
   \<and> (\<exists>md. build_fallback_markdown (ascii ''AI'') [] = Inr md \<and> take 5 md = ascii ''# AI'' @ [10])"
proof -
  let ?items = "[[(ascii ''source'', PStr (ascii ''a.com'')), (ascii ''title'', PInt 7),
       (ascii ''article_text'', PStr (ascii ''text''))],
      [(ascii ''source'', PNone), (ascii ''href'', PUnhashable (ascii ''[1]''))]]"
  have p: "list_all plain_item ?items"
    by (simp add: plain_item_def plain_field_def string_or_falsy_def ascii_simps)
  have 1: "\<exists>md. build_fallback_markdown (ascii ''AI'') ?items = Inr md
          \<and> md \<noteq> [] \<and> contains (ascii ''AI'') md"
    using build_fallback_markdown_contains_topic [OF p, of "ascii ''AI''"] by blast
  have e: "list_all plain_item []"
    by simp
  obtain md where md: "build_fallback_markdown (ascii ''AI'') [] = Inr md"
      and pre: "prefix (ascii ''# '' @ (if ascii ''AI'' \<noteq> [] then ascii ''AI'' else lit_default_topic)
                  @ [10]) md"
    using build_fallback_markdown_contains_topic [OF e, of "ascii ''AI''"] by blast
  have "prefix (ascii ''# AI'' @ [10]) md"
    using pre by (simp add: ascii_simps)
  then obtain rest where "md = (ascii ''# AI'' @ [10]) @ rest"
    by (auto simp: prefix_def)
  then have "take 5 md = ascii ''# AI'' @ [10]"
    by (simp add: ascii_simps)
  then have 2: "\<exists>md. build_fallback_markdown (ascii ''AI'') [] = Inr md
                  \<and> take 5 md = ascii ''# AI'' @ [10]"
    using md by blast
  show ?thesis
    using p 1 2 by blast
qed

text \<open>
  A source that is a list cannot be hashed, a string and an integer with the same
  count cannot be sorted, and an \<open>article_text\<close> that is a number has no \<open>strip\<close>: the
  function raises on each.
\<close>

theorem build_fallback_markdown_raises:
  "build_fallback_markdown (ascii ''AI'') [[(ascii ''source'', PUnhashable (ascii ''[1]''))]]
     = Inl TypeError
   \<and> build_fallback_markdown (ascii ''AI'')
       [[(ascii ''source'', PInt 1)], [(ascii ''source'', PStr (ascii ''a.com''))]]
     = Inl TypeError
   \<and> build_fallback_markdown (ascii ''AI'') [[(ascii ''article_text'', PInt 5)]]
     = Inl AttributeError"
  by (simp add: build_fallback_markdown_def dom_text_def sorted_by_key_def key_less_def
        issue_lines_def Let_def ascii_simps)

section \<open>The fallback between providers\<close>

lemma provider_names_distinct:
  "ascii ''crawler'' \<noteq> ascii ''mcp''" "ascii ''crawler'' \<noteq> ascii ''llm''"
  "ascii ''mcp'' \<noteq> ascii ''llm''" "ascii ''mcp'' \<noteq> ascii ''crawler''"
  "ascii ''llm'' \<noteq> ascii ''crawler''" "ascii ''llm'' \<noteq> ascii ''mcp''"
  "ascii ''mock'' \<noteq> ascii ''llm''" "ascii ''mock'' \<noteq> ascii ''mcp''"
  "ascii ''mock'' \<noteq> ascii ''crawler''"
  by (simp_all add: ascii_simps)

lemma select_provider_fallback:
  assumes "select_provider provider s = (ss0, Some fb)"
  shows "provider = ascii ''llm'' \<or> provider = ascii ''mcp'' \<or> provider = ascii ''crawler''"
  using assms by (auto simp: select_provider_def split: if_splits)

lemma fallback_if_not_provider: "fallback_if w False ddgs_fallback st = st"
  by (cases st) (auto simp: fallback_if_def split: option.splits)

lemma fallback_if_nonempty:
  "items \<noteq> [] \<Longrightarrow> fallback_if w b ddgs_fallback (None, items, ss, evs) = (None, items, ss, evs)"
  by (auto simp: fallback_if_def split: option.splits)

lemma fallback_if_raised:
  "fallback_if w b ddgs_fallback (Some e, items, ss, evs) = (Some e, items, ss, evs)"
  by (simp add: fallback_if_def)

lemma fallback_if_fires:
  "fallback_if w True (Some fb) (None, [], ss, evs) =
     (case search_result w fb of
        Inr items' \<Rightarrow> (None, items', fb, evs @ [LogFallback fb, SearchCall fb])
      | Inl e \<Rightarrow> (Some e, [], ss, evs @ [LogFallback fb, SearchCall fb]))"
  by (simp add: fallback_if_def)

lemma search_stage_primary_raises:
  assumes "search_result w ss0 = Inl e"
  shows "search_stage w provider ss0 ddgs_fallback = ([], ss0, [SearchCall ss0, LogSearchException e])"
  using assms by (simp add: search_stage_def fallback_if_raised)

lemma search_stage_primary_nonempty:
  assumes "search_result w ss0 = Inr items" and "items \<noteq> []"
  shows "search_stage w provider ss0 ddgs_fallback = (items, ss0, [SearchCall ss0])"
  using assms by (simp add: search_stage_def fallback_if_nonempty)

lemma search_stage_no_fallback:
  assumes "search_result w ss0 = Inr items"
  shows "search_stage w provider ss0 None = (items, ss0, [SearchCall ss0])"
  using assms by (simp add: search_stage_def fallback_if_def)

lemma search_stage_fallback:
  assumes p: "provider = ascii ''llm'' \<or> provider = ascii ''mcp'' \<or> provider = ascii ''crawler''"
    and empty: "search_result w ss0 = Inr []"
  shows "search_stage w provider ss0 (Some fb) =
     (case search_result w fb of
        Inr items' \<Rightarrow> (items', fb, [SearchCall ss0, LogFallback fb, SearchCall fb])
      | Inl e \<Rightarrow> ([], ss0, [SearchCall ss0, LogFallback fb, SearchCall fb, LogSearchException e]))"
proof -
  let ?st0 = "(None, [], ss0, [SearchCall ss0]) :: search_state"
  let ?fired = "fallback_if w True (Some fb) ?st0"
  have fired: "?fired =
     (case search_result w fb of
        Inr items' \<Rightarrow> (None, items', fb, [SearchCall ss0, LogFallback fb, SearchCall fb])
      | Inl e \<Rightarrow> (Some e, [], ss0, [SearchCall ss0, LogFallback fb, SearchCall fb]))"
    by (simp add: fallback_if_fires split: sum.splits)
  have chain: "fallback_if w (provider = ascii ''llm'') (Some fb)
                 (fallback_if w (provider = ascii ''mcp'') (Some fb)
                    (fallback_if w (provider = ascii ''crawler'') (Some fb) ?st0)) = ?fired"
    using p
  proof (elim disjE)
    assume "provider = ascii ''llm''"
    then show ?thesis by (simp add: provider_names_distinct fallback_if_not_provider)
  next
    assume "provider = ascii ''mcp''"
    then show ?thesis by (simp add: provider_names_distinct fallback_if_not_provider)
  next
    assume "provider = ascii ''crawler''"
    then show ?thesis by (simp add: provider_names_distinct fallback_if_not_provider)
  qed
  have "search_stage w provider ss0 (Some fb) =
          (case ?fired of
             (Some e, items, ss, evs) \<Rightarrow> ([], ss, evs @ [LogSearchException e])
           | (None, items, ss, evs) \<Rightarrow> (items, ss, evs))"
    using empty chain by (simp add: search_stage_def Let_def)
  then show ?thesis
    unfolding fired by (cases "search_result w fb") simp_all
qed

lemma analyze_events:
  assumes "topic \<noteq> []"
    and "select_provider (py_lower (getenv env (ascii ''SEARCH_PROVIDER'') (ascii ''ddgs''))) s
           = (ss0, ddgs_fallback)"
    and "search_stage w (py_lower (getenv env (ascii ''SEARCH_PROVIDER'') (ascii ''ddgs''))) ss0
           ddgs_fallback = (items, ss, evs1)"
  shows "\<exists>rest. snd (snd (analyze w s env topic)) = evs1 @ [GatherCall ss items] @ rest"
  using assms
  by (simp add: analyze_def Let_def split: sum.splits option.splits prod.splits)

text \<open>
  C1, as the code has it. When the search of the configured provider returns an empty
  list, without raising, and a fallback provider is configured (\<open>llm\<close>, \<open>mcp\<close>, and
  \<open>crawler\<close> unless strict), the fallback's search is called; when it returns, its items
  are the items of the request, empty or not, and it is the provider through which
  \<open>gather_readables\<close> is called; when it raises, the request goes on with no items and
  the first provider. When the search of the configured provider itself raises, the
  exception is caught and logged, the request goes on with no items, and the fallback
  is not called.
\<close>

theorem fallback_provider_on_empty_result:
  assumes "topic \<noteq> []"
    and "provider = py_lower (getenv env (ascii ''SEARCH_PROVIDER'') (ascii ''ddgs''))"
    and "select_provider provider s = (ss0, Some fb)"
    and "search_result w ss0 = Inr []"
  shows "SearchCall fb \<in> set (snd (snd (search_stage w provider ss0 (Some fb))))
    \<and> (\<forall>items'. search_result w fb = Inr items' \<longrightarrow>
          search_stage w provider ss0 (Some fb) =
            (items', fb, [SearchCall ss0, LogFallback fb, SearchCall fb])
          \<and> (\<exists>rest. snd (snd (analyze w s env topic)) =
                 [SearchCall ss0, LogFallback fb, SearchCall fb, GatherCall fb items'] @ rest))
    \<and> (\<forall>e. search_result w fb = Inl e \<longrightarrow>
          search_stage w provider ss0 (Some fb) =
            ([], ss0, [SearchCall ss0, LogFallback fb, SearchCall fb, LogSearchException e]))
    \<and> (\<forall>w' e. search_result w' ss0 = Inl e \<longrightarrow>
          search_stage w' provider ss0 (Some fb) = ([], ss0, [SearchCall ss0, LogSearchException e]))"
proof -
  have p: "provider = ascii ''llm'' \<or> provider = ascii ''mcp'' \<or> provider = ascii ''crawler''"
    using assms(3) by (rule select_provider_fallback)
  note stage = search_stage_fallback [OF p assms(4), of fb]
  have called: "SearchCall fb \<in> set (snd (snd (search_stage w provider ss0 (Some fb))))"
    unfolding stage by (cases "search_result w fb") simp_all
  have ok: "search_stage w provider ss0 (Some fb) =
            (items', fb, [SearchCall ss0, LogFallback fb, SearchCall fb])
          \<and> (\<exists>rest. snd (snd (analyze w s env topic)) =
                 [SearchCall ss0, LogFallback fb, SearchCall fb, GatherCall fb items'] @ rest)"
    if r: "search_result w fb = Inr items'" for items'
  proof -
    have st: "search_stage w provider ss0 (Some fb) =
            (items', fb, [SearchCall ss0, LogFallback fb, SearchCall fb])"
      unfolding stage using r by simp
    have "\<exists>rest. snd (snd (analyze w s env topic)) =
            [SearchCall ss0, LogFallback fb, SearchCall fb] @ [GatherCall fb items'] @ rest"
      using analyze_events [OF assms(1), of env s ss0 "Some fb" w items' fb]
        assms(2,3) st by simp
    then show ?thesis using st by simp
  qed
  have raised: "search_stage w provider ss0 (Some fb) =
            ([], ss0, [SearchCall ss0, LogFallback fb, SearchCall fb, LogSearchException e])"
    if "search_result w fb = Inl e" for e
    unfolding stage using that by simp
  have primary: "search_stage w' provider ss0 (Some fb) = ([], ss0, [SearchCall ss0, LogSearchException e])"
    if "search_result w' ss0 = Inl e" for w' e
    using that by (rule search_stage_primary_raises)
  show ?thesis
    using called ok raised primary by blast
qed

theorem fallback_provider_on_empty_result_witness:
  "(let s = \<lparr>MAX_RESULTS = 12, MAX_FETCH_HTML = 8, ONLY_TRUSTED = False,
               TRUSTED_DOMAINS = [], BLACKLIST_DOMAINS = [],
               PER_SITE_LIMIT = 5, MAX_TOTAL_LIMIT = 30, TIME_RANGE_DAYS = 15,
               CRAWLER_STRICT = False, SUPPRESS_THRESHOLD = 3, SUPPRESS_TTL_HOURS = 24\<rparr>;
        a = [(ascii ''href'', ascii ''https://a.com/1'')];
        b = [(ascii ''href'', ascii ''https://b.com/1'')];
        w = \<lparr>search_result = (\<lambda>svc. if svc = SearchService then Inr [a, b] else Inr []),
             gather_result = (\<lambda>svc its. Inr its),
             stage1 = Inr [], stage2 = Inr [], classic = Inr [],
             files = None, render_html = Inr []\<rparr>;
        env = [ascii ''SEARCH_PROVIDER'' \<mapsto> ascii ''Crawler'']
    in search_stage w (ascii ''crawler'') CrawlerService (Some SearchService) =
         ([a, b], SearchService,
          [SearchCall CrawlerService, LogFallback SearchService, SearchCall SearchService])
     \<and> take 4 (snd (snd (analyze w s env (ascii ''X'')))) =
         [SearchCall CrawlerService, LogFallback SearchService, SearchCall SearchService,
          GatherCall SearchService [a, b]])"
proof -
  let ?s = "\<lparr>MAX_RESULTS = 12, MAX_FETCH_HTML = 8, ONLY_TRUSTED = False,
               TRUSTED_DOMAINS = [], BLACKLIST_DOMAINS = [],
               PER_SITE_LIMIT = 5, MAX_TOTAL_LIMIT = 30, TIME_RANGE_DAYS = 15,
               CRAWLER_STRICT = False, SUPPRESS_THRESHOLD = 3, SUPPRESS_TTL_HOURS = 24\<rparr>"
  let ?a = "[(ascii ''href'', ascii ''https://a.com/1'')]"
  let ?b = "[(ascii ''href'', ascii ''https://b.com/1'')]"
  let ?w = "\<lparr>search_result = (\<lambda>svc. if svc = SearchService then Inr [?a, ?b] else Inr []),
             gather_result = (\<lambda>svc its. Inr its),
             stage1 = Inr [], stage2 = Inr [], classic = Inr [],
             files = None, render_html = Inr []\<rparr>"
  let ?env = "[ascii ''SEARCH_PROVIDER'' \<mapsto> ascii ''Crawler'']"
  have topic: "ascii ''X'' \<noteq> []"
    by (simp add: ascii_simps)
  have prov: "ascii ''crawler'' = py_lower (getenv ?env (ascii ''SEARCH_PROVIDER'') (ascii ''ddgs''))"
    by (simp add: getenv_def py_lower_def lower_cp_def ascii_simps)
  have sel: "select_provider (ascii ''crawler'') ?s = (CrawlerService, Some SearchService)"
    by (simp add: select_provider_def ascii_simps)
  have empty: "search_result ?w CrawlerService = Inr []"
    by simp
  have second: "search_result ?w SearchService = Inr [?a, ?b]"
    by simp
  note main = fallback_provider_on_empty_result [OF topic prov sel empty,
      THEN conjunct2, THEN conjunct1, rule_format, OF second]
  have 1: "search_stage ?w (ascii ''crawler'') CrawlerService (Some SearchService) =
         ([?a, ?b], SearchService,
          [SearchCall CrawlerService, LogFallback SearchService, SearchCall SearchService])"
    using main by (rule conjunct1)
  obtain rest where "snd (snd (analyze ?w ?s ?env (ascii ''X''))) =
       [SearchCall CrawlerService, LogFallback SearchService, SearchCall SearchService,
        GatherCall SearchService [?a, ?b]] @ rest"
    using main by blast
  then have 2: "take 4 (snd (snd (analyze ?w ?s ?env (ascii ''X'')))) =
       [SearchCall CrawlerService, LogFallback SearchService, SearchCall SearchService,
        GatherCall SearchService [?a, ?b]]"
    by simp
  show ?thesis
    unfolding Let_def using 1 2 by (rule conjI)
qed

text \<open>
  The crawler as the configured provider, with the web search as its fallback: when
  the crawler's search raises (here while its HTTP client is set up), the fallback is
  not searched, although it would return two items.
\<close>

theorem fallback_skipped_when_primary_raises:
  "(let s = \<lparr>MAX_RESULTS = 12, MAX_FETCH_HTML = 8, ONLY_TRUSTED = False,
               TRUSTED_DOMAINS = [], BLACKLIST_DOMAINS = [],
               PER_SITE_LIMIT = 5, MAX_TOTAL_LIMIT = 30, TIME_RANGE_DAYS = 15,
               CRAWLER_STRICT = False, SUPPRESS_THRESHOLD = 3, SUPPRESS_TTL_HOURS = 24\<rparr>;
        a = [(ascii ''href'', ascii ''https://a.com/1'')];
        b = [(ascii ''href'', ascii ''https://b.com/1'')];
        w = \<lparr>search_result =
               (\<lambda>svc. if svc = CrawlerService
                      then CrawlerService_search (crawler_of_settings s)
                             (Some (OtherException (ascii ''ImportError''))) []
                      else Inr [a, b]),
             gather_result = (\<lambda>svc its. Inr its),
             stage1 = Inr [], stage2 = Inr [], classic = Inr [],
             files = None, render_html = Inr []\<rparr>
    in select_provider (ascii ''crawler'') s = (CrawlerService, Some SearchService)
     \<and> search_result w SearchService = Inr [a, b]
     \<and> search_stage w (ascii ''crawler'') CrawlerService (Some SearchService) =
         ([], CrawlerService,
          [SearchCall CrawlerService, LogSearchException (OtherException (ascii ''ImportError''))]))"
  by (simp add: Let_def select_provider_def search_stage_def fallback_if_def
        CrawlerService_search_def ascii_simps)

section \<open>Expert mode, its demotion and the process environment\<close>

lemma expert_flag_false:
  "env (ascii ''EXPERT_MODE'') = Some (ascii ''false'') \<Longrightarrow> \<not> expert_flag env"
  by (simp add: expert_flag_def getenv_def py_lower_def lower_cp_def ascii_simps)

lemma fallback_if_search_events:
  "list_all is_search_event (snd (snd (snd st))) \<Longrightarrow>
     list_all is_search_event (snd (snd (snd (fallback_if w b ddgs_fallback st))))"
  by (cases st) (auto simp: fallback_if_def split: option.splits sum.splits)

lemma search_stage_events:
  "list_all is_search_event (snd (snd (search_stage w provider ss0 ddgs_fallback)))"
proof -
  let ?st0 = "case search_result w ss0 of
                   Inr items \<Rightarrow> (None, items, ss0, [SearchCall ss0])
                 | Inl e \<Rightarrow> (Some e, [], ss0, [SearchCall ss0])"
  let ?st3 = "fallback_if w (provider = ascii ''llm'') ddgs_fallback
                (fallback_if w (provider = ascii ''mcp'') ddgs_fallback
                   (fallback_if w (provider = ascii ''crawler'') ddgs_fallback ?st0))"
  have "list_all is_search_event (snd (snd (snd ?st0)))"
    by (cases "search_result w ss0") simp_all
  then have "list_all is_search_event (snd (snd (snd ?st3)))"
    by (intro fallback_if_search_events)
  moreover have "search_stage w provider ss0 ddgs_fallback =
      (case ?st3 of
           (Some e, items, ss, evs) \<Rightarrow> ([], ss, evs @ [LogSearchException e])
         | (None, items, ss, evs) \<Rightarrow> (items, ss, evs))"
    by (simp add: search_stage_def Let_def)
  ultimately show ?thesis
    by (cases ?st3) (auto split: option.splits)
qed

lemma search_stage_no_stage1:
  "Stage1Call \<notin> set (snd (snd (search_stage w provider ss0 ddgs_fallback)))
   \<and> Stage2Call \<notin> set (snd (snd (search_stage w provider ss0 ddgs_fallback)))"
  using search_stage_events [of w provider ss0 ddgs_fallback]
  by (auto simp: list_all_iff)

lemma classic_stage_no_stage1: "Stage1Call \<notin> set (snd (classic_stage w topic items_readable))"
  by (auto simp: classic_stage_def Let_def split: sum.splits if_splits)

lemma synthesize_classic:
  "synthesize w False topic items_readable = classic_stage w topic items_readable"
  by (simp add: synthesize_def split: prod.splits)

lemma synthesize_demoted:
  assumes "stage1 w = Inr json_text" and "lacks_references (try_parse_json_object json_text)"
  shows "synthesize w True topic items_readable =
           (fst (classic_stage w topic items_readable),
            [Stage1Call, LogDemoted] @ snd (classic_stage w topic items_readable))"
  using assms by (simp add: synthesize_def expert_stage_def split: prod.splits)

lemma classic_stage_with_evidence:
  assumes "list_ex has_text items_readable"
  shows "\<exists>tail. snd (classic_stage w topic items_readable) = ClassicCall # tail
            \<and> set tail \<subseteq> {FallbackReport}"
  using assms by (auto simp: classic_stage_def Let_def split: sum.splits)

text \<open>The handler, once the topic is there and \<open>gather_readables\<close> has returned.\<close>

lemma analyze_gathered:
  assumes "topic \<noteq> []" and "gathered w s env topic = Inr items_readable"
  shows "\<exists>pre.
     analyze w s env topic =
       (let env1 = (if filter has_text items_readable = []
                    then env(ascii ''EXPERT_MODE'' \<mapsto> ascii ''false'') else env);
            syn = synthesize w (expert_flag env1) topic items_readable;
            evs = pre @ snd syn
        in (env1,
            (case files w of
               Some e \<Rightarrow> Unhandled e
             | None \<Rightarrow>
                 (case render_html w of
                    Inl e \<Rightarrow> Unhandled (OtherException (ascii ''UnboundLocalError''))
                  | Inr body_html \<Rightarrow>
                      Report \<lparr>markdown = fst syn, html = body_html,
                              mode = (if expert_flag env1 then ascii ''expert''
                                      else ascii ''classic''),
                              fallback =
                                (if pre = [] \<or> (\<exists>ss. last pre = GatherCall ss [])
                                 then lit_search_empty
                                 else if contains lit_model_unavailable (fst syn)
                                      then lit_llm_failed else [])\<rparr>)),
            evs))
     \<and> Stage1Call \<notin> set pre \<and> Stage2Call \<notin> set pre"
proof -
  let ?provider = "py_lower (getenv env (ascii ''SEARCH_PROVIDER'') (ascii ''ddgs''))"
  obtain ss0 fb where sel: "select_provider ?provider s = (ss0, fb)"
    by (cases "select_provider ?provider s")
  obtain items ss evs1 where st: "search_stage w ?provider ss0 fb = (items, ss, evs1)"
    by (cases "search_stage w ?provider ss0 fb")
  have g: "gather_result w ss items = Inr items_readable"
    using assms(2) sel st by (simp add: gathered_def)
  have no1: "Stage1Call \<notin> set evs1 \<and> Stage2Call \<notin> set evs1"
    using search_stage_no_stage1 [of w ?provider ss0 fb] st by simp
  let ?pre = "evs1 @ [GatherCall ss items]"
  have last: "(?pre = [] \<or> (\<exists>ss'. last ?pre = GatherCall ss' [])) = (length items = 0)"
    by auto
  have "analyze w s env topic =
       (let env1 = (if filter has_text items_readable = []
                    then env(ascii ''EXPERT_MODE'' \<mapsto> ascii ''false'') else env);
            syn = synthesize w (expert_flag env1) topic items_readable;
            evs = ?pre @ snd syn
        in (env1,
            (case files w of
               Some e \<Rightarrow> Unhandled e
             | None \<Rightarrow>
                 (case render_html w of
                    Inl e \<Rightarrow> Unhandled (OtherException (ascii ''UnboundLocalError''))
                  | Inr body_html \<Rightarrow>
                      Report \<lparr>markdown = fst syn, html = body_html,
                              mode = (if expert_flag env1 then ascii ''expert''
                                      else ascii ''classic''),
                              fallback =
                                (if ?pre = [] \<or> (\<exists>ss. last ?pre = GatherCall ss [])
                                 then lit_search_empty
                                 else if contains lit_model_unavailable (fst syn)
                                      then lit_llm_failed else [])\<rparr>)),
            evs))"
    unfolding last using assms(1) sel st g
    by (cases "files w"; cases "render_html w")
       (simp_all add: analyze_def Let_def case_prod_beta)
  moreover have "Stage1Call \<notin> set ?pre \<and> Stage2Call \<notin> set ?pre"
    using no1 by simp
  ultimately show ?thesis by blast
qed

lemma analyze_no_topic: "analyze w s env [] = (env, BadRequest, [])"
  by (simp add: analyze_def)

lemma analyze_gather_failed:
  assumes "topic \<noteq> []" and "gathered w s env topic = Inl e"
  shows "\<exists>pre. analyze w s env topic = (env, GatherFailed e, pre) \<and> Stage1Call \<notin> set pre"
proof -
  let ?provider = "py_lower (getenv env (ascii ''SEARCH_PROVIDER'') (ascii ''ddgs''))"
  obtain ss0 fb where sel: "select_provider ?provider s = (ss0, fb)"
    by (cases "select_provider ?provider s")
  obtain items ss evs1 where st: "search_stage w ?provider ss0 fb = (items, ss, evs1)"
    by (cases "search_stage w ?provider ss0 fb")
  have g: "gather_result w ss items = Inl e"
    using assms(2) sel st by (simp add: gathered_def)
  have no1: "Stage1Call \<notin> set evs1"
    using search_stage_no_stage1 [of w ?provider ss0 fb] st by simp
  have "analyze w s env topic = (env, GatherFailed e, evs1 @ [GatherCall ss items])"
    using assms(1) sel st g by (simp add: analyze_def Let_def)
  then show ?thesis using no1 by simp
qed

lemma analyze_expert_off:
  assumes off: "env (ascii ''EXPERT_MODE'') = Some (ascii ''false'')"
  shows "fst (analyze w s env topic) (ascii ''EXPERT_MODE'') = Some (ascii ''false'')
         \<and> Stage1Call \<notin> set (snd (snd (analyze w s env topic)))
         \<and> (\<forall>r. fst (snd (analyze w s env topic)) = Report r \<longrightarrow> mode r = ascii ''classic'')"
proof (cases "topic = []")
  case True
  then show ?thesis using off by (simp add: analyze_no_topic)
next
  case False
  show ?thesis
  proof (cases "gathered w s env topic")
    case (Inl e)
    then obtain pre where "analyze w s env topic = (env, GatherFailed e, pre)"
        and "Stage1Call \<notin> set pre"
      using analyze_gather_failed [OF False] by blast
    then show ?thesis using off by simp
  next
    case (Inr items_readable)
    let ?env1 = "if filter has_text items_readable = []
                 then env(ascii ''EXPERT_MODE'' \<mapsto> ascii ''false'') else env"
    have env1: "?env1 (ascii ''EXPERT_MODE'') = Some (ascii ''false'')"
      using off by simp
    then have flag: "\<not> expert_flag ?env1"
      by (rule expert_flag_false)
    obtain pre where a: "analyze w s env topic =
       (let env1 = ?env1;
            syn = synthesize w (expert_flag env1) topic items_readable;
            evs = pre @ snd syn
        in (env1,
            (case files w of
               Some e \<Rightarrow> Unhandled e
             | None \<Rightarrow>
                 (case render_html w of
                    Inl e \<Rightarrow> Unhandled (OtherException (ascii ''UnboundLocalError''))
                  | Inr body_html \<Rightarrow>
                      Report \<lparr>markdown = fst syn, html = body_html,
                              mode = (if expert_flag env1 then ascii ''expert''
                                      else ascii ''classic''),
                              fallback =
                                (if pre = [] \<or> (\<exists>ss. last pre = GatherCall ss [])
                                 then lit_search_empty
                                 else if contains lit_model_unavailable (fst syn)
                                      then lit_llm_failed else [])\<rparr>)),
            evs))"
      and pre: "Stage1Call \<notin> set pre"
      using analyze_gathered [OF False Inr] by blast
    have 1: "fst (analyze w s env topic) = ?env1"
      unfolding a by (simp add: Let_def)
    have 2: "snd (snd (analyze w s env topic)) = pre @ snd (classic_stage w topic items_readable)"
      unfolding a using flag by (simp add: Let_def synthesize_classic)
    have 3: "mode r = ascii ''classic''" if "fst (snd (analyze w s env topic)) = Report r" for r
      using that flag unfolding a
      by (auto simp: Let_def split: option.splits sum.splits)
    show ?thesis
      using 1 env1 2 pre classic_stage_no_stage1 [of w topic items_readable] 3 by simp
  qed
qed

lemma serve_expert_off:
  assumes "env (ascii ''EXPERT_MODE'') = Some (ascii ''false'')"
  shows "\<forall>(resp, evs) \<in> set (snd (serve reqs env)).
           Stage1Call \<notin> set evs \<and> (\<forall>r. resp = Report r \<longrightarrow> mode r = ascii ''classic'')"
  using assms
proof (induction reqs arbitrary: env)
  case Nil
  show ?case by simp
next
  case (Cons req reqs)
  obtain w s topic where req: "req = (w, s, topic)"
    by (cases req)
  obtain env' resp evs where a: "analyze w s env topic = (env', resp, evs)"
    by (cases "analyze w s env topic")
  have here: "env' (ascii ''EXPERT_MODE'') = Some (ascii ''false'')
              \<and> Stage1Call \<notin> set evs \<and> (\<forall>r. resp = Report r \<longrightarrow> mode r = ascii ''classic'')"
    using analyze_expert_off [where env = env and w = w and s = s and topic = topic] Cons.prems a
    by simp
  then have rest: "\<forall>(resp, evs) \<in> set (snd (serve reqs env')).
           Stage1Call \<notin> set evs \<and> (\<forall>r. resp = Report r \<longrightarrow> mode r = ascii ''classic'')"
    using Cons.IH by blast
  have "snd (serve (req # reqs) env) = (resp, evs) # snd (serve reqs env')"
    using req a by (simp split: prod.splits)
  then show ?case
    using here rest by simp
qed

text \<open>
  C9. When the topic is there and \<open>gather_readables\<close> returns items of which none has
  text, the request leaves \<open>EXPERT_MODE = false\<close> in the environment of the process;
  it makes no stage-1 call itself and reports the mode \<open>classic\<close>, and so does every
  request the process serves afterwards, whatever its world, settings and topic:
  nothing in the handler sets the variable back.
\<close>

theorem expert_mode_switched_off_for_the_process:
  assumes "topic \<noteq> []"
    and "gathered w s env topic = Inr items_readable"
    and "length (filter has_text items_readable) = 0"
  shows "fst (analyze w s env topic) = env(ascii ''EXPERT_MODE'' \<mapsto> ascii ''false'')
    \<and> Stage1Call \<notin> set (snd (snd (analyze w s env topic)))
    \<and> (\<forall>r. fst (snd (analyze w s env topic)) = Report r \<longrightarrow> mode r = ascii ''classic'')
    \<and> (\<forall>reqs. \<forall>(resp, evs) \<in> set (snd (serve reqs (fst (analyze w s env topic)))).
          Stage1Call \<notin> set evs \<and> (\<forall>r. resp = Report r \<longrightarrow> mode r = ascii ''classic''))"
proof -
  let ?env1 = "env(ascii ''EXPERT_MODE'' \<mapsto> ascii ''false'')"
  have none: "filter has_text items_readable = []"
    using assms(3) by simp
  have flag: "\<not> expert_flag ?env1"
    by (rule expert_flag_false) simp
  obtain pre where a: "analyze w s env topic =
       (let env1 = (if filter has_text items_readable = [] then ?env1 else env);
            syn = synthesize w (expert_flag env1) topic items_readable;
            evs = pre @ snd syn
        in (env1,
            (case files w of
               Some e \<Rightarrow> Unhandled e
             | None \<Rightarrow>
                 (case render_html w of
                    Inl e \<Rightarrow> Unhandled (OtherException (ascii ''UnboundLocalError''))
                  | Inr body_html \<Rightarrow>
                      Report \<lparr>markdown = fst syn, html = body_html,
                              mode = (if expert_flag env1 then ascii ''expert''
                                      else ascii ''classic''),
                              fallback =
                                (if pre = [] \<or> (\<exists>ss. last pre = GatherCall ss [])
                                 then lit_search_empty
                                 else if contains lit_model_unavailable (fst syn)
                                      then lit_llm_failed else [])\<rparr>)),
            evs))"
    and pre: "Stage1Call \<notin> set pre"
    using analyze_gathered [OF assms(1,2)] by blast
  have 1: "fst (analyze w s env topic) = ?env1"
    unfolding a using none by (simp add: Let_def)
  have 2: "Stage1Call \<notin> set (snd (snd (analyze w s env topic)))"
    unfolding a using none flag pre classic_stage_no_stage1 [of w topic items_readable]
    by (simp add: Let_def synthesize_classic)
  have 3: "\<forall>r. fst (snd (analyze w s env topic)) = Report r \<longrightarrow> mode r = ascii ''classic''"
    unfolding a using none flag
    by (auto simp: Let_def split: option.splits sum.splits)
  have 4: "\<forall>reqs. \<forall>(resp, evs) \<in> set (snd (serve reqs (fst (analyze w s env topic)))).
          Stage1Call \<notin> set evs \<and> (\<forall>r. resp = Report r \<longrightarrow> mode r = ascii ''classic'')"
    unfolding 1 by (intro allI serve_expert_off) simp
  show ?thesis using 1 2 3 4 by blast
qed

theorem expert_mode_switched_off_for_the_process_witness:
  "(let s = \<lparr>MAX_RESULTS = 12, MAX_FETCH_HTML = 8, ONLY_TRUSTED = False,
               TRUSTED_DOMAINS = [], BLACKLIST_DOMAINS = [],
               PER_SITE_LIMIT = 5, MAX_TOTAL_LIMIT = 30, TIME_RANGE_DAYS = 15,
               CRAWLER_STRICT = False, SUPPRESS_THRESHOLD = 3, SUPPRESS_TTL_HOURS = 24\<rparr>;
        a = [(ascii ''href'', ascii ''https://a.com/1'')];
        w = \<lparr>search_result = (\<lambda>svc. Inr [a]),
             gather_result = (\<lambda>svc its. Inr [a @ [(ascii ''article_text'', [])]]),
             stage1 = Inr [], stage2 = Inr [], classic = Inr [],
             files = None, render_html = Inr []\<rparr>;
        w2 = \<lparr>search_result = (\<lambda>svc. Inr [a]),
              gather_result = (\<lambda>svc its. Inr [a @ [(ascii ''article_text'', ascii ''text'')]]),
              stage1 = Inr [], stage2 = Inr [], classic = Inr (ascii ''report''),
              files = None, render_html = Inr []\<rparr>;
        env = [ascii ''EXPERT_MODE'' \<mapsto> ascii ''true''];
        env' = fst (analyze w s env (ascii ''X''))
    in env' = env(ascii ''EXPERT_MODE'' \<mapsto> ascii ''false'')
     \<and> Stage1Call \<notin> set (snd (snd (analyze w2 s env' (ascii ''Y'')))))"
proof -
  let ?s = "\<lparr>MAX_RESULTS = 12, MAX_FETCH_HTML = 8, ONLY_TRUSTED = False,
               TRUSTED_DOMAINS = [], BLACKLIST_DOMAINS = [],
               PER_SITE_LIMIT = 5, MAX_TOTAL_LIMIT = 30, TIME_RANGE_DAYS = 15,
               CRAWLER_STRICT = False, SUPPRESS_THRESHOLD = 3, SUPPRESS_TTL_HOURS = 24\<rparr>"
  let ?a = "[(ascii ''href'', ascii ''https://a.com/1'')]"
  let ?w = "\<lparr>search_result = (\<lambda>svc. Inr [?a]),
             gather_result = (\<lambda>svc its. Inr [?a @ [(ascii ''article_text'', [])]]),
             stage1 = Inr [], stage2 = Inr [], classic = Inr [],
             files = None, render_html = Inr []\<rparr>"
  let ?w2 = "\<lparr>search_result = (\<lambda>svc. Inr [?a]),
              gather_result = (\<lambda>svc its. Inr [?a @ [(ascii ''article_text'', ascii ''text'')]]),
              stage1 = Inr [], stage2 = Inr [], classic = Inr (ascii ''report''),
              files = None, render_html = Inr []\<rparr>"
  let ?env = "[ascii ''EXPERT_MODE'' \<mapsto> ascii ''true'']"
  let ?env' = "fst (analyze ?w ?s ?env (ascii ''X''))"
  have topic: "ascii ''X'' \<noteq> []"
    by (simp add: ascii_simps)
  have g: "gathered ?w ?s ?env (ascii ''X'') = Inr [?a @ [(ascii ''article_text'', [])]]"
    by (simp add: gathered_def Let_def case_prod_beta)
  have none: "length (filter has_text [?a @ [(ascii ''article_text'', [])]]) = 0"
    by (simp add: has_text_def py_strip_def ascii_simps)
  note main = expert_mode_switched_off_for_the_process [OF topic g none]
  have 1: "?env' = ?env(ascii ''EXPERT_MODE'' \<mapsto> ascii ''false'')"
    using main by (rule conjunct1)
  have "\<forall>(resp, evs) \<in> set (snd (serve [(?w2, ?s, ascii ''Y'')] ?env')).
          Stage1Call \<notin> set evs \<and> (\<forall>r. resp = Report r \<longrightarrow> mode r = ascii ''classic'')"
    using main [THEN conjunct2, THEN conjunct2, THEN conjunct2] by (rule spec)
  moreover have "(fst (snd (analyze ?w2 ?s ?env' (ascii ''Y''))), snd (snd (analyze ?w2 ?s ?env' (ascii ''Y''))))
                   \<in> set (snd (serve [(?w2, ?s, ascii ''Y'')] ?env'))"
    by (simp split: prod.splits)
  ultimately have 2: "Stage1Call \<notin> set (snd (snd (analyze ?w2 ?s ?env' (ascii ''Y''))))"
    by blast
  show ?thesis
    unfolding Let_def using 1 2 by (rule conjI)
qed

lemma no_json_here: "try_parse_json_object (ascii ''no json here'') = []"
  by (simp add: try_parse_json_object_def strip_fences_def py_strip_def is_py_space_def
        sub_fence_open_def sub_fence_close_def strip_fence_close_def strip_suffix_def
        search_start_def json_loads_def skip_ws_def is_json_ws_def match_number_def
        Let_def ascii_simps)

lemma analyze_mode:
  assumes "analyze w s env topic = (env', Report r, evs)"
  shows "mode r = (if expert_flag env' then ascii ''expert'' else ascii ''classic'')"
proof (cases "topic = []")
  case True
  then show ?thesis using assms by (simp add: analyze_no_topic)
next
  case False
  show ?thesis
  proof (cases "gathered w s env topic")
    case (Inl e)
    then show ?thesis
      using analyze_gather_failed [OF False, of w s env e] assms by auto
  next
    case (Inr items_readable)
    obtain pre where a: "analyze w s env topic =
       (let env1 = (if filter has_text items_readable = []
                    then env(ascii ''EXPERT_MODE'' \<mapsto> ascii ''false'') else env);
            syn = synthesize w (expert_flag env1) topic items_readable;
            evs = pre @ snd syn
        in (env1,
            (case files w of
               Some e \<Rightarrow> Unhandled e
             | None \<Rightarrow>
                 (case render_html w of
                    Inl e \<Rightarrow> Unhandled (OtherException (ascii ''UnboundLocalError''))
                  | Inr body_html \<Rightarrow>
                      Report \<lparr>markdown = fst syn, html = body_html,
                              mode = (if expert_flag env1 then ascii ''expert''
                                      else ascii ''classic''),
                              fallback =
                                (if pre = [] \<or> (\<exists>ss. last pre = GatherCall ss [])
                                 then lit_search_empty
                                 else if contains lit_model_unavailable (fst syn)
                                      then lit_llm_failed else [])\<rparr>)),
            evs))"
      using analyze_gathered [OF False Inr] by blast
    show ?thesis
      using assms unfolding a
      by (auto simp: Let_def split: option.splits sum.splits if_splits)
  qed
qed

lemma demoted_request_reports_expert:
  "analyze
     \<lparr>search_result = (\<lambda>svc. Inr [[(ascii ''href'', ascii ''https://a.com/1'')]]),
      gather_result = (\<lambda>svc its. Inr [[(ascii ''href'', ascii ''https://a.com/1''),
                                         (ascii ''article_text'', ascii ''text'')]]),
      stage1 = Inr (ascii ''no json here''), stage2 = Inr [],
      classic = Inr (ascii ''# report''),
      files = None, render_html = Inr (ascii ''<h1>report</h1>'')\<rparr>
     \<lparr>MAX_RESULTS = 12, MAX_FETCH_HTML = 8, ONLY_TRUSTED = False,
      TRUSTED_DOMAINS = [], BLACKLIST_DOMAINS = [],
      PER_SITE_LIMIT = 5, MAX_TOTAL_LIMIT = 30, TIME_RANGE_DAYS = 15,
      CRAWLER_STRICT = False, SUPPRESS_THRESHOLD = 3, SUPPRESS_TTL_HOURS = 24\<rparr>
     Map.empty (ascii ''X'')
   = (Map.empty,
      Report \<lparr>markdown = ascii ''# report'', html = ascii ''<h1>report</h1>'',
              mode = ascii ''expert'', fallback = []\<rparr>,
      [SearchCall SearchService,
       GatherCall SearchService [[(ascii ''href'', ascii ''https://a.com/1'')]],
       Stage1Call, LogDemoted, ClassicCall])"
proof -
  have lacks: "lacks_references (try_parse_json_object (ascii ''no json here''))"
    by (simp add: no_json_here lacks_references_def)
  have flag: "expert_flag Map.empty"
    by (simp add: expert_flag_def getenv_def py_lower_def lower_cp_def ascii_simps)
  have hastext: "has_text [(ascii ''href'', ascii ''https://a.com/1''),
                        (ascii ''article_text'', ascii ''text'')]"
    by (simp add: has_text_def py_strip_def is_py_space_def ascii_simps)
  have m1: "\<not> contains lit_no_evidence_list (ascii ''# report'')"
    by (simp add: lit_no_evidence_list_def ascii_simps)
  have m2: "\<not> contains lit_no_evidence (ascii ''# report'')"
    by (simp add: lit_no_evidence_def ascii_simps)
  have m3: "\<not> contains lit_model_unavailable (ascii ''# report'')"
    by (simp add: lit_model_unavailable_def ascii_simps)
  have ne: "ascii ''# report'' \<noteq> []" "ascii ''X'' \<noteq> []"
    by (simp_all add: ascii_simps)
  have prov: "py_lower (getenv Map.empty (ascii ''SEARCH_PROVIDER'') (ascii ''ddgs'')) = ascii ''ddgs''"
    by (simp add: getenv_def py_lower_def lower_cp_def ascii_simps)
  have sel: "select_provider (ascii ''ddgs'') s = (SearchService, None)" for s
    by (simp add: select_provider_def ascii_simps)
  show ?thesis
    by (simp add: analyze_def Let_def prov sel search_stage_def fallback_if_def flag hastext
          synthesize_def expert_stage_def lacks classic_stage_def m1 m2 m3 ne)
qed

text \<open>
  C10. The field \<open>mode\<close> of a report is read from the environment when the response is
  built: \<open>expert\<close> when \<open>EXPERT_MODE\<close>, lower-cased, is \<open>true\<close> or is not set, else
  \<open>classic\<close>; the path that produced the report has no part in it. There is a request
  whose stage-1 answer does not parse, which is demoted and answered by the classic
  prompt, and whose report still says \<open>expert\<close>.
\<close>

theorem mode_field_follows_environment:
  "(\<forall>w s env topic env' r evs.
       analyze w s env topic = (env', Report r, evs) \<longrightarrow>
       mode r = (if py_lower (getenv env' (ascii ''EXPERT_MODE'') (ascii ''true'')) = ascii ''true''
                 then ascii ''expert'' else ascii ''classic''))
   \<and> (\<exists>w s env topic env' r evs.
         analyze w s env topic = (env', Report r, evs)
         \<and> stage1 w = Inr (ascii ''no json here'')
         \<and> LogDemoted \<in> set evs \<and> ClassicCall \<in> set evs \<and> Stage2Call \<notin> set evs
         \<and> markdown r = (case classic w of Inr c \<Rightarrow> c | Inl e \<Rightarrow> [])
         \<and> mode r = ascii ''expert'')"
proof (intro conjI allI impI)
  fix w s env topic env' r evs
  assume "analyze w s env topic = (env', Report r, evs)"
  then show "mode r = (if py_lower (getenv env' (ascii ''EXPERT_MODE'') (ascii ''true'')) = ascii ''true''
                 then ascii ''expert'' else ascii ''classic'')"
    using analyze_mode by (simp add: expert_flag_def)
next
  show "\<exists>w s env topic env' r evs.
         analyze w s env topic = (env', Report r, evs)
         \<and> stage1 w = Inr (ascii ''no json here'')
         \<and> LogDemoted \<in> set evs \<and> ClassicCall \<in> set evs \<and> Stage2Call \<notin> set evs
         \<and> markdown r = (case classic w of Inr c \<Rightarrow> c | Inl e \<Rightarrow> [])
         \<and> mode r = ascii ''expert''"
    by (intro exI conjI, rule demoted_request_reports_expert) simp_all
qed

theorem mode_field_follows_environment_witness:
  "fst (snd (analyze
     \<lparr>search_result = (\<lambda>svc. Inr [[(ascii ''href'', ascii ''https://a.com/1'')]]),
      gather_result = (\<lambda>svc its. Inr [[(ascii ''href'', ascii ''https://a.com/1''),
                                         (ascii ''article_text'', ascii ''text'')]]),
      stage1 = Inr (ascii ''{}''), stage2 = Inr [],
      classic = Inr (ascii ''# report''),
      files = None, render_html = Inr (ascii ''<h1>report</h1>'')\<rparr>
     \<lparr>MAX_RESULTS = 12, MAX_FETCH_HTML = 8, ONLY_TRUSTED = False,
      TRUSTED_DOMAINS = [], BLACKLIST_DOMAINS = [],
      PER_SITE_LIMIT = 5, MAX_TOTAL_LIMIT = 30, TIME_RANGE_DAYS = 15,
      CRAWLER_STRICT = False, SUPPRESS_THRESHOLD = 3, SUPPRESS_TTL_HOURS = 24\<rparr>
     [ascii ''EXPERT_MODE'' \<mapsto> ascii ''False''] (ascii ''X'')))
   = Report \<lparr>markdown = ascii ''# report'', html = ascii ''<h1>report</h1>'',
             mode = ascii ''classic'', fallback = []\<rparr>"
proof -
  let ?w = "\<lparr>search_result = (\<lambda>svc. Inr [[(ascii ''href'', ascii ''https://a.com/1'')]]),
      gather_result = (\<lambda>svc its. Inr [[(ascii ''href'', ascii ''https://a.com/1''),
                                         (ascii ''article_text'', ascii ''text'')]]),
      stage1 = Inr (ascii ''{}''), stage2 = Inr [],
      classic = Inr (ascii ''# report''),
      files = None, render_html = Inr (ascii ''<h1>report</h1>'')\<rparr>"
  let ?s = "\<lparr>MAX_RESULTS = 12, MAX_FETCH_HTML = 8, ONLY_TRUSTED = False,
      TRUSTED_DOMAINS = [], BLACKLIST_DOMAINS = [],
      PER_SITE_LIMIT = 5, MAX_TOTAL_LIMIT = 30, TIME_RANGE_DAYS = 15,
      CRAWLER_STRICT = False, SUPPRESS_THRESHOLD = 3, SUPPRESS_TTL_HOURS = 24\<rparr>"
  let ?env = "[ascii ''EXPERT_MODE'' \<mapsto> ascii ''False'']"
  have flag: "py_lower (getenv ?env (ascii ''EXPERT_MODE'') (ascii ''true'')) \<noteq> ascii ''true''"
    by (simp add: getenv_def py_lower_def lower_cp_def ascii_simps)
  then have nflag: "\<not> expert_flag ?env"
    by (simp add: expert_flag_def)
  have hastext: "has_text [(ascii ''href'', ascii ''https://a.com/1''),
                        (ascii ''article_text'', ascii ''text'')]"
    by (simp add: has_text_def py_strip_def is_py_space_def ascii_simps)
  have m1: "\<not> contains lit_no_evidence_list (ascii ''# report'')"
    by (simp add: lit_no_evidence_list_def ascii_simps)
  have m2: "\<not> contains lit_no_evidence (ascii ''# report'')"
    by (simp add: lit_no_evidence_def ascii_simps)
  have m3: "\<not> contains lit_model_unavailable (ascii ''# report'')"
    by (simp add: lit_model_unavailable_def ascii_simps)
  have ne: "ascii ''# report'' \<noteq> []" "ascii ''X'' \<noteq> []"
    by (simp_all add: ascii_simps)
  have prov: "py_lower (getenv ?env (ascii ''SEARCH_PROVIDER'') (ascii ''ddgs'')) = ascii ''ddgs''"
    by (simp add: getenv_def py_lower_def lower_cp_def ascii_simps)
  have sel: "select_provider (ascii ''ddgs'') s = (SearchService, None)" for s
    by (simp add: select_provider_def ascii_simps)
  have run: "analyze ?w ?s ?env (ascii ''X'') =
      (?env,
       Report \<lparr>markdown = ascii ''# report'', html = ascii ''<h1>report</h1>'',
               mode = (if expert_flag ?env then ascii ''expert'' else ascii ''classic''),
               fallback = []\<rparr>,
       [SearchCall SearchService,
        GatherCall SearchService [[(ascii ''href'', ascii ''https://a.com/1'')]], ClassicCall])"
    by (simp add: analyze_def Let_def prov sel search_stage_def fallback_if_def nflag hastext
          synthesize_def classic_stage_def m1 m2 m3 ne)
  have "mode \<lparr>markdown = ascii ''# report'', html = ascii ''<h1>report</h1>'',
               mode = (if expert_flag ?env then ascii ''expert'' else ascii ''classic''),
               fallback = []\<rparr> = ascii ''classic''"
    using mode_field_follows_environment [THEN conjunct1, rule_format, OF run] flag
    by simp
  then show ?thesis
    using run by simp
qed

text \<open>
  C6. A request is in expert mode when \<open>EXPERT_MODE\<close> says so and at least one gathered
  item has text (without one the variable has just been set to \<open>false\<close>). In expert
  mode, when the stage-1 call returns a text from which \<open>try_parse_json_object\<close> gets no
  object or an object without a non-empty \<open>references\<close>, the request is demoted: the
  events after \<open>gather_readables\<close> are the stage-1 call, the demotion and the classic
  call with \<open>build_prompt\<close>, followed at most by fallback reports; there is no stage-2
  call, the environment is unchanged, and when the files and the HTML can be written
  the response is a report whose Markdown is that of the classic branch. The text
  \<open>no json here\<close> parses to the empty object, which has no \<open>references\<close>.
\<close>

theorem stage1_parse_failure_demotes_to_classic:
  assumes "topic \<noteq> []"
    and "gathered w s env topic = Inr items_readable"
    and "list_ex has_text items_readable"
    and "expert_flag env"
    and "stage1 w = Inr json_text"
    and "lacks_references (try_parse_json_object json_text)"
  shows "(\<exists>pre tail. snd (snd (analyze w s env topic)) =
             pre @ [Stage1Call, LogDemoted, ClassicCall] @ tail
           \<and> Stage1Call \<notin> set pre \<and> set tail \<subseteq> {FallbackReport})
    \<and> Stage2Call \<notin> set (snd (snd (analyze w s env topic)))
    \<and> fst (analyze w s env topic) = env
    \<and> (\<forall>body_html. files w = None \<and> render_html w = Inr body_html \<longrightarrow>
          (\<exists>r. fst (snd (analyze w s env topic)) = Report r
             \<and> markdown r = fst (classic_stage w topic items_readable)))
    \<and> try_parse_json_object (ascii ''no json here'') = []
    \<and> lacks_references (try_parse_json_object (ascii ''no json here''))"
proof -
  have some: "filter has_text items_readable \<noteq> []"
    using assms(3) by (simp add: list_ex_iff filter_empty_conv)
  obtain pre where a: "analyze w s env topic =
       (let env1 = (if filter has_text items_readable = []
                    then env(ascii ''EXPERT_MODE'' \<mapsto> ascii ''false'') else env);
            syn = synthesize w (expert_flag env1) topic items_readable;
            evs = pre @ snd syn
        in (env1,
            (case files w of
               Some e \<Rightarrow> Unhandled e
             | None \<Rightarrow>
                 (case render_html w of
                    Inl e \<Rightarrow> Unhandled (OtherException (ascii ''UnboundLocalError''))
                  | Inr body_html \<Rightarrow>
                      Report \<lparr>markdown = fst syn, html = body_html,
                              mode = (if expert_flag env1 then ascii ''expert''
                                      else ascii ''classic''),
                              fallback =
                                (if pre = [] \<or> (\<exists>ss. last pre = GatherCall ss [])
                                 then lit_search_empty
                                 else if contains lit_model_unavailable (fst syn)
                                      then lit_llm_failed else [])\<rparr>)),
            evs))"
    and pre: "Stage1Call \<notin> set pre" "Stage2Call \<notin> set pre"
    using analyze_gathered [OF assms(1,2)] by blast
  have syn: "synthesize w True topic items_readable =
           (fst (classic_stage w topic items_readable),
            [Stage1Call, LogDemoted] @ snd (classic_stage w topic items_readable))"
    using assms(5,6) by (rule synthesize_demoted)
  obtain tail where tail: "snd (classic_stage w topic items_readable) = ClassicCall # tail"
      and fb: "set tail \<subseteq> {FallbackReport}"
    using classic_stage_with_evidence [OF assms(3)] by blast
  have evs: "snd (snd (analyze w s env topic)) = pre @ [Stage1Call, LogDemoted, ClassicCall] @ tail"
    unfolding a using some assms(4) syn tail by (simp add: Let_def)
  have 1: "\<exists>pre tail. snd (snd (analyze w s env topic)) =
             pre @ [Stage1Call, LogDemoted, ClassicCall] @ tail
           \<and> Stage1Call \<notin> set pre \<and> set tail \<subseteq> {FallbackReport}"
    using evs pre(1) fb by blast
  have 2: "Stage2Call \<notin> set (snd (snd (analyze w s env topic)))"
    unfolding evs using pre(2) fb by auto
  have 3: "fst (analyze w s env topic) = env"
    unfolding a using some by (simp add: Let_def)
  have 4: "\<forall>body_html. files w = None \<and> render_html w = Inr body_html \<longrightarrow>
          (\<exists>r. fst (snd (analyze w s env topic)) = Report r
             \<and> markdown r = fst (classic_stage w topic items_readable))"
    unfolding a using some assms(4) syn by (simp add: Let_def)
  have 5: "try_parse_json_object (ascii ''no json here'') = []"
    by (rule no_json_here)
  have 6: "lacks_references (try_parse_json_object (ascii ''no json here''))"
    by (simp add: no_json_here lacks_references_def)
  show ?thesis using 1 2 3 4 5 6 by blast
qed

theorem stage1_parse_failure_demotes_to_classic_witness:
  "(let w = \<lparr>search_result = (\<lambda>svc. Inr [[(ascii ''href'', ascii ''https://a.com/1'')]]),
             gather_result = (\<lambda>svc its. Inr [[(ascii ''href'', ascii ''https://a.com/1''),
                                                (ascii ''article_text'', ascii ''text'')]]),
             stage1 = Inr (ascii ''no json here''), stage2 = Inr (ascii ''# expert''),
             classic = Inr (ascii ''# classic''),
             files = None, render_html = Inr (ascii ''<h1>classic</h1>'')\<rparr>;
        s = \<lparr>MAX_RESULTS = 12, MAX_FETCH_HTML = 8, ONLY_TRUSTED = False,
             TRUSTED_DOMAINS = [], BLACKLIST_DOMAINS = [],
             PER_SITE_LIMIT = 5, MAX_TOTAL_LIMIT = 30, TIME_RANGE_DAYS = 15,
             CRAWLER_STRICT = False, SUPPRESS_THRESHOLD = 3, SUPPRESS_TTL_HOURS = 24\<rparr>;
        out = analyze w s Map.empty (ascii ''X'')
    in Stage2Call \<notin> set (snd (snd out))
     \<and> fst out = Map.empty
     \<and> (\<exists>r. fst (snd out) = Report r \<and> markdown r = ascii ''# classic''))"
proof -
  let ?items = "[[(ascii ''href'', ascii ''https://a.com/1''),
                  (ascii ''article_text'', ascii ''text'')]]"
  let ?w = "\<lparr>search_result = (\<lambda>svc. Inr [[(ascii ''href'', ascii ''https://a.com/1'')]]),
             gather_result = (\<lambda>svc its. Inr ?items),
             stage1 = Inr (ascii ''no json here''), stage2 = Inr (ascii ''# expert''),
             classic = Inr (ascii ''# classic''),
             files = None, render_html = Inr (ascii ''<h1>classic</h1>'')\<rparr>"
  let ?s = "\<lparr>MAX_RESULTS = 12, MAX_FETCH_HTML = 8, ONLY_TRUSTED = False,
             TRUSTED_DOMAINS = [], BLACKLIST_DOMAINS = [],
             PER_SITE_LIMIT = 5, MAX_TOTAL_LIMIT = 30, TIME_RANGE_DAYS = 15,
             CRAWLER_STRICT = False, SUPPRESS_THRESHOLD = 3, SUPPRESS_TTL_HOURS = 24\<rparr>"
  have topic: "ascii ''X'' \<noteq> []"
    by (simp add: ascii_simps)
  have g: "gathered ?w ?s Map.empty (ascii ''X'') = Inr ?items"
    by (simp add: gathered_def Let_def case_prod_beta)
  have hastext: "list_ex has_text ?items"
    by (simp add: has_text_def py_strip_def is_py_space_def ascii_simps)
  have flag: "expert_flag Map.empty"
    by (simp add: expert_flag_def getenv_def py_lower_def lower_cp_def ascii_simps)
  have s1: "stage1 ?w = Inr (ascii ''no json here'')"
    by simp
  have lacks: "lacks_references (try_parse_json_object (ascii ''no json here''))"
    by (simp add: no_json_here lacks_references_def)
  note main = stage1_parse_failure_demotes_to_classic [OF topic g hastext flag s1 lacks]
  have m1: "\<not> contains lit_no_evidence_list (ascii ''# classic'')"
    by (simp add: lit_no_evidence_list_def ascii_simps)
  have m2: "\<not> contains lit_no_evidence (ascii ''# classic'')"
    by (simp add: lit_no_evidence_def ascii_simps)
  have ne: "ascii ''# classic'' \<noteq> []"
    by (simp add: ascii_simps)
  have c: "fst (classic_stage ?w (ascii ''X'') ?items) = ascii ''# classic''"
    using hastext by (simp add: classic_stage_def m1 m2 ne)
  have 1: "Stage2Call \<notin> set (snd (snd (analyze ?w ?s Map.empty (ascii ''X''))))"
    using main by blast
  have 2: "fst (analyze ?w ?s Map.empty (ascii ''X'')) = Map.empty"
    using main by blast
  have "\<exists>r. fst (snd (analyze ?w ?s Map.empty (ascii ''X''))) = Report r
             \<and> markdown r = fst (classic_stage ?w (ascii ''X'') ?items)"
    using main [THEN conjunct2, THEN conjunct2, THEN conjunct2, THEN conjunct1, rule_format,
        of "ascii ''<h1>classic</h1>''"]
    by simp
  then have 3: "\<exists>r. fst (snd (analyze ?w ?s Map.empty (ascii ''X''))) = Report r
             \<and> markdown r = ascii ''# classic''"
    unfolding c .
  show ?thesis
    unfolding Let_def using 1 2 3 by blast
qed

end
